(* ===== verification/Prelude.thy ===== *)
theory Prelude
  imports Complex_Main
begin

text \<open>
  Shared vocabulary of the development. Coordinates are the source's
  \<open>LatLngTuple\<close> (\<open>[lat, lng]\<close>), read as pairs of exact reals: the code never relies
  on the rounding of JavaScript doubles, so the model keeps the arithmetic exact.
  Time is counted in whole milliseconds, as the source's \<open>setTimeout\<close> and
  \<open>setInterval\<close> delays are. JavaScript's truthiness test on an optional number
  (\<open>if (x)\<close>) is written out once here, since two components use it. The
  collections \<open>step_simps\<close> and \<open>inv_facts\<close> gather the equations that evaluate the
  handlers and the invariant facts the component proofs share.
\<close>

type_synonym coord = "real \<times> real"
type_synonym ms = nat

named_theorems step_simps "equations that evaluate the components' handlers"
named_theorems inv_facts "facts about the components' invariants shared by their proofs"

text \<open>
  \<open>if (x)\<close> on a value that is a number or undefined: undefined and \<open>0\<close> are falsy.
  (NaN, also falsy, does not arise among exact reals.)
\<close>

fun js_truthy_num :: "real option \<Rightarrow> bool" where
  "js_truthy_num None = False"
| "js_truthy_num (Some x) = (x \<noteq> 0)"

text \<open>Removing the \<open>i\<close>-th element of a list (a settled promise leaves the queue).\<close>

definition remove_nth :: "nat \<Rightarrow> 'a list \<Rightarrow> 'a list" where
  "remove_nth i xs = take i xs @ drop (Suc i) xs"

subsection \<open>Generic lemmas\<close>

lemma length_remove_nth [simp]:
  "i < length xs \<Longrightarrow> length (remove_nth i xs) = length xs - 1"
  by (simp add: remove_nth_def)

lemma set_remove_nth_subset: "set (remove_nth i xs) \<subseteq> set xs"
  by (auto simp: remove_nth_def dest: in_set_takeD in_set_dropD)

lemma remove_nth_Cons_0 [simp]: "remove_nth 0 (x # xs) = xs"
  by (simp add: remove_nth_def)

lemma remove_nth_Cons_Suc [simp]: "remove_nth (Suc i) (x # xs) = x # remove_nth i xs"
  by (simp add: remove_nth_def)

lemma find_Some_member [inv_facts]:
  "find P xs = Some x \<Longrightarrow> x \<in> set xs \<and> P x"
  by (metis find_Some_iff nth_mem)

text \<open>
  Looking an element up after mapping a function that keeps the searched-for
  predicate: the search finds the image of what it found before.
\<close>

lemma find_map_same_pred:
  assumes "\<And>x. x \<in> set xs \<Longrightarrow> P (f x) = P x"
  shows "find P (map f xs) = map_option f (find P xs)"
  using assms by (induction xs) auto

lemma find_first_index:
  "find P xs = Some x \<Longrightarrow> \<exists>j < length xs. xs ! j = x \<and> P x \<and> (\<forall>k < j. \<not> P (xs ! k))"
  by (auto simp: find_Some_iff)

lemma distinct_map_index_eq:
  "distinct (map f xs) \<Longrightarrow> i < length xs \<Longrightarrow> j < length xs \<Longrightarrow> f (xs ! i) = f (xs ! j) \<Longrightarrow> i = j"
  by (metis distinct_map nth_eq_iff_index_eq inj_on_eq_iff nth_mem)


text \<open>\<open>Math.ceil(n / 10)\<close> on a length, in integer arithmetic.\<close>

lemma ceil_div_10: "nat \<lceil>real n / 10\<rceil> = (n + 9) div 10"
proof -
  let ?q = "(n + 9) div 10"
  have "10 * ?q + (n + 9) mod 10 = n + 9" by (rule div_mult_mod_eq [of "n + 9" 10, simplified mult.commute])
  moreover have "(n + 9) mod 10 < 10" by simp
  ultimately have "n \<le> 10 * ?q" "10 * ?q < n + 10" by linarith+
  then have "real n / 10 \<le> real ?q" "real ?q - 1 < real n / 10" by linarith+
  then have "\<lceil>real n / 10\<rceil> = int ?q" by (simp add: ceiling_unique)
  then show ?thesis by simp
qed

end
