(* ===== verification/JsString.thy ===== *)
theory JsString
  imports Prelude
begin

text \<open>
  JavaScript's \<open>String.prototype.split\<close> with a one-character separator and
  \<open>Array.prototype.join\<close>, as the components use them on geocoder answers
  (\<open>addr.split(',')[0]\<close>, \<open>fetched.split(',').slice(0, 2).join(',')\<close>,
  \<open>nameParts.slice(1).join(',')\<close>). \<open>split\<close> cuts at every occurrence of the
  separator and keeps empty pieces, so it never returns the empty array
  (\<open>''.split(',')\<close> is \<open>['']\<close>); \<open>join\<close> puts the separator between the pieces.
  The components' own definitions take a shortcut over \<open>takeWhile\<close> and
  \<open>dropWhile\<close>; these reference definitions are what the shortcuts are proved
  equal to.
\<close>

fun js_split_acc :: "char \<Rightarrow> string \<Rightarrow> string \<Rightarrow> string list" where
  "js_split_acc c [] acc = [rev acc]"
| "js_split_acc c (x # xs) acc =
     (if x = c then rev acc # js_split_acc c xs [] else js_split_acc c xs (x # acc))"

definition js_split :: "char \<Rightarrow> string \<Rightarrow> string list" where
  "js_split c s = js_split_acc c s []"

fun js_join :: "char \<Rightarrow> string list \<Rightarrow> string" where
  "js_join c [] = []"
| "js_join c [x] = x"
| "js_join c (x # y # ys) = x @ c # js_join c (y # ys)"

subsection \<open>Lemmas\<close>

lemma js_split_acc_not_Nil [simp]: "js_split_acc c s acc \<noteq> []"
  by (induction c s acc rule: js_split_acc.induct) simp_all

lemma js_split_not_Nil [simp]: "js_split c s \<noteq> []"
  by (simp add: js_split_def)

lemma js_join_Cons: "l \<noteq> [] \<Longrightarrow> js_join c (x # l) = x @ c # js_join c l"
  by (cases l) simp_all

lemma dropWhile_Cons_ex [simp]: "(\<exists>a b. dropWhile P xs = a # b) \<longleftrightarrow> (\<exists>x \<in> set xs. \<not> P x)"
  by (metis dropWhile_eq_Nil_conv neq_Nil_conv)

text \<open>The first piece is everything before the first separator.\<close>

lemma js_split_acc_unfold:
  "js_split_acc c s acc =
     (case dropWhile (\<lambda>x. x \<noteq> c) s of
        [] \<Rightarrow> [rev acc @ takeWhile (\<lambda>x. x \<noteq> c) s]
      | _ # r \<Rightarrow> (rev acc @ takeWhile (\<lambda>x. x \<noteq> c) s) # js_split_acc c r [])"
  by (induction c s acc rule: js_split_acc.induct) (auto split: list.split)

lemma js_split_unfold:
  "js_split c s =
     (case dropWhile (\<lambda>x. x \<noteq> c) s of
        [] \<Rightarrow> [takeWhile (\<lambda>x. x \<noteq> c) s]
      | _ # r \<Rightarrow> takeWhile (\<lambda>x. x \<noteq> c) s # js_split c r)"
  unfolding js_split_def by (subst js_split_acc_unfold) (simp split: list.split)

lemma js_split_no_sep:
  assumes "dropWhile (\<lambda>x. x \<noteq> c) s = []"
  shows "js_split c s = [takeWhile (\<lambda>x. x \<noteq> c) s]"
  by (subst js_split_unfold) (simp only: assms list.case)

lemma js_split_sep:
  assumes "dropWhile (\<lambda>x. x \<noteq> c) s = y # r"
  shows "js_split c s = takeWhile (\<lambda>x. x \<noteq> c) s # js_split c r"
  by (subst js_split_unfold) (simp only: assms list.case)

lemma js_split_first: "js_split c s = takeWhile (\<lambda>x. x \<noteq> c) s # drop 1 (js_split c s)"
  by (cases "dropWhile (\<lambda>x. x \<noteq> c) s") (simp_all add: js_split_no_sep js_split_sep)

lemma hd_js_split: "hd (js_split c s) = takeWhile (\<lambda>x. x \<noteq> c) s"
  by (subst js_split_first) simp

text \<open>Joining the pieces with the separator gives the string back.\<close>

lemma js_join_split_acc: "js_join c (js_split_acc c s acc) = rev acc @ s"
  by (induction c s acc rule: js_split_acc.induct) (simp_all add: js_join_Cons)

lemma js_join_split [simp]: "js_join c (js_split c s) = s"
  by (simp add: js_split_def js_join_split_acc)

lemma dropWhile_Cons_sep: "dropWhile (\<lambda>x. x \<noteq> c) s = y # r \<Longrightarrow> y = c"
  using hd_dropWhile [of "\<lambda>x. x \<noteq> c" s] by simp

end
