(* ===== verification/Booking.thy ===== *)
theory Booking
  imports JsString
begin

text \<open>
  The booking record and the booking directory. The type \<open>Booking\<close> comes from
  \<open>types.ts\<close> and the directory from \<open>services/index\<close>, neither of which is under
  src/: both are modelled from the spec (section 3 and 4.5). The views DriverApp
  derives from the booking set (\<open>activeTrip\<close>, \<open>pendingRequests\<close>) are modelled from
  src/components/DriverApp.tsx. The lifecycle order of the spec (section 4.1) is the
  abstract contract \<open>lifecycle_edge\<close> the trip handlers are checked against.
\<close>

datatype status = Pending | Accepted | Arrived | In_progress | Completed

record booking =
  bid :: string
  status :: status
  pickup :: "coord option"
  drop_loc :: "coord option"
  distance :: "string option"
  duration :: "string option"
  service :: string

text \<open>The spec's lifecycle: the four forward edges and nothing else.\<close>

fun lifecycle_edge :: "status \<Rightarrow> status \<Rightarrow> bool" where
  "lifecycle_edge Pending st = (st = Accepted)"
| "lifecycle_edge Accepted st = (st = Arrived)"
| "lifecycle_edge Arrived st = (st = In_progress)"
| "lifecycle_edge In_progress st = (st = Completed)"
| "lifecycle_edge Completed st = False"

text \<open>Position of a status along the lifecycle.\<close>

fun status_rank :: "status \<Rightarrow> nat" where
  "status_rank Pending = 0"
| "status_rank Accepted = 1"
| "status_rank Arrived = 2"
| "status_rank In_progress = 3"
| "status_rank Completed = 4"

text \<open>\<open>['accepted', 'arrived', 'in_progress'].includes(b.status)\<close>\<close>

definition is_active :: "status \<Rightarrow> bool" where
  "is_active st \<longleftrightarrow> st \<in> set [Accepted, Arrived, In_progress]"

text \<open>DriverApp's memoised views of \<open>allBookings\<close>.\<close>

definition active_trip :: "booking list \<Rightarrow> booking option" where
  "active_trip bs = find (\<lambda>b. is_active (status b)) bs"

definition pending_requests :: "booking list \<Rightarrow> booking list" where
  "pending_requests bs = filter (\<lambda>b. status b = Pending) bs"

text \<open>
  The directory's write path \<open>updateBookingStatus(id, status, driverId)\<close>: every
  booking with that id takes the new status (spec 4.5); the server's set is
  otherwise unchanged.
\<close>

definition db_update_status :: "string \<Rightarrow> status \<Rightarrow> booking list \<Rightarrow> booking list" where
  "db_update_status i st bs = map (\<lambda>b. if bid b = i then b\<lparr>status := st\<rparr> else b) bs"

text \<open>The spec's invariant: at most one booking of the set is active.\<close>

definition one_active :: "booking list \<Rightarrow> bool" where
  "one_active bs \<longleftrightarrow> length (filter (\<lambda>b. is_active (status b)) bs) \<le> 1"

text \<open>The booking of the spec's scenario (section 8), with a distance of 5 km.\<close>

definition scenario_b1 :: booking where
  "scenario_b1 =
     \<lparr>bid = ''b1'', status = Pending, pickup = Some (15.30, 44.20), drop_loc = Some (15.35, 44.25),
      distance = Some ''5'', duration = None, service = ''car''\<rparr>"

subsection \<open>Lemmas\<close>

lemma is_active_simps [simp]:
  "is_active Accepted" "is_active Arrived" "is_active In_progress"
  "\<not> is_active Pending" "\<not> is_active Completed"
  by (simp_all add: is_active_def)

lemma is_active_rank: "is_active st \<longleftrightarrow> 1 \<le> status_rank st \<and> status_rank st \<le> 3"
  by (cases st) simp_all

lemma lifecycle_edge_rank: "lifecycle_edge a b \<Longrightarrow> status_rank b = Suc (status_rank a)"
  by (cases a) auto

lemma length_db_update [simp]: "length (db_update_status i st bs) = length bs"
  by (simp add: db_update_status_def)

lemma map_bid_db_update [simp]: "map bid (db_update_status i st bs) = map bid bs"
  by (simp add: db_update_status_def comp_def)

lemma nth_db_update:
  "j < length bs \<Longrightarrow> db_update_status i st bs ! j =
     (if bid (bs ! j) = i then (bs ! j)\<lparr>status := st\<rparr> else bs ! j)"
  by (simp add: db_update_status_def)

lemma active_trip_Some [inv_facts]:
  "active_trip bs = Some t \<Longrightarrow> t \<in> set bs \<and> is_active (status t)"
  unfolding active_trip_def by (rule find_Some_member)

lemma active_trip_None: "active_trip bs = None \<longleftrightarrow> (\<forall>b \<in> set bs. \<not> is_active (status b))"
  unfolding active_trip_def find_None_iff by blast

lemma one_active_no_active: "active_trip bs = None \<Longrightarrow> one_active bs"
  by (simp add: one_active_def active_trip_None filter_empty_conv)

end
