(* ===== verification/TripLifecycle.thy ===== *)
theory TripLifecycle
  imports Booking
begin

text \<open>
  The trip lifecycle as the code runs it: DriverApp (src/components/DriverApp.tsx)
  holds the local view of the booking set, the trip history and the handlers
  \<open>handleAccept\<close>, \<open>handleDecline\<close>, \<open>handleTripUpdate\<close> and
  \<open>updateBookingStatus\<close>; ActiveTripView (src/components/ActiveTripView.tsx) offers
  the slider for the displayed status and the summary's confirm button, and pushes
  the displayed status to the background service. The booking directory's
  server-side set is part of the state (\<open>db\<close>); the subscription delivering it is
  the event \<open>Deliver\<close>. \<open>updateBookingStatus\<close> awaits the directory's write: the call
  writes the server-side set and queues its continuation with the values its
  closure captured; \<open>Resolve i\<close> runs the \<open>i\<close>-th queued continuation, in any order.
\<close>

record pending_write =
  pw_id :: string
  pw_status :: status
  pw_bookings :: "booking list"
  pw_history :: "booking list"

record app_state =
  db :: "booking list"
  stored_history :: "booking list option"
  all_bookings :: "booking list"
  trip_history :: "booking list"
  is_online :: bool
  dash_position :: "coord option"
  bg_trip_status :: "status option"
  inflight :: "pending_write list"
  view_key :: "string option"
  view_status :: "status option"
  click_status :: "status option"
  summary_visible :: bool

datatype app_event =
    Deliver
  | LocationFeed bool "real option" real
  | Accept string
  | Decline string
  | Slide
  | Confirm
  | Resolve nat
  | NewRequest booking

subsection \<open>DriverApp's handlers\<close>

text \<open>
  \<open>updateBookingStatus(id, status)\<close> up to its \<open>await\<close>: the directory write, and the
  continuation queued with the \<open>allBookings\<close> and \<open>tripHistory\<close> of the render
  whose closure made the call.
\<close>

definition update_booking_status :: "string \<Rightarrow> status \<Rightarrow> app_state \<Rightarrow> app_state" where
  "update_booking_status i st s =
     s\<lparr>db := db_update_status i st (db s),
       inflight := inflight s @
         [\<lparr>pw_id = i, pw_status = st, pw_bookings = all_bookings s, pw_history = trip_history s\<rparr>]\<rparr>"

text \<open>
  The continuation after the \<open>await\<close>: on completion the trip, looked up in the
  captured \<open>allBookings\<close>, goes to the front of the captured history, which is
  stored; the background status is cleared. Any other status is pushed to the
  background service.
\<close>

definition resume_update :: "pending_write \<Rightarrow> app_state \<Rightarrow> app_state" where
  "resume_update p s =
     (if pw_status p = Completed then
        (case find (\<lambda>b. bid b = pw_id p) (pw_bookings p) of
           Some t \<Rightarrow>
             (let h = t\<lparr>status := Completed\<rparr> # pw_history p
              in s\<lparr>trip_history := h, stored_history := Some h\<rparr>)
         | None \<Rightarrow> s)\<lparr>bg_trip_status := None\<rparr>
      else s\<lparr>bg_trip_status := Some (pw_status p)\<rparr>)"

definition handle_accept :: "string \<Rightarrow> app_state \<Rightarrow> app_state" where
  "handle_accept i s =
     (if active_trip (all_bookings s) \<noteq> None then s else update_booking_status i Accepted s)"

definition handle_decline :: "string \<Rightarrow> app_state \<Rightarrow> app_state" where
  "handle_decline i s = s"

definition handle_trip_update :: "status \<Rightarrow> app_state \<Rightarrow> app_state" where
  "handle_trip_update st s =
     (case active_trip (all_bookings s) of
        None \<Rightarrow> s
      | Some t \<Rightarrow> update_booking_status (bid t) st s)"

text \<open>
  The subscription callbacks: the booking set replaces the local view and the
  history is reloaded from storage; the location feed sets the online flag and,
  when the latitude is truthy, the dashboard position.
\<close>

definition on_bookings :: "app_state \<Rightarrow> app_state" where
  "on_bookings s =
     s\<lparr>all_bookings := db s,
       trip_history := (case stored_history s of None \<Rightarrow> [] | Some h \<Rightarrow> h)\<rparr>"

definition on_location_feed :: "bool \<Rightarrow> real option \<Rightarrow> real \<Rightarrow> app_state \<Rightarrow> app_state" where
  "on_location_feed online lat lng s =
     (let s1 = s\<lparr>is_online := online\<rparr>
      in if js_truthy_num lat then s1\<lparr>dash_position := Some (the lat, lng)\<rparr> else s1)"

subsection \<open>ActiveTripView's status controls\<close>

text \<open>
  The view's first effect (deps \<open>[trip.status]\<close>): on mount it creates the map and
  registers the click handler, whose closure keeps the status of that render; on
  every run it pushes \<open>trip.status\<close> to the background service.
\<close>

definition trip_view_effect :: "booking \<Rightarrow> app_state \<Rightarrow> app_state" where
  "trip_view_effect t s =
     (let s1 = (if click_status s = None then s\<lparr>click_status := Some (status t)\<rparr> else s)
      in s1\<lparr>view_status := Some (status t), bg_trip_status := Some (status t)\<rparr>)"

text \<open>
  DriverApp renders \<open>ActiveTripView key={activeTrip.id}\<close> when there is an active
  trip: a new key remounts the view (fresh state), and the effect runs on mount
  and whenever the displayed status changes.
\<close>

definition sync_view :: "app_state \<Rightarrow> app_state" where
  "sync_view s =
     (let k = map_option bid (active_trip (all_bookings s));
          s1 = (if k \<noteq> view_key s
                then s\<lparr>view_key := k, view_status := None, click_status := None,
                       summary_visible := False\<rparr>
                else s)
      in case active_trip (all_bookings s1) of
           None \<Rightarrow> s1
         | Some t \<Rightarrow> if view_status s1 = Some (status t) then s1 else trip_view_effect t s1)"

definition handle_swipe_complete :: "status \<Rightarrow> app_state \<Rightarrow> app_state" where
  "handle_swipe_complete st s = handle_trip_update st (s\<lparr>bg_trip_status := Some st\<rparr>)"

text \<open>The slider shown for the displayed status, and what sliding it does.\<close>

definition slide :: "app_state \<Rightarrow> app_state" where
  "slide s =
     (case active_trip (all_bookings s) of
        None \<Rightarrow> s
      | Some t \<Rightarrow>
          (case status t of
             Accepted \<Rightarrow> handle_swipe_complete Arrived s
           | Arrived \<Rightarrow> handle_swipe_complete In_progress s
           | In_progress \<Rightarrow> s\<lparr>summary_visible := True\<rparr>
           | _ \<Rightarrow> s))"

text \<open>The summary's confirm button: \<open>onTripUpdate('completed')\<close>.\<close>

definition confirm :: "app_state \<Rightarrow> app_state" where
  "confirm s = handle_trip_update Completed s"

subsection \<open>Environment and the whole machine\<close>

text \<open>
  A rider creates a booking in \<open>pending\<close> (spec section 3); a settled write runs its
  continuation.
\<close>

definition new_request :: "booking \<Rightarrow> app_state \<Rightarrow> app_state" where
  "new_request b s = s\<lparr>db := db s @ [b]\<rparr>"

definition resolve :: "nat \<Rightarrow> app_state \<Rightarrow> app_state" where
  "resolve i s =
     (if i < length (inflight s)
      then resume_update (inflight s ! i) (s\<lparr>inflight := remove_nth i (inflight s)\<rparr>)
      else s)"

fun app_handle :: "app_state \<Rightarrow> app_event \<Rightarrow> app_state" where
  "app_handle s Deliver = sync_view (on_bookings s)"
| "app_handle s (LocationFeed online lat lng) = on_location_feed online lat lng s"
| "app_handle s (Accept i) = handle_accept i s"
| "app_handle s (Decline i) = handle_decline i s"
| "app_handle s Slide = slide s"
| "app_handle s Confirm = confirm s"
| "app_handle s (Resolve i) = resolve i s"
| "app_handle s (NewRequest b) = new_request b s"

text \<open>
  What the rendered UI offers: the request cards (accept, decline) only on the
  online dashboard, which is shown when there is no active trip; the slider while a
  trip is active; the confirm button while the summary is visible. The environment
  delivers the booking set and location at any time, settles a queued write, and
  adds pending bookings with fresh ids.
\<close>

fun app_enabled :: "app_state \<Rightarrow> app_event \<Rightarrow> bool" where
  "app_enabled s Deliver = True"
| "app_enabled s (LocationFeed online lat lng) = True"
| "app_enabled s (Accept i) =
     (is_online s \<and> active_trip (all_bookings s) = None \<and>
      i \<in> set (map bid (pending_requests (all_bookings s))))"
| "app_enabled s (Decline i) =
     (is_online s \<and> active_trip (all_bookings s) = None \<and>
      i \<in> set (map bid (pending_requests (all_bookings s))))"
| "app_enabled s Slide = (active_trip (all_bookings s) \<noteq> None)"
| "app_enabled s Confirm = (active_trip (all_bookings s) \<noteq> None \<and> summary_visible s)"
| "app_enabled s (Resolve i) = (i < length (inflight s))"
| "app_enabled s (NewRequest b) = (status b = Pending \<and> bid b \<notin> set (map bid (db s)))"

definition app_init :: "booking list \<Rightarrow> booking list option \<Rightarrow> bool \<Rightarrow> app_state" where
  "app_init bs h online =
     \<lparr>db = bs, stored_history = h, all_bookings = [], trip_history = [],
      is_online = online, dash_position = None, bg_trip_status = None, inflight = [],
      view_key = None, view_status = None, click_status = None, summary_visible = False\<rparr>"

inductive app_reach :: "app_state \<Rightarrow> bool" where
  init: "distinct (map bid bs) \<Longrightarrow> app_reach (app_init bs h online)"
| step: "app_reach s \<Longrightarrow> app_enabled s e \<Longrightarrow> app_reach (app_handle s e)"

fun app_run :: "app_state \<Rightarrow> app_event list \<Rightarrow> app_state" where
  "app_run s [] = s"
| "app_run s (e # es) = app_run (app_handle s e) es"

fun app_valid :: "app_state \<Rightarrow> app_event list \<Rightarrow> bool" where
  "app_valid s [] = True"
| "app_valid s (e # es) = (app_enabled s e \<and> app_valid (app_handle s e) es)"


subsection \<open>Invariant of the reachable states\<close>

text \<open>
  The local view is a snapshot of a prefix of the server set: same ids at the same
  positions, each status at most one lifecycle step behind the server's. A write
  the UI may issue moves a displayed booking along one lifecycle edge. The
  invariant adds distinct ids, the mounted view's key, and that the summary is
  visible only over an in-progress trip. \<open>db_mono\<close> is the server set only
  growing, with no status moving backwards.
\<close>

definition view_consistent :: "booking list \<Rightarrow> booking list \<Rightarrow> bool" where
  "view_consistent v d \<longleftrightarrow> length v \<le> length d \<and>
     (\<forall>j < length v. bid (v ! j) = bid (d ! j) \<and>
        status_rank (status (v ! j)) \<le> status_rank (status (d ! j)) \<and>
        status_rank (status (d ! j)) \<le> Suc (status_rank (status (v ! j))))"

definition write_ok :: "app_state \<Rightarrow> string \<Rightarrow> status \<Rightarrow> bool" where
  "write_ok s i st \<longleftrightarrow> (\<exists>t \<in> set (all_bookings s). bid t = i \<and> lifecycle_edge (status t) st)"

definition app_inv :: "app_state \<Rightarrow> bool" where
  "app_inv s \<longleftrightarrow> distinct (map bid (db s)) \<and> view_consistent (all_bookings s) (db s) \<and>
     view_key s = map_option bid (active_trip (all_bookings s)) \<and>
     (summary_visible s \<longrightarrow> (\<exists>t. active_trip (all_bookings s) = Some t \<and> status t = In_progress))"

definition db_mono :: "booking list \<Rightarrow> booking list \<Rightarrow> bool" where
  "db_mono d d' \<longleftrightarrow> length d \<le> length d' \<and>
     (\<forall>j < length d. bid (d' ! j) = bid (d ! j) \<and>
        status_rank (status (d ! j)) \<le> status_rank (status (d' ! j)))"

text \<open>
  The scenario of the spec (section 8) up to the summary: the request is delivered
  and accepted, and the slider is used at accepted, arrived and in progress, each
  write settling and the set being redelivered in between.
\<close>

text \<open>
  The displayed history is what local storage holds (the empty list when nothing
  was stored): \<open>JSON.parse(localStorage.getItem(DRIVER_HISTORY_KEY))\<close> reads back what
  \<open>JSON.stringify\<close> wrote.
\<close>

definition history_synced :: "app_state \<Rightarrow> bool" where
  "history_synced s \<longleftrightarrow> trip_history s = (case stored_history s of None \<Rightarrow> [] | Some h \<Rightarrow> h)"

definition trip_to_summary :: "app_event list" where
  "trip_to_summary =
     [Deliver, Accept ''b1'', Resolve 0, Deliver, Slide, Resolve 0, Deliver, Slide, Resolve 0,
      Deliver, Slide]"

subsection \<open>Lemmas\<close>

declare update_booking_status_def [step_simps] resume_update_def [step_simps]
  handle_accept_def [step_simps] handle_decline_def [step_simps]
  handle_trip_update_def [step_simps] on_bookings_def [step_simps]
  on_location_feed_def [step_simps] trip_view_effect_def [step_simps] sync_view_def [step_simps]
  handle_swipe_complete_def [step_simps] slide_def [step_simps] confirm_def [step_simps]
  new_request_def [step_simps] resolve_def [step_simps] app_init_def [step_simps]
  active_trip_def [step_simps] pending_requests_def [step_simps] db_update_status_def [step_simps]
  remove_nth_def [step_simps] scenario_b1_def [step_simps] Let_def [step_simps]

lemma resume_update_frame [simp]:
  "db (resume_update p s) = db s" "all_bookings (resume_update p s) = all_bookings s"
  "view_key (resume_update p s) = view_key s" "summary_visible (resume_update p s) = summary_visible s"
  "inflight (resume_update p s) = inflight s"
  by (simp_all add: resume_update_def Let_def split: option.split)

lemma sync_view_frame [simp]:
  "db (sync_view s) = db s" "all_bookings (sync_view s) = all_bookings s"
  "inflight (sync_view s) = inflight s" "trip_history (sync_view s) = trip_history s"
  "stored_history (sync_view s) = stored_history s"
  by (simp_all add: sync_view_def trip_view_effect_def Let_def split: option.split)

lemma sync_view_key: "view_key (sync_view s) = map_option bid (active_trip (all_bookings s))"
  by (simp add: sync_view_def trip_view_effect_def Let_def split: option.split)

lemma sync_view_summary:
  "summary_visible (sync_view s) \<Longrightarrow>
     summary_visible s \<and> view_key s = map_option bid (active_trip (all_bookings s))"
  by (auto simp: sync_view_def trip_view_effect_def Let_def split: option.splits if_splits)

lemma on_location_feed_frame [simp]:
  "db (on_location_feed online lat lng s) = db s"
  "inflight (on_location_feed online lat lng s) = inflight s"
  "all_bookings (on_location_feed online lat lng s) = all_bookings s"
  "view_key (on_location_feed online lat lng s) = view_key s"
  "summary_visible (on_location_feed online lat lng s) = summary_visible s"
  by (simp_all add: on_location_feed_def Let_def)

lemma view_consistent_refl: "view_consistent d d"
  by (simp add: view_consistent_def)

lemma view_consistent_append: "view_consistent v d \<Longrightarrow> view_consistent v (d @ [b])"
  by (auto simp: view_consistent_def nth_append)

lemma view_consistent_same_index:
  assumes "view_consistent v d" "distinct (map bid d)" "k < length v" "j < length d"
    "bid (d ! j) = bid (v ! k)"
  shows "j = k"
proof -
  from assms(1,3) have "k < length d" "bid (d ! k) = bid (v ! k)"
    by (auto simp: view_consistent_def)
  with assms(2,4,5) show ?thesis
    by (metis distinct_map_index_eq)
qed

lemma view_consistent_rank_le:
  assumes "view_consistent v d" "distinct (map bid d)" "t \<in> set v" "t' \<in> set d" "bid t' = bid t"
  shows "status_rank (status t) \<le> status_rank (status t')"
proof -
  obtain k where k: "k < length v" "v ! k = t" using assms(3) by (auto simp: in_set_conv_nth)
  obtain j where j: "j < length d" "d ! j = t'" using assms(4) by (auto simp: in_set_conv_nth)
  have "j = k" using view_consistent_same_index [OF assms(1,2) k(1) j(1)] assms(5) j k by simp
  with assms(1) j k show ?thesis by (auto simp: view_consistent_def)
qed

lemma write_nth:
  assumes "view_consistent v d" "distinct (map bid d)" "t \<in> set v" "lifecycle_edge (status t) st"
    "j < length d"
  shows "bid (db_update_status (bid t) st d ! j) = bid (d ! j) \<and>
    status_rank (status (d ! j)) \<le> status_rank (status (db_update_status (bid t) st d ! j)) \<and>
    (j < length v \<longrightarrow> status_rank (status (db_update_status (bid t) st d ! j)) \<le> Suc (status_rank (status (v ! j))))"
proof (cases "bid (d ! j) = bid t")
  case True
  obtain k where k: "k < length v" "v ! k = t" using assms(3) by (auto simp: in_set_conv_nth)
  have "j = k" using view_consistent_same_index [OF assms(1,2) k(1) assms(5)] True k by simp
  with assms(1,4,5) k True show ?thesis
    by (auto simp: nth_db_update view_consistent_def dest: lifecycle_edge_rank)
next
  case False
  with assms(1,5) show ?thesis by (auto simp: nth_db_update view_consistent_def)
qed

lemma view_consistent_write:
  assumes "view_consistent v d" "distinct (map bid d)" "t \<in> set v" "lifecycle_edge (status t) st"
  shows "view_consistent v (db_update_status (bid t) st d)"
proof -
  let ?d = "db_update_status (bid t) st d"
  have "\<forall>j < length v. bid (v ! j) = bid (?d ! j) \<and>
    status_rank (status (v ! j)) \<le> status_rank (status (?d ! j)) \<and>
    status_rank (status (?d ! j)) \<le> Suc (status_rank (status (v ! j)))"
  proof (intro allI impI)
    fix j assume "j < length v"
    with assms(1) have j: "j < length d" and "bid (v ! j) = bid (d ! j)"
      "status_rank (status (v ! j)) \<le> status_rank (status (d ! j))"
      by (auto simp: view_consistent_def)
    with write_nth [OF assms j] \<open>j < length v\<close>
    show "bid (v ! j) = bid (?d ! j) \<and>
      status_rank (status (v ! j)) \<le> status_rank (status (?d ! j)) \<and>
      status_rank (status (?d ! j)) \<le> Suc (status_rank (status (v ! j)))"
      by auto
  qed
  with assms(1) show ?thesis by (simp add: view_consistent_def)
qed

lemma in_progress_of_rank: "is_active st \<Longrightarrow> 3 \<le> status_rank st \<Longrightarrow> st = In_progress"
  by (cases st) simp_all

lemma app_inv_bg [simp]: "app_inv (s\<lparr>bg_trip_status := x\<rparr>) = app_inv s"
  by (simp add: app_inv_def)

lemma write_ok_bg [simp]: "write_ok (s\<lparr>bg_trip_status := x\<rparr>) i st = write_ok s i st"
  by (simp add: write_ok_def)

lemma write_inv:
  assumes "app_inv s" "write_ok s i st"
  shows "app_inv (update_booking_status i st s)"
proof -
  from assms(2) obtain t where t: "t \<in> set (all_bookings s)" "bid t = i" "lifecycle_edge (status t) st"
    by (auto simp: write_ok_def)
  with assms(1) have "view_consistent (all_bookings s) (db_update_status i st (db s))"
    by (auto simp: app_inv_def intro: view_consistent_write)
  with assms(1) show ?thesis
    by (simp add: app_inv_def update_booking_status_def)
qed

lemma write_mono:
  assumes "app_inv s" "write_ok s i st" "j < length (db s)"
  shows "bid (db (update_booking_status i st s) ! j) = bid (db s ! j) \<and>
    status_rank (status (db s ! j)) \<le> status_rank (status (db (update_booking_status i st s) ! j))"
proof -
  from assms(2) obtain t where t: "t \<in> set (all_bookings s)" "bid t = i" "lifecycle_edge (status t) st"
    by (auto simp: write_ok_def)
  with assms(1,3) write_nth [of "all_bookings s" "db s" t st j] show ?thesis
    by (auto simp: app_inv_def update_booking_status_def)
qed

lemma accept_write:
  "app_enabled s (Accept i) \<Longrightarrow>
     handle_accept i s = update_booking_status i Accepted s \<and> write_ok s i Accepted"
  by (auto simp: handle_accept_def write_ok_def pending_requests_def)

lemma slide_cases:
  assumes "active_trip (all_bookings s) = Some t"
  shows "(\<exists>st. lifecycle_edge (status t) st \<and> t \<in> set (all_bookings s) \<and>
            slide s = update_booking_status (bid t) st (s\<lparr>bg_trip_status := Some st\<rparr>)) \<or>
         (status t = In_progress \<and> slide s = s\<lparr>summary_visible := True\<rparr>)"
proof -
  from assms have "t \<in> set (all_bookings s)" "is_active (status t)"
    by (auto dest: active_trip_Some)
  with assms show ?thesis
    by (cases "status t") (auto simp: slide_def handle_swipe_complete_def handle_trip_update_def)
qed

lemma confirm_write:
  assumes "app_inv s" "app_enabled s Confirm"
  shows "\<exists>t::booking. confirm s = update_booking_status (bid t) Completed s \<and> write_ok s (bid t) Completed"
proof -
  from assms obtain t where "active_trip (all_bookings s) = Some t" "status t = In_progress"
    by (auto simp: app_inv_def)
  moreover from this(1) have "t \<in> set (all_bookings s)" by (auto dest: active_trip_Some)
  ultimately have "confirm s = update_booking_status (bid t) Completed s"
    "write_ok s (bid t) Completed"
    by (auto simp: confirm_def handle_trip_update_def write_ok_def)
  then show ?thesis by blast
qed

lemma deliver_inv:
  assumes "app_inv s"
  shows "app_inv (sync_view (on_bookings s))"
proof -
  let ?s = "on_bookings s"
  have summ: "\<exists>t. active_trip (db s) = Some t \<and> status t = In_progress"
    if "summary_visible (sync_view ?s)"
  proof -
    from sync_view_summary [OF that] have "summary_visible s"
      and key: "view_key s = map_option bid (active_trip (db s))"
      by (simp_all add: on_bookings_def)
    with assms obtain t where t: "active_trip (all_bookings s) = Some t" "status t = In_progress"
      "view_key s = Some (bid t)"
      by (auto simp: app_inv_def)
    with key obtain t' where t': "active_trip (db s) = Some t'" "bid t' = bid t"
      by (cases "active_trip (db s)") auto
    from t' have "t' \<in> set (db s)" "is_active (status t')" by (auto dest: active_trip_Some)
    moreover from t have "t \<in> set (all_bookings s)" by (auto dest: active_trip_Some)
    ultimately have "status_rank (status t) \<le> status_rank (status t')"
      using assms t'(2) view_consistent_rank_le [of "all_bookings s" "db s" t t']
      by (auto simp: app_inv_def)
    with t(2) \<open>is_active (status t')\<close> have "status t' = In_progress"
      by (auto intro: in_progress_of_rank)
    with t'(1) show ?thesis by blast
  qed
  from assms have "distinct (map bid (db s))" by (simp add: app_inv_def)
  with summ show ?thesis
    by (simp add: app_inv_def sync_view_key view_consistent_refl on_bookings_def)
qed

lemma new_request_inv:
  "app_inv s \<Longrightarrow> bid b \<notin> set (map bid (db s)) \<Longrightarrow> app_inv (new_request b s)"
  by (simp add: app_inv_def new_request_def view_consistent_append)

lemma resolve_inv: "app_inv s \<Longrightarrow> app_inv (resolve i s)"
  by (simp add: app_inv_def resolve_def)

lemma location_feed_inv: "app_inv s \<Longrightarrow> app_inv (on_location_feed online lat lng s)"
  by (simp add: app_inv_def on_location_feed_def Let_def)

lemma app_step_inv:
  assumes "app_inv s" "app_enabled s e"
  shows "app_inv (app_handle s e)"
proof (cases e)
  case (Accept i)
  with assms show ?thesis by (simp add: accept_write write_inv)
next
  case Slide
  with assms obtain t where t: "active_trip (all_bookings s) = Some t" by auto
  from slide_cases [OF t] show ?thesis
  proof
    assume "\<exists>st. lifecycle_edge (status t) st \<and> t \<in> set (all_bookings s) \<and>
      slide s = update_booking_status (bid t) st (s\<lparr>bg_trip_status := Some st\<rparr>)"
    then obtain st where st: "lifecycle_edge (status t) st" "t \<in> set (all_bookings s)"
      "slide s = update_booking_status (bid t) st (s\<lparr>bg_trip_status := Some st\<rparr>)"
      by blast
    from st(1,2) have "write_ok (s\<lparr>bg_trip_status := Some st\<rparr>) (bid t) st"
      by (auto simp: write_ok_def)
    with assms(1) st(3) Slide show ?thesis by (simp add: write_inv)
  next
    assume "status t = In_progress \<and> slide s = s\<lparr>summary_visible := True\<rparr>"
    with assms(1) t Slide show ?thesis by (auto simp: app_inv_def)
  qed
next
  case Confirm
  with assms confirm_write [OF assms(1)] obtain t :: booking where
    "confirm s = update_booking_status (bid t) Completed s" "write_ok s (bid t) Completed"
    by auto
  with assms(1) Confirm show ?thesis by (simp add: write_inv)
qed (use assms in \<open>simp_all add: deliver_inv new_request_inv resolve_inv location_feed_inv
       handle_decline_def\<close>)

lemma db_mono_refl: "db_mono d d"
  by (simp add: db_mono_def)

lemma db_mono_trans: "db_mono d1 d2 \<Longrightarrow> db_mono d2 d3 \<Longrightarrow> db_mono d1 d3"
  unfolding db_mono_def by (metis le_trans order.strict_trans2)

lemma db_mono_append: "db_mono d (d @ [b])"
  by (simp add: db_mono_def nth_append)

lemma db_mono_write: "app_inv s \<Longrightarrow> write_ok s i st \<Longrightarrow> db_mono (db s) (db (update_booking_status i st s))"
  using write_mono by (simp add: db_mono_def update_booking_status_def)

lemma inflight_write [simp]:
  "inflight (update_booking_status i st s) =
     inflight s @ [\<lparr>pw_id = i, pw_status = st, pw_bookings = all_bookings s, pw_history = trip_history s\<rparr>]"
  by (simp add: update_booking_status_def)

lemma app_reach_inv: "app_reach s \<Longrightarrow> app_inv s"
proof (induction rule: app_reach.induct)
  case (init bs h online)
  then show ?case by (simp add: app_inv_def app_init_def view_consistent_def active_trip_def)
next
  case (step s e)
  from step.IH step.hyps(2) show ?case by (rule app_step_inv)
qed

lemma app_run_reach: "app_reach s \<Longrightarrow> app_valid s es \<Longrightarrow> app_reach (app_run s es)"
  by (induction es arbitrary: s) (auto intro: app_reach.step)

lemma app_step_db_mono:
  assumes "app_inv s" "app_enabled s e"
  shows "db_mono (db s) (db (app_handle s e))"
proof (cases e)
  case (Accept i)
  with assms show ?thesis by (simp add: accept_write db_mono_write)
next
  case Slide
  with assms obtain t where t: "active_trip (all_bookings s) = Some t" by auto
  from slide_cases [OF t] show ?thesis
  proof
    assume "\<exists>st. lifecycle_edge (status t) st \<and> t \<in> set (all_bookings s) \<and>
      slide s = update_booking_status (bid t) st (s\<lparr>bg_trip_status := Some st\<rparr>)"
    then obtain st where st: "lifecycle_edge (status t) st" "t \<in> set (all_bookings s)"
      "slide s = update_booking_status (bid t) st (s\<lparr>bg_trip_status := Some st\<rparr>)"
      by blast
    from st(1,2) have "write_ok (s\<lparr>bg_trip_status := Some st\<rparr>) (bid t) st"
      by (auto simp: write_ok_def)
    with assms(1) db_mono_write [of "s\<lparr>bg_trip_status := Some st\<rparr>"] st(3) Slide
    show ?thesis by simp
  next
    assume "status t = In_progress \<and> slide s = s\<lparr>summary_visible := True\<rparr>"
    with Slide show ?thesis by (simp add: db_mono_refl)
  qed
next
  case Confirm
  with assms confirm_write [OF assms(1)] obtain t :: booking where
    "confirm s = update_booking_status (bid t) Completed s" "write_ok s (bid t) Completed"
    by auto
  with assms(1) Confirm show ?thesis by (simp add: db_mono_write)
qed (simp_all add: db_mono_refl db_mono_append on_bookings_def new_request_def resolve_def
       on_location_feed_def handle_decline_def Let_def)

text \<open>
  C1. Along any run the UI and the environment can produce from a reachable state,
  the booking directory only grows and no booking's status moves backwards along
  the lifecycle (pending, accepted, arrived, in progress, completed), although
  writes are issued from a possibly stale local view.
\<close>

theorem db_status_never_backwards:
  assumes "app_reach s" "app_valid s es" "j < length (db s)"
  shows "j < length (db (app_run s es)) \<and> bid (db (app_run s es) ! j) = bid (db s ! j) \<and>
    status_rank (status (db s ! j)) \<le> status_rank (status (db (app_run s es) ! j))"
proof -
  have "db_mono (db s) (db (app_run s es))"
    using assms(1,2)
  proof (induction es arbitrary: s)
    case Nil
    then show ?case by (simp add: db_mono_refl)
  next
    case (Cons e es)
    then have "app_reach (app_handle s e)" "app_valid (app_handle s e) es"
      by (auto intro: app_reach.step)
    then have "db_mono (db (app_handle s e)) (db (app_run (app_handle s e) es))"
      by (rule Cons.IH)
    moreover from Cons.prems have "db_mono (db s) (db (app_handle s e))"
      by (auto intro: app_step_db_mono app_reach_inv)
    ultimately show ?case by (auto intro: db_mono_trans)
  qed
  with assms(3) show ?thesis by (auto simp: db_mono_def)
qed

theorem db_status_never_backwards_witness:
  "app_reach (app_init [scenario_b1] None True) \<and>
   app_valid (app_init [scenario_b1] None True) [Deliver, Accept ''b1''] \<and>
   0 < length (db (app_init [scenario_b1] None True)) \<and>
   status_rank (status (db (app_init [scenario_b1] None True) ! 0)) \<le>
     status_rank (status (db (app_run (app_init [scenario_b1] None True) [Deliver, Accept ''b1'']) ! 0))"
proof -
  have r: "app_reach (app_init [scenario_b1] None True)"
    by (rule app_reach.init) (simp add: scenario_b1_def)
  have v: "app_valid (app_init [scenario_b1] None True) [Deliver, Accept ''b1'']"
    by (simp add: step_simps)
  have l: "0 < length (db (app_init [scenario_b1] None True))"
    by (simp add: app_init_def)
  from db_status_never_backwards [OF r v l] r v l show ?thesis by simp
qed

lemma view_distinct:
  assumes "view_consistent v d" "distinct (map bid d)"
  shows "distinct (map bid v)"
proof -
  from assms(1) have "map bid v = take (length v) (map bid d)"
    by (auto simp: view_consistent_def intro: nth_equalityI)
  with assms(2) show ?thesis by (metis distinct_take)
qed

lemma find_bid_distinct:
  "distinct (map bid v) \<Longrightarrow> t \<in> set v \<Longrightarrow> find (\<lambda>b. bid b = bid t) v = Some t"
  by (induction v) (auto simp: image_iff)

lemma length_filter_bid_le_1: "distinct (map bid d) \<Longrightarrow> length (filter (\<lambda>b. bid b = i) d) \<le> 1"
  by (induction d) (auto simp: filter_empty_conv image_iff)

text \<open>
  C2. Every status write the rendered UI issues (accept on a request card, the
  slider, the summary's confirm) moves a booking of the displayed set along exactly
  one lifecycle edge from its displayed status.
\<close>

theorem ui_writes_follow_lifecycle:
  assumes "app_reach s" "app_enabled s e" "inflight (app_handle s e) = inflight s @ [p]"
  shows "\<exists>t \<in> set (all_bookings s). bid t = pw_id p \<and> lifecycle_edge (status t) (pw_status p)"
proof -
  have inv: "app_inv s" using assms(1) by (rule app_reach_inv)
  show ?thesis
  proof (cases e)
    case (Accept i)
    with assms(2,3) accept_write [of s i] show ?thesis by (auto simp: write_ok_def)
  next
    case Slide
    with assms(2) obtain t where t: "active_trip (all_bookings s) = Some t" by auto
    from slide_cases [OF t] assms(3) Slide show ?thesis
      by (auto; blast)
  next
    case Confirm
    with inv assms(2) confirm_write [OF inv] obtain t :: booking where
      "confirm s = update_booking_status (bid t) Completed s" "write_ok s (bid t) Completed"
      by auto
    with assms(3) Confirm show ?thesis by (auto simp: write_ok_def)
  next
    case (Resolve i)
    with assms(2,3) have "remove_nth i (inflight s) = inflight s @ [p]" "i < length (inflight s)"
      by (simp_all add: resolve_def)
    then have "length (inflight s) - 1 = Suc (length (inflight s))"
      by (metis length_remove_nth length_append_singleton)
    then show ?thesis by simp
  qed (use assms(3) in \<open>simp_all add: on_bookings_def new_request_def handle_decline_def\<close>)
qed

theorem ui_writes_follow_lifecycle_witness:
  "app_reach (app_run (app_init [scenario_b1] None True) [Deliver]) \<and>
   app_enabled (app_run (app_init [scenario_b1] None True) [Deliver]) (Accept ''b1'') \<and>
   inflight (app_handle (app_run (app_init [scenario_b1] None True) [Deliver]) (Accept ''b1'')) =
     inflight (app_run (app_init [scenario_b1] None True) [Deliver]) @
       [\<lparr>pw_id = ''b1'', pw_status = Accepted, pw_bookings = [scenario_b1], pw_history = []\<rparr>] \<and>
   (\<exists>t \<in> set (all_bookings (app_run (app_init [scenario_b1] None True) [Deliver])).
      bid t = ''b1'' \<and> lifecycle_edge (status t) Accepted)"
proof -
  have r0: "app_reach (app_init [scenario_b1] None True)"
    by (rule app_reach.init) (simp add: scenario_b1_def)
  have r: "app_reach (app_run (app_init [scenario_b1] None True) [Deliver])"
    by (rule app_run_reach [OF r0]) simp
  have e: "app_enabled (app_run (app_init [scenario_b1] None True) [Deliver]) (Accept ''b1'')"
    by (simp add: step_simps)
  have i: "inflight (app_handle (app_run (app_init [scenario_b1] None True) [Deliver]) (Accept ''b1'')) =
     inflight (app_run (app_init [scenario_b1] None True) [Deliver]) @
       [\<lparr>pw_id = ''b1'', pw_status = Accepted, pw_bookings = [scenario_b1], pw_history = []\<rparr>]"
    by (simp add: step_simps)
  from ui_writes_follow_lifecycle [OF r e i] r e i show ?thesis by simp
qed

lemma filter_active_accept:
  "\<forall>b \<in> set d. \<not> is_active (status b) \<Longrightarrow>
     filter (\<lambda>b. is_active (status b)) (db_update_status i Accepted d) =
     map (\<lambda>b. b\<lparr>status := Accepted\<rparr>) (filter (\<lambda>b. bid b = i) d)"
  by (induction d) (auto simp: db_update_status_def)

text \<open>
  C3. \<open>handleAccept\<close> is a no-op, with no write and no queued continuation,
  whenever the local view already holds an active trip, whatever booking is
  targeted.
\<close>

theorem accept_rejected_when_active:
  "active_trip (all_bookings s) \<noteq> None \<Longrightarrow> app_handle s (Accept i) = s"
  by (simp add: handle_accept_def)

theorem accept_rejected_when_active_witness:
  "active_trip (all_bookings (app_run (app_init [scenario_b1] None True) [Deliver, Accept ''b1'', Deliver]))
     \<noteq> None \<and>
   app_handle (app_run (app_init [scenario_b1] None True) [Deliver, Accept ''b1'', Deliver]) (Accept ''b2'') =
     app_run (app_init [scenario_b1] None True) [Deliver, Accept ''b1'', Deliver]"
proof -
  have h: "active_trip (all_bookings (app_run (app_init [scenario_b1] None True)
      [Deliver, Accept ''b1'', Deliver])) \<noteq> None"
    by (simp add: step_simps)
  show ?thesis using h accept_rejected_when_active [OF h] by (rule conjI)
qed

text \<open>
  C4. When the local view equals the directory's set (no write in flight) and that
  set has at most one active trip, accepting a request keeps at most one active trip.
\<close>

theorem accept_fresh_view_one_active:
  assumes "all_bookings s = db s" "distinct (map bid (db s))" "one_active (db s)"
  shows "one_active (db (app_handle s (Accept i)))"
proof (cases "active_trip (all_bookings s) = None")
  case True
  with assms(1) have none: "\<forall>b \<in> set (db s). \<not> is_active (status b)"
    by (simp add: active_trip_None)
  then have "filter (\<lambda>b. is_active (status b)) (db_update_status i Accepted (db s)) =
      map (\<lambda>b. b\<lparr>status := Accepted\<rparr>) (filter (\<lambda>b. bid b = i) (db s))"
    by (rule filter_active_accept)
  with length_filter_bid_le_1 [OF assms(2), of i] True show ?thesis
    by (simp add: handle_accept_def update_booking_status_def one_active_def)
next
  case False
  with assms(3) show ?thesis by (simp add: handle_accept_def)
qed

theorem accept_fresh_view_one_active_witness:
  "all_bookings (app_run (app_init [scenario_b1] None True) [Deliver]) =
     db (app_run (app_init [scenario_b1] None True) [Deliver]) \<and>
   distinct (map bid (db (app_run (app_init [scenario_b1] None True) [Deliver]))) \<and>
   one_active (db (app_run (app_init [scenario_b1] None True) [Deliver])) \<and>
   one_active (db (app_handle (app_run (app_init [scenario_b1] None True) [Deliver]) (Accept ''b1'')))"
proof -
  have a: "all_bookings (app_run (app_init [scenario_b1] None True) [Deliver]) =
     db (app_run (app_init [scenario_b1] None True) [Deliver])"
    by (simp add: step_simps)
  have b: "distinct (map bid (db (app_run (app_init [scenario_b1] None True) [Deliver])))"
    by (simp add: step_simps)
  have c: "one_active (db (app_run (app_init [scenario_b1] None True) [Deliver]))"
    by (simp add: step_simps one_active_def)
  from accept_fresh_view_one_active [OF a b c] a b c show ?thesis by simp
qed

text \<open>
  C6. Confirming the summary of the active trip and settling that write puts the
  trip, marked completed, at the front of the history the view held, stores that
  history, clears the background trip status and leaves no continuation behind.
\<close>

theorem confirm_settle_history:
  assumes "app_reach s" "app_enabled s Confirm" "active_trip (all_bookings s) = Some t"
  shows "trip_history (resolve (length (inflight s)) (confirm s)) =
           t\<lparr>status := Completed\<rparr> # trip_history s \<and>
         stored_history (resolve (length (inflight s)) (confirm s)) =
           Some (t\<lparr>status := Completed\<rparr> # trip_history s) \<and>
         bg_trip_status (resolve (length (inflight s)) (confirm s)) = None \<and>
         inflight (resolve (length (inflight s)) (confirm s)) = inflight s"
proof -
  have inv: "app_inv s" using assms(1) by (rule app_reach_inv)
  then have "distinct (map bid (all_bookings s))"
    by (auto simp: app_inv_def intro: view_distinct)
  moreover from assms(3) have "t \<in> set (all_bookings s)" by (auto dest: active_trip_Some)
  ultimately have "find (\<lambda>b. bid b = bid t) (all_bookings s) = Some t"
    by (rule find_bid_distinct)
  with assms(3) show ?thesis
    by (simp add: confirm_def handle_trip_update_def resolve_def resume_update_def
        remove_nth_def nth_append Let_def)
qed

theorem confirm_settle_history_witness:
  "app_reach (app_run (app_init [scenario_b1] None True) trip_to_summary) \<and>
   app_enabled (app_run (app_init [scenario_b1] None True) trip_to_summary) Confirm \<and>
   active_trip (all_bookings (app_run (app_init [scenario_b1] None True) trip_to_summary)) =
     Some (scenario_b1\<lparr>status := In_progress\<rparr>) \<and>
   trip_history (resolve 0 (confirm (app_run (app_init [scenario_b1] None True) trip_to_summary))) =
     [scenario_b1\<lparr>status := Completed\<rparr>]"
proof -
  have r0: "app_reach (app_init [scenario_b1] None True)"
    by (rule app_reach.init) (simp add: scenario_b1_def)
  have r: "app_reach (app_run (app_init [scenario_b1] None True) trip_to_summary)"
    by (rule app_run_reach [OF r0]) (simp add: step_simps trip_to_summary_def)
  have e: "app_enabled (app_run (app_init [scenario_b1] None True) trip_to_summary) Confirm"
    by (simp add: step_simps trip_to_summary_def)
  have a: "active_trip (all_bookings (app_run (app_init [scenario_b1] None True) trip_to_summary)) =
     Some (scenario_b1\<lparr>status := In_progress\<rparr>)"
    by (simp add: step_simps trip_to_summary_def)
  have "inflight (app_run (app_init [scenario_b1] None True) trip_to_summary) = []"
    "trip_history (app_run (app_init [scenario_b1] None True) trip_to_summary) = []"
    by (simp_all add: step_simps trip_to_summary_def)
  with confirm_settle_history [OF r e a] r e a show ?thesis by simp
qed

text \<open>
  C8. In every reachable state, the trip summary (with its confirm button) is
  visible only while the displayed active trip is in progress.
\<close>

theorem summary_only_in_progress:
  "app_reach s \<Longrightarrow> summary_visible s \<Longrightarrow>
     \<exists>t. active_trip (all_bookings s) = Some t \<and> status t = In_progress"
  by (auto simp: app_inv_def dest: app_reach_inv)

theorem summary_only_in_progress_witness:
  "app_reach (app_run (app_init [scenario_b1] None True) trip_to_summary) \<and>
   summary_visible (app_run (app_init [scenario_b1] None True) trip_to_summary) \<and>
   (\<exists>t. active_trip (all_bookings (app_run (app_init [scenario_b1] None True) trip_to_summary)) = Some t \<and>
        status t = In_progress)"
proof -
  have r0: "app_reach (app_init [scenario_b1] None True)"
    by (rule app_reach.init) (simp add: scenario_b1_def)
  have r: "app_reach (app_run (app_init [scenario_b1] None True) trip_to_summary)"
    by (rule app_run_reach [OF r0]) (simp add: step_simps trip_to_summary_def)
  have v: "summary_visible (app_run (app_init [scenario_b1] None True) trip_to_summary)"
    by (simp add: step_simps trip_to_summary_def)
  from summary_only_in_progress [OF r v] r v show ?thesis by simp
qed

lemma history_synced_step:
  assumes "history_synced s" shows "history_synced (app_handle s e)"
proof (cases e)
  case Deliver
  then show ?thesis by (simp add: history_synced_def on_bookings_def)
next
  case (Resolve i)
  then show ?thesis using assms
    by (auto simp: history_synced_def resolve_def resume_update_def Let_def split: option.split)
qed (use assms in \<open>auto simp: history_synced_def handle_accept_def handle_decline_def slide_def confirm_def
      handle_swipe_complete_def handle_trip_update_def update_booking_status_def new_request_def
      on_location_feed_def Let_def split: option.split status.split\<close>)

lemma history_synced_run: "history_synced s \<Longrightarrow> history_synced (app_run s es)"
  by (induction es arbitrary: s) (simp_all add: history_synced_step)

text \<open>
  C31. Round trip of the stored history: from the first delivery of the booking set
  on, whatever happens next, the history the dashboard shows is exactly the one last
  written to local storage (empty when none was written).
\<close>

theorem history_roundtrip:
  "trip_history (app_run (app_init bs h online) (Deliver # es)) =
     (case stored_history (app_run (app_init bs h online) (Deliver # es)) of None \<Rightarrow> [] | Some h' \<Rightarrow> h')"
proof -
  have "history_synced (app_handle (app_init bs h online) Deliver)"
    by (simp add: history_synced_def on_bookings_def app_init_def)
  then show ?thesis using history_synced_run by (simp add: history_synced_def)
qed

end
