(* ===== verification/LocationTracker.thy ===== *)
theory LocationTracker
  imports Booking
begin

text \<open>
  The location tracker of ActiveTripView (src/components/ActiveTripView.tsx, the
  effect "GPS TRACKING" and the map's click handler). Every 1000 ms the view reads
  the storage slot \<open>driver_location\<close>; when it holds an object whose \<open>driver_lat\<close>
  and \<open>driver_lng\<close> are truthy, the new sample replaces the published position only
  if it lies farther than the jitter threshold (\<open>0.00001\<close> degrees, Euclidean in
  degree space) from it. A click on the map sets the position directly and
  broadcasts it through the directory's \<open>updateDriverLocation\<close> (spec-modelled:
  an entry of the outgoing log \<open>sink\<close>), with the trip status its closure captured.
\<close>

text \<open>The slot's content: nothing, text that \<open>JSON.parse\<close> rejects, or an object.\<close>

datatype raw_slot = NoData | Unparsable | Parsed "real option" "real option"

record location_broadcast =
  lb_pos :: coord
  lb_online :: bool
  lb_status :: status

record tracker =
  driver_pos :: "coord option"
  slot :: raw_slot
  sink :: "location_broadcast list"

datatype tracker_event = Poll | Click real real status | Write raw_slot

definition jitter_threshold :: real where
  "jitter_threshold = 0.00001"

definition coord_dist :: "coord \<Rightarrow> coord \<Rightarrow> real" where
  "coord_dist p q = sqrt ((fst p - fst q) ^ 2 + (snd p - snd q) ^ 2)"

text \<open>The functional update passed to \<open>setDriverPosition\<close>.\<close>

definition settle_position :: "coord \<Rightarrow> coord option \<Rightarrow> coord option" where
  "settle_position n prev =
     (case prev of
        None \<Rightarrow> Some n
      | Some p \<Rightarrow> if coord_dist p n > jitter_threshold then Some n else Some p)"

text \<open>\<open>updatePosition\<close>: one tick of the polling interval.\<close>

definition update_position :: "raw_slot \<Rightarrow> coord option \<Rightarrow> coord option" where
  "update_position r prev =
     (case r of
        NoData \<Rightarrow> prev
      | Unparsable \<Rightarrow> prev
      | Parsed lat lng \<Rightarrow>
          if js_truthy_num lat \<and> js_truthy_num lng
          then settle_position (the lat, the lng) prev else prev)"

text \<open>The click handler: local state, then the broadcast with the captured status.\<close>

definition click_to_drive :: "real \<Rightarrow> real \<Rightarrow> status \<Rightarrow> tracker \<Rightarrow> tracker" where
  "click_to_drive lat lng st tr =
     tr\<lparr>driver_pos := Some (lat, lng),
        sink := sink tr @ [\<lparr>lb_pos = (lat, lng), lb_online = True, lb_status = st\<rparr>]\<rparr>"

fun tracker_step :: "tracker \<Rightarrow> tracker_event \<Rightarrow> tracker" where
  "tracker_step tr Poll = tr\<lparr>driver_pos := update_position (slot tr) (driver_pos tr)\<rparr>"
| "tracker_step tr (Click lat lng st) = click_to_drive lat lng st tr"
| "tracker_step tr (Write r) = tr\<lparr>slot := r\<rparr>"

fun tracker_run :: "tracker \<Rightarrow> tracker_event list \<Rightarrow> tracker" where
  "tracker_run tr [] = tr"
| "tracker_run tr (e # es) = tracker_run (tracker_step tr e) es"

subsection \<open>Lemmas\<close>

lemma coord_dist_self [simp]: "coord_dist p p = 0"
  by (simp add: coord_dist_def)

lemma coord_dist_nonneg: "0 \<le> coord_dist p q"
  by (simp add: coord_dist_def)

lemma jitter_threshold_pos: "0 < jitter_threshold"
  by (simp add: jitter_threshold_def)

lemma settle_position_within:
  "settle_position n prev = Some q \<Longrightarrow> coord_dist q n \<le> jitter_threshold"
  by (auto simp: settle_position_def jitter_threshold_def split: option.splits if_splits)

lemma settle_position_Some: "\<exists>q. settle_position n prev = Some q"
  by (simp add: settle_position_def split: option.split)

lemma settle_position_stable:
  "coord_dist q n \<le> jitter_threshold \<Longrightarrow> settle_position n (Some q) = Some q"
  by (simp add: settle_position_def)

text \<open>
  A poll whose sample lies within the jitter threshold of the published
  position leaves the published position unchanged.
\<close>

theorem poll_within_threshold_keeps:
  "coord_dist p (la, lo) \<le> jitter_threshold \<Longrightarrow>
     update_position (Parsed (Some la) (Some lo)) (Some p) = Some p"
  by (simp add: update_position_def settle_position_stable)

theorem poll_within_threshold_keeps_witness:
  "coord_dist (15.3, 44.2) (15.3, 44.200005) \<le> jitter_threshold \<and>
   update_position (Parsed (Some 15.3) (Some 44.200005)) (Some (15.3, 44.2)) = Some (15.3, 44.2)"
proof -
  have h: "coord_dist (15.3, 44.2) (15.3, 44.200005) \<le> jitter_threshold"
    by (simp add: coord_dist_def jitter_threshold_def)
  show ?thesis using h poll_within_threshold_keeps [OF h] by (rule conjI)
qed

text \<open>
  A poll whose sample has non-zero coordinates and lies farther than the
  jitter threshold from the published position publishes the sample.
\<close>

theorem poll_beyond_threshold_moves:
  "la \<noteq> 0 \<Longrightarrow> lo \<noteq> 0 \<Longrightarrow> jitter_threshold < coord_dist p (la, lo) \<Longrightarrow>
     update_position (Parsed (Some la) (Some lo)) (Some p) = Some (la, lo)"
  by (simp add: update_position_def settle_position_def)

theorem poll_beyond_threshold_moves_witness:
  "(15.31::real) \<noteq> 0 \<and> (44.2::real) \<noteq> 0 \<and> jitter_threshold < coord_dist (15.3, 44.2) (15.31, 44.2) \<and>
   update_position (Parsed (Some 15.31) (Some 44.2)) (Some (15.3, 44.2)) = Some (15.31, 44.2)"
proof -
  have a: "(15.31::real) \<noteq> 0" and b: "(44.2::real) \<noteq> 0" by simp_all
  have c: "jitter_threshold < coord_dist (15.3, 44.2) (15.31, 44.2)"
    by (simp add: coord_dist_def jitter_threshold_def)
  from poll_beyond_threshold_moves [OF a b c] a b c show ?thesis by simp
qed

text \<open>
  A sample at exactly the jitter threshold from the published position does
  not update it: the code compares with \<open>dist > 0.00001\<close>, so only movement
  strictly beyond the threshold is published.
\<close>

theorem poll_at_threshold_keeps:
  "coord_dist (15.3, 44.2) (15.3, 44.20001) = jitter_threshold \<and>
   update_position (Parsed (Some 15.3) (Some 44.20001)) (Some (15.3, 44.2)) = Some (15.3, 44.2)"
  by (simp add: update_position_def settle_position_def coord_dist_def jitter_threshold_def)

text \<open>
  After a poll with a sample of non-zero coordinates there is a published
  position, and it lies within the jitter threshold of that sample.
\<close>

theorem poll_tracks_sample:
  "la \<noteq> 0 \<Longrightarrow> lo \<noteq> 0 \<Longrightarrow>
     \<exists>q. update_position (Parsed (Some la) (Some lo)) prev = Some q \<and>
         coord_dist q (la, lo) \<le> jitter_threshold"
  using settle_position_Some [of "(la, lo)" prev] settle_position_within
  by (auto simp: update_position_def)

text \<open>
  Polling is idempotent: reading the same slot twice publishes the same
  position as reading it once.
\<close>

theorem poll_idempotent: "update_position r (update_position r prev) = update_position r prev"
proof (cases r)
  case (Parsed lat lng)
  show ?thesis
  proof (cases "js_truthy_num lat \<and> js_truthy_num lng")
    case True
    obtain q where q: "settle_position (the lat, the lng) prev = Some q"
      using settle_position_Some by blast
    then have "coord_dist q (the lat, the lng) \<le> jitter_threshold"
      by (rule settle_position_within)
    with q Parsed True show ?thesis
      by (simp add: update_position_def settle_position_stable)
  next
    case False
    with Parsed show ?thesis by (auto simp: update_position_def)
  qed
qed (simp_all add: update_position_def)

text \<open>
  An empty slot, a slot \<open>JSON.parse\<close> rejects, and an object missing either
  coordinate are ignored: the published position is unchanged.
\<close>

theorem poll_bad_sample_ignored:
  "update_position NoData prev = prev \<and> update_position Unparsable prev = prev \<and>
   update_position (Parsed None lng) prev = prev \<and> update_position (Parsed lat None) prev = prev"
  by (simp add: update_position_def)

text \<open>
  C14. A sample with latitude exactly 0 is ignored like a missing one (the code
  tests \<open>parsed.driver_lat && parsed.driver_lng\<close> for truthiness), whatever the
  published position.
\<close>

theorem poll_zero_latitude_ignored: "update_position (Parsed (Some 0) lng) prev = prev"
  by (simp add: update_position_def)

lemma jitter_test_squared:
  "(jitter_threshold < coord_dist p q) \<longleftrightarrow>
     jitter_threshold ^ 2 < (fst p - fst q) ^ 2 + (snd p - snd q) ^ 2"
proof -
  have "0 \<le> (fst p - fst q) ^ 2 + (snd p - snd q) ^ 2" by simp
  then show ?thesis
    using jitter_threshold_pos
    by (metis coord_dist_def real_sqrt_less_iff real_sqrt_pow2 real_sqrt_power real_sqrt_abs less_le)
qed

text \<open>
  A click-to-drive position is replaced at the next poll when the storage slot
  still holds a valid sample farther than the threshold from the clicked point.
\<close>

theorem click_then_poll_snaps_back:
  "slot tr = Parsed (Some la) (Some lo) \<Longrightarrow> la \<noteq> 0 \<Longrightarrow> lo \<noteq> 0 \<Longrightarrow>
   jitter_threshold < coord_dist (x, y) (la, lo) \<Longrightarrow>
   driver_pos (tracker_run tr [Click x y st, Poll]) = Some (la, lo)"
  by (simp add: click_to_drive_def update_position_def settle_position_def)

end
