(* ===== verification/RouteEngine.thy ===== *)
theory RouteEngine
  imports Booking
begin

text \<open>
  The route engine of ActiveTripView (src/components/ActiveTripView.tsx, the effect
  "ROUTE FETCHING & ADDRESS", the ETA cell and the header). Whenever one of the
  effect's dependencies changes (trip status, pickup, drop, driver position,
  language) the pending 1000 ms timer is cleared and a new one is set whose closure
  holds those values and the \<open>destinationAddress\<close> of that render. When the timer
  fires, \<open>updateNavigation\<close> selects the target (pickup while accepted, drop while in
  progress), fetches the label if the captured address is empty, then fetches the
  route from the captured driver position. Each \<open>await\<close> is a task waiting for the
  external service; \<open>GeocodeDone i\<close> and \<open>RouteDone i\<close> settle the \<open>i\<close>-th task, in
  any order. Time is explicit (\<open>rt_now\<close>, milliseconds), so the debounce is a
  deadline. The logs record the requests issued to the geocoder and the router.
\<close>

record nav_deps =
  nd_status :: status
  nd_pickup :: "coord option"
  nd_drop :: "coord option"
  nd_pos :: "coord option"
  nd_lang :: string

record nav_closure =
  nc_deps :: nav_deps
  nc_addr :: string

datatype nav_task =
    AwaitGeocode nav_closure coord
  | AwaitRoute coord coord

record nav_state =
  rt_mounted :: bool
  rt_now :: ms
  rt_timer :: "(ms \<times> nav_closure) option"
  rt_tasks :: "nav_task list"
  current_route :: "coord list option"
  destination_address :: string
  geocode_log :: "(coord \<times> string) list"
  route_log :: "(coord \<times> coord) list"

datatype nav_event =
    Deps nav_deps
  | Elapse ms
  | GeocodeDone nat "string option"
  | RouteDone nat "coord list option"
  | Unmount

definition debounce_delay :: ms where
  "debounce_delay = 1000"

text \<open>The target for the status (\<open>isValidLatLngTuple\<close> holds of every typed pair).\<close>

definition nav_target :: "status \<Rightarrow> coord option \<Rightarrow> coord option \<Rightarrow> coord option" where
  "nav_target st pk dr =
     (if st = Accepted then pk else if st = In_progress then dr else None)"

text \<open>\<open>addr?.split(',')[0] || 'Destination'\<close>\<close>

definition geocode_label :: "string option \<Rightarrow> string" where
  "geocode_label addr =
     (case addr of
        None \<Rightarrow> ''Destination''
      | Some a \<Rightarrow> (let f = takeWhile (\<lambda>c. c \<noteq> CHR '','') a in if f = [] then ''Destination'' else f))"

text \<open>Step 2 of \<open>updateNavigation\<close>: the route request from the captured position.\<close>

definition route_phase :: "nav_closure \<Rightarrow> coord \<Rightarrow> nav_state \<Rightarrow> nav_state" where
  "route_phase c target s =
     (case nd_pos (nc_deps c) of
        None \<Rightarrow> s
      | Some p \<Rightarrow> s\<lparr>rt_tasks := rt_tasks s @ [AwaitRoute p target],
                    route_log := route_log s @ [(p, target)]\<rparr>)"

text \<open>\<open>updateNavigation\<close> up to its first \<open>await\<close>.\<close>

definition start_navigation :: "nav_closure \<Rightarrow> nav_state \<Rightarrow> nav_state" where
  "start_navigation c s =
     (let d = nc_deps c in
      case nav_target (nd_status d) (nd_pickup d) (nd_drop d) of
        None \<Rightarrow> s\<lparr>current_route := None\<rparr>
      | Some target \<Rightarrow>
          if nc_addr c = []
          then s\<lparr>rt_tasks := rt_tasks s @ [AwaitGeocode c target],
                 geocode_log := geocode_log s @ [(target, nd_lang d)]\<rparr>
          else route_phase c target s)"

text \<open>
  The effect's body and cleanup: the previous timer is cleared and a new one set
  with the current render's values.
\<close>

definition schedule_navigation :: "nav_deps \<Rightarrow> nav_state \<Rightarrow> nav_state" where
  "schedule_navigation d s =
     (if rt_mounted s
      then s\<lparr>rt_timer := Some (rt_now s + debounce_delay, \<lparr>nc_deps = d, nc_addr = destination_address s\<rparr>)\<rparr>
      else s)"

definition elapse :: "ms \<Rightarrow> nav_state \<Rightarrow> nav_state" where
  "elapse g s =
     (let t = rt_now s + g in
      case rt_timer s of
        None \<Rightarrow> s\<lparr>rt_now := t\<rparr>
      | Some (due, c) \<Rightarrow>
          if due \<le> t then start_navigation c (s\<lparr>rt_now := t, rt_timer := None\<rparr>)
          else s\<lparr>rt_now := t\<rparr>)"

text \<open>
  The continuations. After the view is unmounted React ignores the state setters,
  but the code after the first \<open>await\<close> still runs and still requests the route.
\<close>

definition geocode_done :: "nat \<Rightarrow> string option \<Rightarrow> nav_state \<Rightarrow> nav_state" where
  "geocode_done i addr s =
     (if i < length (rt_tasks s) then
        (case rt_tasks s ! i of
           AwaitGeocode c target \<Rightarrow>
             (let s1 = s\<lparr>rt_tasks := remove_nth i (rt_tasks s)\<rparr>;
                  s2 = (if rt_mounted s then s1\<lparr>destination_address := geocode_label addr\<rparr> else s1)
              in route_phase c target s2)
         | AwaitRoute _ _ \<Rightarrow> s)
      else s)"

definition route_done :: "nat \<Rightarrow> coord list option \<Rightarrow> nav_state \<Rightarrow> nav_state" where
  "route_done i r s =
     (if i < length (rt_tasks s) then
        (case rt_tasks s ! i of
           AwaitRoute _ _ \<Rightarrow>
             (let s1 = s\<lparr>rt_tasks := remove_nth i (rt_tasks s)\<rparr>
              in case r of
                   Some path \<Rightarrow> if rt_mounted s then s1\<lparr>current_route := Some path\<rparr> else s1
                 | None \<Rightarrow> s1)
         | AwaitGeocode _ _ \<Rightarrow> s)
      else s)"

definition unmount_nav :: "nav_state \<Rightarrow> nav_state" where
  "unmount_nav s = s\<lparr>rt_mounted := False, rt_timer := None\<rparr>"

fun nav_step :: "nav_state \<Rightarrow> nav_event \<Rightarrow> nav_state" where
  "nav_step s (Deps d) = schedule_navigation d s"
| "nav_step s (Elapse g) = elapse g s"
| "nav_step s (GeocodeDone i addr) = geocode_done i addr s"
| "nav_step s (RouteDone i r) = route_done i r s"
| "nav_step s Unmount = unmount_nav s"

fun nav_run :: "nav_state \<Rightarrow> nav_event list \<Rightarrow> nav_state" where
  "nav_run s [] = s"
| "nav_run s (e # es) = nav_run (nav_step s e) es"

text \<open>The ETA cell: \<open>Math.ceil(currentRoute.length / 10)\<close> minutes, or none.\<close>

definition eta_minutes :: "coord list option \<Rightarrow> nat option" where
  "eta_minutes r = map_option (\<lambda>path. nat \<lceil>real (length path) / 10\<rceil>) r"

text \<open>\<open>getHeaderInfo\<close>: the navigation header for the displayed status.\<close>

datatype header = Header_pickup string | Header_waiting | Header_dropoff string | Header_done

definition header_info :: "status \<Rightarrow> string \<Rightarrow> header" where
  "header_info st addr =
     (if st = Accepted then Header_pickup addr
      else if st = Arrived then Header_waiting
      else if st = In_progress then Header_dropoff addr
      else Header_done)"

text \<open>A burst of dependency changes, each followed by a quiet period.\<close>

fun burst :: "(nav_deps \<times> ms) list \<Rightarrow> nav_event list" where
  "burst [] = []"
| "burst ((d, g) # xs) = Deps d # Elapse g # burst xs"

text \<open>
  The label is settled: non-empty, and no pending timer or task can fetch it
  again.
\<close>

definition label_settled :: "nav_state \<Rightarrow> bool" where
  "label_settled s \<longleftrightarrow> destination_address s \<noteq> [] \<and>
     (\<forall>k \<in> set (rt_tasks s). \<exists>p q. k = AwaitRoute p q) \<and>
     (\<forall>due c. rt_timer s = Some (due, c) \<longrightarrow> nc_addr c \<noteq> [])"


text \<open>
  The scenario's dependencies while the trip is accepted (driver at \<open>(15.0, 44.0)\<close>),
  and a freshly mounted view with no label yet.
\<close>

definition scenario_deps :: nav_deps where
  "scenario_deps =
     \<lparr>nd_status = Accepted, nd_pickup = pickup scenario_b1, nd_drop = drop_loc scenario_b1,
      nd_pos = Some (15.0, 44.0), nd_lang = ''en''\<rparr>"

definition nav_init :: nav_state where
  "nav_init =
     \<lparr>rt_mounted = True, rt_now = 0, rt_timer = None, rt_tasks = [], current_route = None,
      destination_address = [], geocode_log = [], route_log = []\<rparr>"

subsection \<open>Lemmas\<close>

text \<open>
  The ETA the view shows, \<open>Math.ceil(route.length / 10)\<close> minutes, equals the
  integer computation \<open>(length + 9) div 10\<close>; a 37-point route shows 4 minutes.
\<close>

theorem eta_minutes_div:
  "eta_minutes r = map_option (\<lambda>path. (length path + 9) div 10) r"
  by (simp add: eta_minutes_def ceil_div_10)

lemma schedule_then_short_wait:
  "rt_mounted s \<Longrightarrow> g < debounce_delay \<Longrightarrow>
     elapse g (schedule_navigation d s) =
       s\<lparr>rt_timer := Some (rt_now s + debounce_delay, \<lparr>nc_deps = d, nc_addr = destination_address s\<rparr>),
         rt_now := rt_now s + g\<rparr>"
  by (simp add: elapse_def schedule_navigation_def)

lemma schedule_then_long_wait:
  "rt_mounted s \<Longrightarrow> debounce_delay \<le> g \<Longrightarrow>
     elapse g (schedule_navigation d s) =
       start_navigation \<lparr>nc_deps = d, nc_addr = destination_address s\<rparr>
         (s\<lparr>rt_now := rt_now s + g, rt_timer := None\<rparr>)"
  by (simp add: elapse_def schedule_navigation_def)

text \<open>
  C9. Debounce: a burst of dependency changes, each followed by less than 1000 ms
  of quiet, then 1000 ms or more of quiet, starts \<open>updateNavigation\<close> exactly once,
  with the values of the last change and the label of the state the burst began
  in; earlier values are never fetched for.
\<close>

theorem debounce_single_start:
  assumes "rt_mounted s" "xs \<noteq> []" "\<forall>x \<in> set (butlast xs). snd x < debounce_delay"
    "debounce_delay \<le> snd (last xs)"
  shows "nav_run s (burst xs) =
    start_navigation \<lparr>nc_deps = fst (last xs), nc_addr = destination_address s\<rparr>
      (s\<lparr>rt_now := rt_now s + sum_list (map snd xs), rt_timer := None\<rparr>)"
  using assms
proof (induction xs arbitrary: s rule: burst.induct)
  case 1
  then show ?case by simp
next
  case (2 d g xs)
  show ?case
  proof (cases xs)
    case Nil
    with "2.prems" show ?thesis by (simp add: schedule_then_long_wait)
  next
    case (Cons y ys)
    with "2.prems" have g: "g < debounce_delay" by simp
    let ?s = "s\<lparr>rt_timer := Some (rt_now s + debounce_delay, \<lparr>nc_deps = d, nc_addr = destination_address s\<rparr>),
                rt_now := rt_now s + g\<rparr>"
    have "nav_run ?s (burst xs) =
      start_navigation \<lparr>nc_deps = fst (last xs), nc_addr = destination_address ?s\<rparr>
        (?s\<lparr>rt_now := rt_now ?s + sum_list (map snd xs), rt_timer := None\<rparr>)"
      using "2.prems" Cons by (intro "2.IH") auto
    with "2.prems"(1) g Cons show ?thesis
      by (simp add: schedule_then_short_wait add.assoc)
  qed
qed

theorem debounce_single_start_witness:
  "rt_mounted nav_init \<and>
   [(scenario_deps, 200), (scenario_deps\<lparr>nd_pos := Some (15.1, 44.1)\<rparr>, 200),
    (scenario_deps\<lparr>nd_pos := Some (15.2, 44.1)\<rparr>, 1000)] \<noteq> [] \<and>
   (200::nat) < debounce_delay \<and>
   debounce_delay \<le> snd (last [(scenario_deps, 200), (scenario_deps\<lparr>nd_pos := Some (15.1, 44.1)\<rparr>, 200),
      (scenario_deps\<lparr>nd_pos := Some (15.2, 44.1)\<rparr>, 1000::nat)]) \<and>
   geocode_log (nav_run nav_init (burst [(scenario_deps, 200),
      (scenario_deps\<lparr>nd_pos := Some (15.1, 44.1)\<rparr>, 200),
      (scenario_deps\<lparr>nd_pos := Some (15.2, 44.1)\<rparr>, 1000)])) = [((15.30, 44.20), ''en'')] \<and>
   rt_now (nav_run nav_init (burst [(scenario_deps, 200),
      (scenario_deps\<lparr>nd_pos := Some (15.1, 44.1)\<rparr>, 200),
      (scenario_deps\<lparr>nd_pos := Some (15.2, 44.1)\<rparr>, 1000)])) = 1400"
proof -
  let ?xs = "[(scenario_deps, 200), (scenario_deps\<lparr>nd_pos := Some (15.1, 44.1)\<rparr>, 200),
      (scenario_deps\<lparr>nd_pos := Some (15.2, 44.1)\<rparr>, 1000::nat)]"
  have m: "rt_mounted nav_init" by (simp add: nav_init_def)
  have n: "?xs \<noteq> []" by simp
  have q: "\<forall>x \<in> set (butlast ?xs). snd x < debounce_delay" by (simp add: debounce_delay_def)
  have l: "debounce_delay \<le> snd (last ?xs)" by (simp add: debounce_delay_def)
  have "geocode_log (nav_run nav_init (burst ?xs)) = [((15.30, 44.20), ''en'')] \<and>
      rt_now (nav_run nav_init (burst ?xs)) = 1400"
    unfolding debounce_single_start [OF m n q l]
    by (simp add: start_navigation_def nav_target_def scenario_deps_def scenario_b1_def nav_init_def)
  moreover have "(200::nat) < debounce_delay" by (simp add: debounce_delay_def)
  ultimately show ?thesis using m n l by simp
qed

lemma label_settled_step:
  assumes "label_settled s"
  shows "label_settled (nav_step s e) \<and> destination_address (nav_step s e) = destination_address s \<and>
    geocode_log (nav_step s e) = geocode_log s"
proof (cases e)
  case (Deps d)
  with assms show ?thesis by (auto simp: label_settled_def schedule_navigation_def)
next
  case (Elapse g)
  show ?thesis
  proof (cases "rt_timer s")
    case None
    with assms Elapse show ?thesis by (simp add: label_settled_def elapse_def)
  next
    case (Some dc)
    then obtain due c where dc: "rt_timer s = Some (due, c)" by (cases dc) auto
    with assms have "nc_addr c \<noteq> []" by (simp add: label_settled_def)
    with assms dc Elapse show ?thesis
      by (auto simp: label_settled_def elapse_def start_navigation_def route_phase_def Let_def
          split: option.splits)
  qed
next
  case (GeocodeDone i addr)
  have "\<exists>p q. rt_tasks s ! i = AwaitRoute p q" if "i < length (rt_tasks s)"
    using assms that by (simp add: label_settled_def)
  with assms GeocodeDone show ?thesis
    by (auto simp: geocode_done_def)
next
  case (RouteDone i r)
  with assms show ?thesis
    by (auto simp: label_settled_def route_done_def Let_def split: nav_task.splits option.splits
        dest: set_remove_nth_subset [THEN subsetD])
next
  case Unmount
  with assms show ?thesis by (simp add: label_settled_def unmount_nav_def)
qed

text \<open>
  C13. Once the destination label is set and no pending timer or task can fetch it,
  it never changes and no reverse-geocode request is issued again, whatever
  happens next, including the switch of the target from pickup to drop.
\<close>

theorem label_never_refetched:
  "label_settled s \<Longrightarrow>
     destination_address (nav_run s es) = destination_address s \<and> geocode_log (nav_run s es) = geocode_log s"
proof (induction es arbitrary: s)
  case Nil
  then show ?case by simp
next
  case (Cons e es)
  from label_settled_step [OF Cons.prems] Cons.IH [of "nav_step s e"] show ?case by simp
qed

theorem label_never_refetched_witness:
  "label_settled (nav_run nav_init [Deps scenario_deps, Elapse 1000, GeocodeDone 0 (Some ''Pickup Street, Sanaa'')]) \<and>
   destination_address (nav_run (nav_run nav_init [Deps scenario_deps, Elapse 1000, GeocodeDone 0 (Some ''Pickup Street, Sanaa'')]) [Deps (scenario_deps\<lparr>nd_status := In_progress\<rparr>), Elapse 1000]) = destination_address (nav_run nav_init [Deps scenario_deps, Elapse 1000, GeocodeDone 0 (Some ''Pickup Street, Sanaa'')]) \<and>
   geocode_log (nav_run (nav_run nav_init [Deps scenario_deps, Elapse 1000, GeocodeDone 0 (Some ''Pickup Street, Sanaa'')]) [Deps (scenario_deps\<lparr>nd_status := In_progress\<rparr>), Elapse 1000]) = geocode_log (nav_run nav_init [Deps scenario_deps, Elapse 1000, GeocodeDone 0 (Some ''Pickup Street, Sanaa'')])"
proof -
  have s: "label_settled (nav_run nav_init [Deps scenario_deps, Elapse 1000, GeocodeDone 0 (Some ''Pickup Street, Sanaa'')])"
    apply (simp add: label_settled_def Let_def schedule_navigation_def elapse_def start_navigation_def nav_target_def route_phase_def geocode_done_def route_done_def debounce_delay_def remove_nth_def scenario_deps_def scenario_b1_def nav_init_def unmount_nav_def geocode_label_def)
    apply (rule conjI)
     apply (rule exI [of _ "153 / 10"], simp)
    apply (rule exI [of _ "221 / 5"], simp)
    done
  from label_never_refetched [OF s, of "[Deps (scenario_deps\<lparr>nd_status := In_progress\<rparr>), Elapse 1000]"] s show ?thesis by blast
qed

text \<open>
  When the status selects no target (arrived, or a missing pickup or drop),
  \<open>updateNavigation\<close> clears the route and leaves the destination label as it was.
\<close>

theorem no_target_clears_route:
  "nav_target (nd_status (nc_deps c)) (nd_pickup (nc_deps c)) (nd_drop (nc_deps c)) = None \<Longrightarrow>
     current_route (start_navigation c s) = None \<and>
     destination_address (start_navigation c s) = destination_address s"
  by (simp add: start_navigation_def)

text \<open>
  A failed route lookup (\<open>info?.route\<close> absent) keeps the route displayed
  before.
\<close>

theorem route_failure_keeps_route:
  "current_route (route_done i None s) = current_route s"
  by (simp add: route_done_def Let_def split: nav_task.split)




text \<open>
  C10. A route response can overwrite a newer one: when the route requested for an
  older driver position settles after the one requested later, the older route is
  displayed. The code keeps no association between a fetch and the state it was
  issued for.
\<close>

theorem stale_route_overwrites:
  "let d1 = scenario_deps;
       d2 = d1\<lparr>nd_pos := Some (15.2, 44.1)\<rparr>;
       s0 = nav_init\<lparr>destination_address := ''Pickup''\<rparr>;
       s = nav_run s0 [Deps d1, Elapse 1000, Deps d2, Elapse 1000,
                       RouteDone 1 (Some [(15.2, 44.1), (15.30, 44.20)]),
                       RouteDone 0 (Some [(15.0, 44.0), (15.1, 44.1), (15.30, 44.20)])]
   in route_log s = [((15.0, 44.0), (15.30, 44.20)), ((15.2, 44.1), (15.30, 44.20))] \<and>
      current_route s = Some [(15.0, 44.0), (15.1, 44.1), (15.30, 44.20)]"
  by (simp add: Let_def schedule_navigation_def elapse_def start_navigation_def nav_target_def
      route_phase_def route_done_def debounce_delay_def remove_nth_def scenario_deps_def
      scenario_b1_def nav_init_def)

text \<open>The label is JavaScript's \<open>addr?.split(',')[0] || 'Destination'\<close>.\<close>

lemma geocode_label_split:
  "geocode_label (Some a) =
     (let f = hd (js_split (CHR '','') a) in if f = [] then ''Destination'' else f)"
  by (simp add: geocode_label_def hd_js_split)

end
