(* ===== verification/GhostDrivers.thy ===== *)
theory GhostDrivers
  imports Prelude
begin

text \<open>
  The nearby-driver simulator of MapPicker (src/components/MapPicker.tsx, the effect
  "Ghost Cars"). Each run of the effect, when the picker is in pickup mode with a
  map and a selected location, clears the shared marker list, awaits the nearby
  positions, adds one marker per position and starts a 2000 ms interval that moves
  every marker of the shared list by \<open>(Math.random() - 0.5) * 0.0003\<close> on each axis.
  Its cleanup clears the interval its own closure has set (if any, yet) and removes
  all markers. Each run is an instance, numbered in order; \<open>Fetched k ps\<close> settles
  the await of instance \<open>k\<close>, \<open>Tick k rnd\<close> fires the interval of instance \<open>k\<close> with
  the random draws \<open>rnd j\<close> for the \<open>j\<close>-th marker.
\<close>

record sim_instance =
  si_center :: coord
  si_interval :: bool
  si_disposed :: bool
  si_fetched :: bool

record sim_state =
  map_ready :: bool
  markers :: "coord list"
  instances :: "sim_instance list"
  current :: "nat option"

datatype sim_event =
    Run bool "coord option"
  | Fetched nat "coord list"
  | Tick nat "nat \<Rightarrow> real \<times> real"
  | Unmount_picker

definition walk_step :: real where
  "walk_step = 0.0003"

text \<open>One marker's move: \<open>old + (Math.random() - 0.5) * 0.0003\<close> on each axis.\<close>

definition jitter_marker :: "coord \<Rightarrow> real \<times> real \<Rightarrow> coord" where
  "jitter_marker m r = (fst m + (fst r - 0.5) * walk_step, snd m + (snd r - 0.5) * walk_step)"

text \<open>The interval's callback over the shared marker list.\<close>

definition tick_markers :: "(nat \<Rightarrow> real \<times> real) \<Rightarrow> coord list \<Rightarrow> coord list" where
  "tick_markers rnd ms = map (\<lambda>(j, m). jitter_marker m (rnd j)) (enumerate 0 ms)"

text \<open>The cleanup returned by a run: clear its interval if set, remove all markers.\<close>

definition sim_cleanup :: "nat \<Rightarrow> sim_state \<Rightarrow> sim_state" where
  "sim_cleanup k s =
     s\<lparr>instances := (instances s)[k := (instances s ! k)\<lparr>si_interval := False, si_disposed := True\<rparr>],
       markers := []\<rparr>"

text \<open>React runs the previous run's cleanup, if one was registered, before the next.\<close>

definition cleanup_current :: "sim_state \<Rightarrow> sim_state" where
  "cleanup_current s =
     (case current s of
        None \<Rightarrow> s
      | Some k \<Rightarrow> (sim_cleanup k s)\<lparr>current := None\<rparr>)"

text \<open>The effect's body: the guard, then \<open>initDrivers\<close> up to its \<open>await\<close>.\<close>

definition sim_run :: "bool \<Rightarrow> coord option \<Rightarrow> sim_state \<Rightarrow> sim_state" where
  "sim_run is_pickup sel s =
     (let s1 = cleanup_current s in
      case sel of
        None \<Rightarrow> s1
      | Some c \<Rightarrow>
          if \<not> is_pickup \<or> \<not> map_ready s1 then s1
          else s1\<lparr>markers := [],
                  instances := instances s1 @
                    [\<lparr>si_center = c, si_interval = False, si_disposed = False, si_fetched = False\<rparr>],
                  current := Some (length (instances s1))\<rparr>)"

text \<open>The continuation of \<open>initDrivers\<close>: markers are added, the interval started.\<close>

definition sim_fetched :: "nat \<Rightarrow> coord list \<Rightarrow> sim_state \<Rightarrow> sim_state" where
  "sim_fetched k ps s =
     (if k < length (instances s) \<and> \<not> si_fetched (instances s ! k) then
        s\<lparr>markers := (if map_ready s then markers s @ ps else markers s),
          instances := (instances s)[k := (instances s ! k)\<lparr>si_interval := True, si_fetched := True\<rparr>]\<rparr>
      else s)"

definition sim_tick :: "nat \<Rightarrow> (nat \<Rightarrow> real \<times> real) \<Rightarrow> sim_state \<Rightarrow> sim_state" where
  "sim_tick k rnd s =
     (if k < length (instances s) \<and> si_interval (instances s ! k)
      then s\<lparr>markers := tick_markers rnd (markers s)\<rparr> else s)"

fun sim_step :: "sim_state \<Rightarrow> sim_event \<Rightarrow> sim_state" where
  "sim_step s (Run p sel) = sim_run p sel s"
| "sim_step s (Fetched k ps) = sim_fetched k ps s"
| "sim_step s (Tick k rnd) = sim_tick k rnd s"
| "sim_step s Unmount_picker = cleanup_current s"

fun sim_exec :: "sim_state \<Rightarrow> sim_event list \<Rightarrow> sim_state" where
  "sim_exec s [] = s"
| "sim_exec s (e # es) = sim_exec (sim_step s e) es"

text \<open>Random draws of \<open>Math.random()\<close>: in \<open>[0, 1)\<close>.\<close>

definition random_ok :: "(nat \<Rightarrow> real \<times> real) \<Rightarrow> bool" where
  "random_ok rnd \<longleftrightarrow> (\<forall>j. 0 \<le> fst (rnd j) \<and> fst (rnd j) < 1 \<and> 0 \<le> snd (rnd j) \<and> snd (rnd j) < 1)"

text \<open>\<open>n\<close> ticks of one interval over the same markers.\<close>

fun walk :: "(nat \<Rightarrow> real \<times> real) list \<Rightarrow> coord list \<Rightarrow> coord list" where
  "walk [] ms = ms"
| "walk (rnd # rs) ms = walk rs (tick_markers rnd ms)"

text \<open>No interval of a disposed run is still running.\<close>

definition no_leak :: "sim_state \<Rightarrow> bool" where
  "no_leak s \<longleftrightarrow> (\<forall>k < length (instances s). si_disposed (instances s ! k) \<longrightarrow> \<not> si_interval (instances s ! k))"


text \<open>
  Runs in which the environment waits for a run's nearby-driver fetch to settle
  before the next run or the unmount (\<open>quiet\<close>), from the initial state.
\<close>

definition quiet :: "sim_state \<Rightarrow> bool" where
  "quiet s \<longleftrightarrow> (case current s of None \<Rightarrow> True | Some k \<Rightarrow> si_fetched (instances s ! k))"

fun needs_quiet :: "sim_event \<Rightarrow> bool" where
  "needs_quiet (Run p sel) = True"
| "needs_quiet Unmount_picker = True"
| "needs_quiet (Fetched k ps) = False"
| "needs_quiet (Tick k rnd) = False"

fun sim_seq_valid :: "sim_state \<Rightarrow> sim_event list \<Rightarrow> bool" where
  "sim_seq_valid s [] = True"
| "sim_seq_valid s (e # es) = ((needs_quiet e \<longrightarrow> quiet s) \<and> sim_seq_valid (sim_step s e) es)"

definition sim_init :: "bool \<Rightarrow> sim_state" where
  "sim_init mr = \<lparr>map_ready = mr, markers = [], instances = [], current = None\<rparr>"

definition sim_inv :: "sim_state \<Rightarrow> bool" where
  "sim_inv s \<longleftrightarrow>
     (\<forall>k < length (instances s). si_disposed (instances s ! k) \<longrightarrow>
        si_fetched (instances s ! k) \<and> \<not> si_interval (instances s ! k)) \<and>
     (\<forall>k. current s = Some k \<longrightarrow> k < length (instances s) \<and> \<not> si_disposed (instances s ! k))"

subsection \<open>Lemmas\<close>

lemma abs_diff_chain:
  "\<bar>a - b\<bar> \<le> x \<Longrightarrow> \<bar>b - c\<bar> \<le> y \<Longrightarrow> \<bar>a - c\<bar> \<le> (x + y :: real)"
  by arith

lemma tick_markers_length [simp]: "length (tick_markers rnd ms) = length ms"
  by (simp add: tick_markers_def)

lemma tick_markers_nth:
  "j < length ms \<Longrightarrow> tick_markers rnd ms ! j = jitter_marker (ms ! j) (rnd j)"
  by (simp add: tick_markers_def nth_enumerate_eq)

lemma length_walk [simp]: "length (walk rs ms) = length ms"
  by (induction rs arbitrary: ms) simp_all

lemma centred_draw_bound:
  assumes "0 \<le> (r::real)" "r < 1" "0 \<le> c"
  shows "\<bar>(r - 0.5) * c\<bar> \<le> c / 2"
proof -
  from assms(1,2) have "\<bar>r - 0.5\<bar> \<le> 1 / 2" by arith
  then have "\<bar>r - 0.5\<bar> * c \<le> 1 / 2 * c" using assms(3) by (rule mult_right_mono)
  then show ?thesis by (simp add: abs_mult assms(3))
qed

lemma jitter_marker_bound:
  assumes "random_ok rnd"
  shows "\<bar>fst (jitter_marker m (rnd j)) - fst m\<bar> \<le> 0.00015 \<and>
    \<bar>snd (jitter_marker m (rnd j)) - snd m\<bar> \<le> 0.00015"
proof -
  from assms have "0 \<le> fst (rnd j)" "fst (rnd j) < 1" "0 \<le> snd (rnd j)" "snd (rnd j) < 1"
    by (simp_all add: random_ok_def)
  moreover have "0 \<le> walk_step" "walk_step / 2 = 0.00015" by (simp_all add: walk_step_def)
  ultimately show ?thesis
    using centred_draw_bound [of "fst (rnd j)" walk_step] centred_draw_bound [of "snd (rnd j)" walk_step]
    by (simp add: jitter_marker_def)
qed

theorem walk_bounded:
  assumes "\<forall>rnd \<in> set rs. random_ok rnd" "j < length ms"
  shows "\<bar>fst (walk rs ms ! j) - fst (ms ! j)\<bar> \<le> real (length rs) * 0.00015 \<and>
    \<bar>snd (walk rs ms ! j) - snd (ms ! j)\<bar> \<le> real (length rs) * 0.00015"
  using assms
proof (induction rs arbitrary: ms)
  case Nil
  then show ?case by simp
next
  case (Cons rnd rs)
  let ?ms = "tick_markers rnd ms"
  from Cons.prems have "j < length ?ms" by simp
  with Cons.prems Cons.IH [of ?ms] have ih:
    "\<bar>fst (walk rs ?ms ! j) - fst (?ms ! j)\<bar> \<le> real (length rs) * 0.00015"
    "\<bar>snd (walk rs ?ms ! j) - snd (?ms ! j)\<bar> \<le> real (length rs) * 0.00015"
    by auto
  from Cons.prems have step:
    "\<bar>fst (?ms ! j) - fst (ms ! j)\<bar> \<le> 0.00015" "\<bar>snd (?ms ! j) - snd (ms ! j)\<bar> \<le> 0.00015"
    using jitter_marker_bound [of rnd "ms ! j" j] by (simp_all add: tick_markers_nth)
  from abs_diff_chain [OF ih(1) step(1)] abs_diff_chain [OF ih(2) step(2)] show ?case
    by (simp add: algebra_simps)
qed

lemma sim_ticks:
  "k < length (instances s) \<Longrightarrow> si_interval (instances s ! k) \<Longrightarrow>
     sim_exec s (map (Tick k) rs) = s\<lparr>markers := walk rs (markers s)\<rparr>"
  by (induction rs arbitrary: s) (simp_all add: sim_tick_def)

text \<open>
  C16. While a single interval moves the markers, after \<open>N\<close> ticks every marker lies
  within \<open>N * 0.00015\<close> degrees of where it was on each axis, for any draws of
  \<open>Math.random()\<close> in \<open>[0, 1)\<close>.
\<close>

theorem ghost_drift_bounded:
  assumes "k < length (instances s)" "si_interval (instances s ! k)"
    "\<forall>rnd \<in> set rs. random_ok rnd" "j < length (markers s)"
  shows "\<bar>fst (markers (sim_exec s (map (Tick k) rs)) ! j) - fst (markers s ! j)\<bar> \<le> real (length rs) * 0.00015 \<and>
    \<bar>snd (markers (sim_exec s (map (Tick k) rs)) ! j) - snd (markers s ! j)\<bar> \<le> real (length rs) * 0.00015"
  using walk_bounded [OF assms(3,4)] by (simp add: sim_ticks [OF assms(1,2)])

theorem ghost_drift_bounded_witness:
  "0 < length (instances (sim_exec (sim_init True) [Run True (Some (15.36, 44.19)), Fetched 0 [(15.361, 44.191)]])) \<and>
   si_interval (instances (sim_exec (sim_init True) [Run True (Some (15.36, 44.19)), Fetched 0 [(15.361, 44.191)]]) ! 0) \<and>
   random_ok (\<lambda>j. (0.9, 0.1)) \<and> random_ok (\<lambda>j. (0.5, 0.75)) \<and>
   0 < length (markers (sim_exec (sim_init True) [Run True (Some (15.36, 44.19)), Fetched 0 [(15.361, 44.191)]])) \<and>
   \<bar>fst (markers (sim_exec (sim_exec (sim_init True) [Run True (Some (15.36, 44.19)), Fetched 0 [(15.361, 44.191)]])
      (map (Tick 0) [\<lambda>j. (0.9, 0.1), \<lambda>j. (0.5, 0.75)])) ! 0) - 15.361\<bar> \<le> 2 * 0.00015"
proof -
  let ?s = "sim_exec (sim_init True) [Run True (Some (15.36, 44.19)), Fetched 0 [(15.361, 44.191)]]"
  let ?rs = "[\<lambda>j::nat. (0.9::real, 0.1::real), \<lambda>j. (0.5, 0.75)]"
  have a: "0 < length (instances ?s)" and b: "si_interval (instances ?s ! 0)"
    by (simp_all add: sim_init_def sim_run_def sim_fetched_def cleanup_current_def)
  have c: "\<forall>rnd \<in> set ?rs. random_ok rnd" by (simp add: random_ok_def)
  have c': "random_ok (\<lambda>j::nat. (0.9::real, 0.1::real)) \<and> random_ok (\<lambda>j::nat. (0.5::real, 0.75::real))"
    using c by simp
  have d: "0 < length (markers ?s)"
    by (simp add: sim_init_def sim_run_def sim_fetched_def cleanup_current_def)
  have m: "markers ?s ! 0 = (15.361, 44.191)"
    by (simp add: sim_init_def sim_run_def sim_fetched_def cleanup_current_def)
  from ghost_drift_bounded [OF a b c d] a b c' d m show ?thesis by simp
qed

lemma cleanup_current_inv:
  assumes "sim_inv s" "quiet s"
  shows "sim_inv (cleanup_current s) \<and> current (cleanup_current s) = None \<and>
    length (instances (cleanup_current s)) = length (instances s) \<and>
    map_ready (cleanup_current s) = map_ready s"
proof (cases "current s")
  case None
  with assms show ?thesis by (simp add: cleanup_current_def)
next
  case (Some k)
  with assms have "k < length (instances s)" "si_fetched (instances s ! k)"
    by (auto simp: sim_inv_def quiet_def)
  with assms Some show ?thesis
    by (auto simp: sim_inv_def cleanup_current_def sim_cleanup_def nth_list_update)
qed

lemma sim_step_inv:
  assumes "sim_inv s" "needs_quiet e \<longrightarrow> quiet s"
  shows "sim_inv (sim_step s e)"
proof (cases e)
  case (Run p sel)
  with assms have "quiet s" by simp
  with assms(1) have c: "sim_inv (cleanup_current s)" "current (cleanup_current s) = None"
    using cleanup_current_inv by auto
  with Run show ?thesis
    by (auto simp: sim_run_def sim_inv_def nth_append Let_def split: option.split)
next
  case (Fetched k ps)
  with assms(1) show ?thesis
    by (auto simp: sim_fetched_def sim_inv_def nth_list_update)
next
  case (Tick k rnd)
  with assms(1) show ?thesis by (simp add: sim_tick_def sim_inv_def)
next
  case Unmount_picker
  with assms have "quiet s" by simp
  with assms(1) Unmount_picker cleanup_current_inv show ?thesis by simp
qed

text \<open>
  C17. When each run's nearby-driver fetch settles before the next run or the
  unmount, no interval of a disposed run is ever left running.
\<close>

theorem sequential_runs_no_leak:
  "sim_seq_valid (sim_init mr) es \<Longrightarrow> no_leak (sim_exec (sim_init mr) es)"
proof -
  have "sim_inv s \<Longrightarrow> sim_seq_valid s es \<Longrightarrow> sim_inv (sim_exec s es)" for s
  proof (induction es arbitrary: s)
    case Nil
    then show ?case by simp
  next
    case (Cons e es)
    from Cons.prems have "sim_inv (sim_step s e)"
      by (intro sim_step_inv) simp_all
    moreover from Cons.prems have "sim_seq_valid (sim_step s e) es"
      by simp
    ultimately show ?case using Cons.IH by simp
  qed
  moreover have "sim_inv (sim_init mr)" by (simp add: sim_inv_def sim_init_def)
  ultimately show "sim_seq_valid (sim_init mr) es \<Longrightarrow> no_leak (sim_exec (sim_init mr) es)"
    by (auto simp: sim_inv_def no_leak_def)
qed

theorem sequential_runs_no_leak_witness:
  "sim_seq_valid (sim_init True) [Run True (Some (15.36, 44.19)), Fetched 0 [(15.361, 44.191)],
     Run True (Some (15.37, 44.20)), Fetched 1 [(15.371, 44.201)], Unmount_picker] \<and>
   no_leak (sim_exec (sim_init True) [Run True (Some (15.36, 44.19)), Fetched 0 [(15.361, 44.191)],
     Run True (Some (15.37, 44.20)), Fetched 1 [(15.371, 44.201)], Unmount_picker])"
proof -
  have h: "sim_seq_valid (sim_init True) [Run True (Some (15.36, 44.19)), Fetched 0 [(15.361, 44.191)],
     Run True (Some (15.37, 44.20)), Fetched 1 [(15.371, 44.201)], Unmount_picker]"
    by (simp add: sim_init_def sim_run_def sim_fetched_def cleanup_current_def sim_cleanup_def quiet_def)
  show ?thesis using h sequential_runs_no_leak [OF h] by (rule conjI)
qed

text \<open>
  Restarting the simulation with a new centre, once its fetch settles, shows
  exactly the new positions: nothing of the previous run's markers carries over.
\<close>

theorem restart_resets_markers:
  "map_ready s \<Longrightarrow>
     markers (sim_exec s [Run True (Some c), Fetched (length (instances s)) ps]) = ps"
  by (simp add: sim_run_def sim_fetched_def cleanup_current_def sim_cleanup_def nth_append
      split: option.split)

text \<open>
  C18. When the picker's location changes while a run's fetch is pending, that
  run's continuation still adds its markers to the shared list and starts an
  interval after its cleanup has run; the interval is never cleared and moves the
  next run's markers too.
\<close>

theorem stale_fetch_leaks_interval:
  "let s = sim_exec (sim_init True)
             [Run True (Some (15.36, 44.19)), Run True (Some (15.37, 44.20)),
              Fetched 0 [(15.361, 44.191)], Fetched 1 [(15.371, 44.201)]]
   in \<not> no_leak s \<and> si_disposed (instances s ! 0) \<and> si_interval (instances s ! 0) \<and>
      si_interval (instances s ! 1) \<and> markers s = [(15.361, 44.191), (15.371, 44.201)]"
  by (simp add: Let_def sim_init_def sim_run_def sim_fetched_def cleanup_current_def
      sim_cleanup_def no_leak_def Ex_less_Suc)

end
