(* ===== verification/MapView.thy ===== *)
theory MapView
  imports Booking
begin

text \<open>
  The map-drawing effect of ActiveTripView (src/components/ActiveTripView.tsx,
  "MAP DRAWING", lines 126-167), written against the narrow rendering interface
  the specification names: add a layer, remove a layer, set the driver marker,
  centre the view. Leaflet layers are objects with identity, so every layer the
  effect creates gets a fresh number (\<open>next_layer\<close>); the map holds a list of
  numbered layers in drawing order (front of the list = back of the map, which is
  where \<open>bringToBack\<close> puts the route border). \<open>layers_ref\<close> is \<open>layersRef.current\<close>.
  The driver marker lives in its own ref and is moved, never re-created.
\<close>

datatype pin_colour = Green_pin | Red_pin

datatype layer = Route_line "coord list" | Route_border "coord list" | Target_pin coord pin_colour

record map_canvas =
  map_ready :: bool
  canvas :: "(nat \<times> layer) list"
  layers_ref :: "nat list"
  next_layer :: nat
  driver_marker :: "coord option"
  view_centre :: "coord option"

text \<open>\<open>layersRef.current.forEach(layer => map.removeLayer(layer)); layersRef.current = []\<close>.\<close>

definition clear_layers :: "map_canvas \<Rightarrow> map_canvas" where
  "clear_layers c = c\<lparr>canvas := filter (\<lambda>(i, _). i \<notin> set (layers_ref c)) (canvas c), layers_ref := []\<rparr>"

text \<open>The blue line is added, the white border is added and sent to the back.\<close>

definition draw_route :: "coord list option \<Rightarrow> map_canvas \<Rightarrow> map_canvas" where
  "draw_route route c =
     (case route of
        None \<Rightarrow> c
      | Some r \<Rightarrow>
          let n = next_layer c in
          c\<lparr>canvas := (Suc n, Route_border r) # canvas c @ [(n, Route_line r)],
            layers_ref := layers_ref c @ [n, Suc n],
            next_layer := n + 2\<rparr>)"

text \<open>The driver marker is created once and then moved; the view follows it.\<close>

definition draw_driver :: "coord option \<Rightarrow> map_canvas \<Rightarrow> map_canvas" where
  "draw_driver pos c =
     (case pos of
        None \<Rightarrow> c
      | Some p \<Rightarrow> c\<lparr>driver_marker := Some p, view_centre := Some p\<rparr>)"

text \<open>\<open>trip.status === 'accepted' ? trip.pickup : trip.drop\<close>, green while accepted.\<close>

definition pin_target :: "status \<Rightarrow> coord option \<Rightarrow> coord option \<Rightarrow> coord option" where
  "pin_target st pk dr = (if st = Accepted then pk else dr)"

definition draw_pin :: "status \<Rightarrow> coord option \<Rightarrow> coord option \<Rightarrow> map_canvas \<Rightarrow> map_canvas" where
  "draw_pin st pk dr c =
     (case pin_target st pk dr of
        None \<Rightarrow> c
      | Some t \<Rightarrow>
          let n = next_layer c; col = (if st = Accepted then Green_pin else Red_pin) in
          c\<lparr>canvas := canvas c @ [(n, Target_pin t col)],
            layers_ref := layers_ref c @ [n],
            next_layer := Suc n\<rparr>)"

text \<open>One run of the effect, on the inputs its dependency list names.\<close>

definition draw_map ::
  "status \<Rightarrow> coord option \<Rightarrow> coord option \<Rightarrow> coord option \<Rightarrow> coord list option \<Rightarrow> map_canvas \<Rightarrow> map_canvas" where
  "draw_map st pk dr pos route c =
     (if \<not> map_ready c then c
      else draw_pin st pk dr (draw_driver pos (draw_route route (clear_layers c))))"

text \<open>The layers the effect is expected to leave on the map, in drawing order.\<close>

definition expected_layers :: "status \<Rightarrow> coord option \<Rightarrow> coord option \<Rightarrow> coord list option \<Rightarrow> layer list" where
  "expected_layers st pk dr route =
     (case route of None \<Rightarrow> [] | Some r \<Rightarrow> [Route_border r, Route_line r]) @
     (case pin_target st pk dr of None \<Rightarrow> []
      | Some t \<Rightarrow> [Target_pin t (if st = Accepted then Green_pin else Red_pin)])"

text \<open>
  Layer hygiene: the numbers are below the counter and distinct, and every layer
  the ref names is on the map.
\<close>

definition canvas_ok :: "map_canvas \<Rightarrow> bool" where
  "canvas_ok c \<longleftrightarrow>
     distinct (map fst (canvas c)) \<and> (\<forall>i \<in> set (map fst (canvas c)). i < next_layer c) \<and>
     set (layers_ref c) \<subseteq> set (map fst (canvas c)) \<and> distinct (layers_ref c)"

text \<open>A sequence of effect runs, one per change of the effect's dependencies.\<close>

type_synonym draw_input = "status \<times> coord option \<times> coord option \<times> coord option \<times> coord list option"

fun redraw_run :: "draw_input list \<Rightarrow> map_canvas \<Rightarrow> map_canvas" where
  "redraw_run [] c = c"
| "redraw_run ((st, pk, dr, pos, route) # ds) c = redraw_run ds (draw_map st pk dr pos route c)"

definition owned :: "map_canvas \<Rightarrow> (nat \<times> layer) list" where
  "owned c = filter (\<lambda>(i, _). i \<in> set (layers_ref c)) (canvas c)"

definition foreign :: "map_canvas \<Rightarrow> (nat \<times> layer) list" where
  "foreign c = filter (\<lambda>(i, _). i \<notin> set (layers_ref c)) (canvas c)"


text \<open>A ready map after one earlier run that drew only a pickup pin.\<close>

definition prior_canvas :: map_canvas where
  "prior_canvas = \<lparr>map_ready = True, canvas = [(0, Target_pin (15.30, 44.20) Green_pin)],
     layers_ref = [0], next_layer = 1, driver_marker = None, view_centre = None\<rparr>"

subsection \<open>Lemmas\<close>

lemma filter_canvas_cong:
  assumes "canvas_ok c" "\<And>i. i < next_layer c \<Longrightarrow> P i = Q i"
  shows "filter (\<lambda>(i, _). P i) (canvas c) = filter (\<lambda>(i, _). Q i) (canvas c)"
  using assms by (intro filter_cong) (auto simp: canvas_ok_def)

lemma clear_layers_facts:
  assumes "canvas_ok c"
  shows "canvas_ok (clear_layers c)" "owned (clear_layers c) = []" "foreign (clear_layers c) = foreign c"
  using assms
  by (auto simp: canvas_ok_def clear_layers_def owned_def foreign_def distinct_map_filter)

lemma draw_route_facts:
  assumes "canvas_ok c"
  shows "canvas_ok (draw_route route c)"
    "foreign (draw_route route c) = foreign c"
    "owned (draw_route route c) =
       (case route of None \<Rightarrow> owned c
        | Some r \<Rightarrow> (Suc (next_layer c), Route_border r) # owned c @ [(next_layer c, Route_line r)])"
    "next_layer c \<le> next_layer (draw_route route c)"
proof -
  let ?n = "next_layer c"
  have eq1: "filter (\<lambda>(i, _). i \<in> set (layers_ref c @ [?n, Suc ?n])) (canvas c) = owned c"
    unfolding owned_def using assms by (rule filter_canvas_cong) auto
  have eq2: "filter (\<lambda>(i, _). i \<notin> set (layers_ref c @ [?n, Suc ?n])) (canvas c) = foreign c"
    unfolding foreign_def using assms by (rule filter_canvas_cong) auto
  show "canvas_ok (draw_route route c)"
    using assms by (fastforce simp: canvas_ok_def draw_route_def Let_def split: option.split)
  show "foreign (draw_route route c) = foreign c"
    using eq2 by (simp add: draw_route_def foreign_def Let_def split: option.split)
  show "owned (draw_route route c) =
       (case route of None \<Rightarrow> owned c
        | Some r \<Rightarrow> (Suc (next_layer c), Route_border r) # owned c @ [(next_layer c, Route_line r)])"
    using eq1 by (simp add: draw_route_def owned_def Let_def split: option.split)
  show "next_layer c \<le> next_layer (draw_route route c)"
    by (simp add: draw_route_def Let_def split: option.split)
qed

lemma draw_pin_facts:
  assumes "canvas_ok c"
  shows "canvas_ok (draw_pin st pk dr c)"
    "foreign (draw_pin st pk dr c) = foreign c"
    "owned (draw_pin st pk dr c) =
       owned c @ (case pin_target st pk dr of None \<Rightarrow> []
        | Some t \<Rightarrow> [(next_layer c, Target_pin t (if st = Accepted then Green_pin else Red_pin))])"
proof -
  let ?n = "next_layer c"
  have eq1: "filter (\<lambda>(i, _). i \<in> set (layers_ref c @ [?n])) (canvas c) = owned c"
    unfolding owned_def using assms by (rule filter_canvas_cong) auto
  have eq2: "filter (\<lambda>(i, _). i \<notin> set (layers_ref c @ [?n])) (canvas c) = foreign c"
    unfolding foreign_def using assms by (rule filter_canvas_cong) auto
  show "canvas_ok (draw_pin st pk dr c)"
    using assms by (fastforce simp: canvas_ok_def draw_pin_def Let_def split: option.split)
  show "foreign (draw_pin st pk dr c) = foreign c"
    using eq2 by (simp add: draw_pin_def foreign_def Let_def split: option.split)
  show "owned (draw_pin st pk dr c) =
       owned c @ (case pin_target st pk dr of None \<Rightarrow> []
        | Some t \<Rightarrow> [(next_layer c, Target_pin t (if st = Accepted then Green_pin else Red_pin))])"
    using eq1 by (simp add: draw_pin_def owned_def Let_def split: option.split)
qed

lemma draw_driver_facts [simp]:
  "canvas (draw_driver pos c) = canvas c" "layers_ref (draw_driver pos c) = layers_ref c"
  "next_layer (draw_driver pos c) = next_layer c" "map_ready (draw_driver pos c) = map_ready c"
  by (simp_all add: draw_driver_def split: option.split)

lemma draw_driver_views [simp]:
  "canvas_ok (draw_driver pos c) = canvas_ok c" "owned (draw_driver pos c) = owned c"
  "foreign (draw_driver pos c) = foreign c"
  by (simp_all add: canvas_ok_def owned_def foreign_def)

lemma clear_layers_next [simp]: "next_layer (clear_layers c) = next_layer c"
  by (simp add: clear_layers_def)

lemma draw_map_facts:
  assumes "canvas_ok c" "map_ready c"
  shows "map snd (owned (draw_map st pk dr pos route c)) = expected_layers st pk dr route \<and>
         foreign (draw_map st pk dr pos route c) = foreign c \<and>
         canvas_ok (draw_map st pk dr pos route c)"
proof -
  let ?c1 = "clear_layers c"
  let ?c2 = "draw_route route ?c1"
  let ?c3 = "draw_driver pos ?c2"
  have ok1: "canvas_ok ?c1" and o1: "owned ?c1 = []" and f1: "foreign ?c1 = foreign c"
    using clear_layers_facts [OF assms(1)] by simp_all
  have ok3: "canvas_ok ?c3" and f3: "foreign ?c3 = foreign c"
    using draw_route_facts [OF ok1] f1 by simp_all
  have o3: "map snd (owned ?c3) = (case route of None \<Rightarrow> [] | Some r \<Rightarrow> [Route_border r, Route_line r])"
    using draw_route_facts(3) [OF ok1, of route] o1 by (simp split: option.split)
  show ?thesis
    using assms(2) draw_pin_facts [OF ok3, of st pk dr] o3 f3
    by (simp add: draw_map_def expected_layers_def split: option.split)
qed

lemma split_filter_length:
  "length (filter (\<lambda>(i, _). P i) xs) + length (filter (\<lambda>(i, _). \<not> P i) xs) = length xs"
  by (induction xs) auto

lemma canvas_length: "length (canvas c) = length (owned c) + length (foreign c)"
  unfolding owned_def foreign_def by (rule split_filter_length [symmetric])

lemma expected_layers_length: "length (expected_layers st pk dr route) \<le> 3"
  by (simp add: expected_layers_def split: option.split)

lemma draw_map_ready [simp]: "map_ready (draw_map st pk dr pos route c) = map_ready c"
  by (simp add: draw_map_def draw_pin_def draw_route_def clear_layers_def Let_def split: option.split)

lemma draw_map_length:
  assumes "canvas_ok c" "map_ready c"
  shows "length (canvas (draw_map st pk dr pos route c)) \<le> length (foreign c) + 3"
proof -
  from draw_map_facts [OF assms, of st pk dr pos route]
  have "length (owned (draw_map st pk dr pos route c)) \<le> 3"
       "foreign (draw_map st pk dr pos route c) = foreign c"
    using expected_layers_length [of st pk dr route] by (metis length_map, simp)
  then show ?thesis by (simp add: canvas_length [of "draw_map st pk dr pos route c"])
qed

text \<open>
  C20. One run of the drawing effect on a ready map removes exactly the layers
  the previous run drew and leaves exactly the route line, its border and the
  target pin the current inputs call for; layers it does not own are untouched.
\<close>

theorem redraw_replaces_own_layers:
  "canvas_ok c \<Longrightarrow> map_ready c \<Longrightarrow>
     map snd (owned (draw_map st pk dr pos route c)) = expected_layers st pk dr route \<and>
     foreign (draw_map st pk dr pos route c) = foreign c"
  using draw_map_facts by blast

theorem redraw_replaces_own_layers_witness:
  "canvas_ok prior_canvas \<and> map_ready prior_canvas \<and>
   map snd (owned (draw_map In_progress (Some (15.30, 44.20)) (Some (15.35, 44.25)) (Some (15.31, 44.21))
      (Some [(15.31, 44.21), (15.35, 44.25)]) prior_canvas)) =
     expected_layers In_progress (Some (15.30, 44.20)) (Some (15.35, 44.25)) (Some [(15.31, 44.21), (15.35, 44.25)]) \<and>
   foreign (draw_map In_progress (Some (15.30, 44.20)) (Some (15.35, 44.25)) (Some (15.31, 44.21))
      (Some [(15.31, 44.21), (15.35, 44.25)]) prior_canvas) = foreign prior_canvas"
proof -
  have ok: "canvas_ok prior_canvas" and r: "map_ready prior_canvas"
    by (simp_all add: canvas_ok_def prior_canvas_def)
  from redraw_replaces_own_layers [OF ok r] ok r show ?thesis by blast
qed

text \<open>
  However many times the effect runs, the map never holds more than three
  layers beyond those it did not draw: no route line or pin leaks across redraws.
\<close>

theorem redraws_bounded:
  "canvas_ok c \<Longrightarrow> map_ready c \<Longrightarrow> ds \<noteq> [] \<Longrightarrow>
     length (canvas (redraw_run ds c)) \<le> length (foreign c) + 3"
proof (induction ds arbitrary: c)
  case (Cons d ds)
  obtain st pk dr pos route where d: "d = (st, pk, dr, pos, route)" by (cases d) auto
  let ?c = "draw_map st pk dr pos route c"
  have ok: "canvas_ok ?c" and fe: "foreign ?c = foreign c"
    using draw_map_facts [OF Cons.prems(1,2)] by simp_all
  show ?case
  proof (cases "ds = []")
    case True
    then show ?thesis using d draw_map_length [OF Cons.prems(1,2)] by simp
  next
    case False
    then show ?thesis using d Cons.IH [OF ok _ False] fe Cons.prems(2) by simp
  qed
qed simp

end
