(* ===== verification/Fare.thy ===== *)
theory Fare
  imports Booking
begin

text \<open>
  The fare and earnings arithmetic: the price shown on a request card and on a
  history entry, \<open>parseFloat(booking.distance || '0') * 0.5 + 2\<close>
  (src/components/RequestCard.tsx line 25, src/components/DriverApp.tsx line 76),
  the dashboard's total \<open>tripHistory.reduce((acc, t) => acc + fare t, 0)\<close>
  (DriverApp.tsx lines 233-235), and the amount of the trip summary
  (ActiveTripView.tsx line 273). JavaScript numbers are modelled as exact reals
  with NaN and the two infinities, which is what \<open>parseFloat\<close> can return;
  \<open>parseFloat\<close> is written out from the ECMAScript grammar of
  \<open>StrDecimalLiteral\<close> (leading white space, sign, \<open>Infinity\<close>, digits, fraction,
  exponent; the longest valid prefix counts). Rounding of doubles is not modelled.
\<close>

datatype jsnum = Fin real | NaN | PInf | NInf

fun js_add :: "jsnum \<Rightarrow> jsnum \<Rightarrow> jsnum" where
  "js_add (Fin a) (Fin b) = Fin (a + b)"
| "js_add NaN _ = NaN"
| "js_add _ NaN = NaN"
| "js_add PInf NInf = NaN"
| "js_add NInf PInf = NaN"
| "js_add PInf _ = PInf"
| "js_add _ PInf = PInf"
| "js_add NInf _ = NInf"
| "js_add _ NInf = NInf"

text \<open>Multiplication by a positive finite constant, the only product the code forms.\<close>

fun js_scale :: "real \<Rightarrow> jsnum \<Rightarrow> jsnum" where
  "js_scale c (Fin a) = Fin (c * a)"
| "js_scale c NaN = NaN"
| "js_scale c PInf = PInf"
| "js_scale c NInf = NInf"

definition is_digit :: "char \<Rightarrow> bool" where
  "is_digit c \<longleftrightarrow> 48 \<le> (of_char c :: nat) \<and> (of_char c :: nat) \<le> 57"

definition is_js_space :: "char \<Rightarrow> bool" where
  "is_js_space c \<longleftrightarrow> c \<in> set [CHR '' '', CHR 0x09, CHR 0x0A, CHR 0x0B, CHR 0x0C, CHR 0x0D]"

definition digit_value :: "char \<Rightarrow> nat" where
  "digit_value c = of_char c - 48"

definition digits_value :: "string \<Rightarrow> nat" where
  "digits_value ds = foldl (\<lambda>n c. 10 * n + digit_value c) 0 ds"

text \<open>The optional exponent part: \<open>e\<close> or \<open>E\<close>, a sign, at least one digit.\<close>

definition exponent_part :: "string \<Rightarrow> int" where
  "exponent_part r =
     (if r \<noteq> [] \<and> (hd r = CHR ''e'' \<or> hd r = CHR ''E'') then
        (let r' = tl r;
             sg = (if r' \<noteq> [] \<and> hd r' = CHR ''-'' then -1 else 1 :: int);
             r'' = (if r' \<noteq> [] \<and> (hd r' = CHR ''-'' \<or> hd r' = CHR ''+'') then tl r' else r');
             ds = takeWhile is_digit r''
         in if ds = [] then 0 else sg * int (digits_value ds))
      else 0)"

definition pow10 :: "int \<Rightarrow> real" where
  "pow10 e = (if 0 \<le> e then 10 ^ nat e else 1 / 10 ^ nat (- e))"

text \<open>The unsigned part of \<open>StrDecimalLiteral\<close>, longest prefix.\<close>

definition parse_unsigned :: "string \<Rightarrow> jsnum" where
  "parse_unsigned s =
     (if take 8 s = ''Infinity'' then PInf
      else
        let ip = takeWhile is_digit s;
            r1 = dropWhile is_digit s;
            dot = (r1 \<noteq> [] \<and> hd r1 = CHR ''.'');
            fp = (if dot then takeWhile is_digit (tl r1) else []);
            r2 = (if dot then dropWhile is_digit (tl r1) else r1)
        in if ip = [] \<and> fp = [] then NaN
           else Fin ((real (digits_value ip) + real (digits_value fp) / 10 ^ length fp)
                     * pow10 (exponent_part r2)))"

definition js_negate :: "jsnum \<Rightarrow> jsnum" where
  "js_negate x = (case x of Fin a \<Rightarrow> Fin (- a) | PInf \<Rightarrow> NInf | NInf \<Rightarrow> PInf | NaN \<Rightarrow> NaN)"

definition parse_float :: "string \<Rightarrow> jsnum" where
  "parse_float s =
     (let t = dropWhile is_js_space s in
      if t \<noteq> [] \<and> hd t = CHR ''-'' then js_negate (parse_unsigned (tl t))
      else if t \<noteq> [] \<and> hd t = CHR ''+'' then parse_unsigned (tl t)
      else parse_unsigned t)"

text \<open>\<open>booking.distance || '0'\<close>: undefined and the empty string are falsy.\<close>

definition distance_or_zero :: "string option \<Rightarrow> string" where
  "distance_or_zero d = (case d of None \<Rightarrow> ''0'' | Some s \<Rightarrow> if s = [] then ''0'' else s)"

definition fare :: "string option \<Rightarrow> jsnum" where
  "fare d = js_add (js_scale 0.5 (parse_float (distance_or_zero d))) (Fin 2)"

definition earnings :: "booking list \<Rightarrow> jsnum" where
  "earnings h = foldl (\<lambda>acc t. js_add acc (fare (distance t))) (Fin 0) h"

text \<open>The summary overlay's amount is a literal.\<close>

definition summary_amount :: real where
  "summary_amount = 8.50"

text \<open>Decimal rendering of a natural number, for the round trip.\<close>

definition digit_char :: "nat \<Rightarrow> char" where
  "digit_char d = ''0123456789'' ! d"

fun show_nat :: "nat \<Rightarrow> string" where
  "show_nat n = (if n < 10 then [digit_char n] else show_nat (n div 10) @ [digit_char (n mod 10)])"

declare show_nat.simps [simp del]

subsection \<open>Lemmas\<close>

lemma digit_char_facts [simp]:
  assumes "d < 10"
  shows "is_digit (digit_char d)" "digit_value (digit_char d) = d"
proof -
  have "d \<in> {0, 1, 2, 3, 4, 5, 6, 7, 8, 9}" using assms by auto
  then show "is_digit (digit_char d)" "digit_value (digit_char d) = d"
    by (auto simp: digit_char_def is_digit_def digit_value_def)
qed

lemma digits_value_Nil [simp]: "digits_value [] = 0"
  by (simp add: digits_value_def)

lemma digits_value_snoc [simp]: "digits_value (xs @ [c]) = 10 * digits_value xs + digit_value c"
  by (simp add: digits_value_def)

lemma show_nat_digits: "\<forall>c \<in> set (show_nat n). is_digit c"
  by (induction n rule: show_nat.induct) (subst show_nat.simps, simp)

lemma show_nat_nonempty [simp]: "show_nat n \<noteq> []"
  by (subst show_nat.simps) simp

lemma digits_value_show_nat [simp]: "digits_value (show_nat n) = n"
proof (induction n rule: show_nat.induct)
  case (1 n)
  show ?case
  proof (cases "n < 10")
    case True
    then show ?thesis by (subst show_nat.simps) (simp add: digits_value_def)
  next
    case False
    then show ?thesis using 1 by (subst show_nat.simps) simp
  qed
qed

lemma digit_not_sign:
  "is_digit c \<Longrightarrow> c \<noteq> CHR ''-'' \<and> c \<noteq> CHR ''+'' \<and> c \<noteq> CHR ''I'' \<and> \<not> is_js_space c"
  by (auto simp: is_digit_def is_js_space_def)

lemma all_digits_parse:
  assumes "s \<noteq> []" "\<forall>c \<in> set s. is_digit c"
  shows "parse_float s = Fin (real (digits_value s))"
proof -
  obtain c r where s: "s = c # r" using assms(1) by (cases s) auto
  have d: "is_digit c" using assms(2) s by simp
  have "take 8 s \<noteq> ''Infinity''" using digit_not_sign [OF d] s by auto
  moreover have "dropWhile is_js_space s = s" using digit_not_sign [OF d] s by simp
  moreover have "takeWhile is_digit s = s" "dropWhile is_digit s = []" using assms(2) by simp_all
  ultimately show ?thesis
    using digit_not_sign [OF d] s
    by (simp add: parse_float_def parse_unsigned_def exponent_part_def pow10_def)
qed

lemma js_add_NaN_right [simp]: "js_add x NaN = NaN"
  by (cases x) simp_all

lemma foldl_js_add_NaN: "foldl (\<lambda>acc t. js_add acc (g t)) NaN h = NaN"
  by (induction h) simp_all

lemma foldl_js_add_Fin:
  "(\<And>t. t \<in> set h \<Longrightarrow> g t = Fin (f t)) \<Longrightarrow>
   foldl (\<lambda>acc t. js_add acc (g t)) (Fin a) h = Fin (a + sum_list (map f h))"
  by (induction h arbitrary: a) (simp_all add: algebra_simps)

lemma foldl_js_add_poison:
  "t \<in> set h \<Longrightarrow> g t = NaN \<Longrightarrow> foldl (\<lambda>acc t. js_add acc (g t)) a h = NaN"
  by (induction h arbitrary: a) (auto simp: foldl_js_add_NaN)

lemma fare_show_nat: "fare (Some (show_nat n)) = Fin (real n / 2 + 2)"
  by (simp add: fare_def distance_or_zero_def all_digits_parse show_nat_digits)

lemmas parse_simps = parse_float_def parse_unsigned_def exponent_part_def pow10_def
  is_digit_def is_js_space_def digit_value_def digits_value_def distance_or_zero_def fare_def

lemma sum_list_lower:
  "(\<And>x. x \<in> set xs \<Longrightarrow> c \<le> f x) \<Longrightarrow> c * real (length xs) \<le> sum_list (map f xs)"
  by (induction xs) (auto simp: algebra_simps intro: add_mono)

text \<open>
  The fare of a distance written as a decimal natural number \<open>n\<close> is
  \<open>n * 0.5 + 2\<close>; a missing or empty distance counts as \<open>'0'\<close>, giving the base fare 2.
\<close>

theorem fare_linear:
  "fare (Some (show_nat n)) = Fin (real n * 0.5 + 2) \<and> fare None = Fin 2 \<and> fare (Some []) = Fin 2"
  using fare_show_nat [of n] by (simp add: parse_simps)

text \<open>
  When every trip of the history has a finite fare, the dashboard's earnings
  are the sum of those fares (the \<open>reduce\<close> starting from 0).
\<close>

theorem earnings_sum:
  "(\<forall>t \<in> set h. fare (distance t) = Fin (f t)) \<Longrightarrow> earnings h = Fin (sum_list (map f h))"
  unfolding earnings_def using foldl_js_add_Fin [of h "\<lambda>t. fare (distance t)" f 0] by simp

theorem earnings_sum_witness:
  "fare (distance scenario_b1) = Fin 4.5 \<and>
   earnings [scenario_b1] = Fin (sum_list (map (\<lambda>_. 4.5) [scenario_b1]))"
proof -
  have h: "\<forall>t \<in> set [scenario_b1]. fare (distance t) = Fin ((\<lambda>_. 4.5) t)"
    by (simp add: scenario_b1_def parse_simps)
  from earnings_sum [OF h] h show ?thesis by simp
qed

text \<open>
  C22. A single trip of the history whose distance \<open>parseFloat\<close> cannot read makes
  the whole total NaN: the dashboard shows \<open>$NaN\<close> whatever the other trips earned.
\<close>

theorem earnings_poisoned:
  "t \<in> set h \<Longrightarrow> parse_float (distance_or_zero (distance t)) = NaN \<Longrightarrow> earnings h = NaN"
proof -
  assume t: "t \<in> set h" and p: "parse_float (distance_or_zero (distance t)) = NaN"
  from p have "fare (distance t) = NaN" by (simp add: fare_def)
  with t show ?thesis unfolding earnings_def by (rule foldl_js_add_poison)
qed

theorem earnings_poisoned_witness:
  "scenario_b1\<lparr>distance := Some ''abc''\<rparr> \<in> set [scenario_b1, scenario_b1\<lparr>distance := Some ''abc''\<rparr>] \<and>
   parse_float (distance_or_zero (distance (scenario_b1\<lparr>distance := Some ''abc''\<rparr>))) = NaN \<and>
   earnings [scenario_b1, scenario_b1\<lparr>distance := Some ''abc''\<rparr>] = NaN"
proof -
  have m: "scenario_b1\<lparr>distance := Some ''abc''\<rparr> \<in> set [scenario_b1, scenario_b1\<lparr>distance := Some ''abc''\<rparr>]"
    by simp
  have p: "parse_float (distance_or_zero (distance (scenario_b1\<lparr>distance := Some ''abc''\<rparr>))) = NaN"
    by (simp add: parse_float_def parse_unsigned_def distance_or_zero_def is_digit_def is_js_space_def)
  from earnings_poisoned [OF m p] m p show ?thesis by blast
qed

text \<open>
  When every distance of the history is a decimal natural number, the
  earnings are finite and at least the base fare 2 per trip.
\<close>

theorem earnings_lower_bound:
  "(\<forall>t \<in> set h. \<exists>n. distance t = Some (show_nat n)) \<Longrightarrow>
     \<exists>e. earnings h = Fin e \<and> 2 * real (length h) \<le> e"
proof -
  assume a: "\<forall>t \<in> set h. \<exists>n. distance t = Some (show_nat n)"
  define f where "f (t::booking) = real (digits_value (the (distance t))) / 2 + 2" for t
  have fin: "fare (distance t) = Fin (f t)" if "t \<in> set h" for t
    using a that fare_show_nat by (force simp: f_def)
  have "earnings h = Fin (sum_list (map f h))"
    unfolding earnings_def using foldl_js_add_Fin [of h "\<lambda>t. fare (distance t)" f 0] fin by simp
  moreover have "2 * real (length h) \<le> sum_list (map f h)"
    by (rule sum_list_lower) (simp add: f_def)
  ultimately show ?thesis by blast
qed

end
