(* ===== verification/SearchOverlay.thy ===== *)
theory SearchOverlay
  imports Fare
begin

text \<open>
  The place search of the map picker (src/components/MapPicker.tsx, component
  \<open>SearchOverlay\<close>, lines 42-114). The effect on \<open>[query, language]\<close> clears the
  previous debounce timer; a trimmed query shorter than two characters empties the
  results, any other query shows the spinner and sets a 500 ms timer whose callback
  awaits \<open>apiService.searchLocation\<close>, then stores the results and hides the
  spinner. Awaited searches are queued with the query and language their closure
  captured and settle in any order (\<open>Search_done i\<close>). The recent searches are
  loaded once on mount from the storage service.
\<close>

record search_result =
  r_lat :: string
  r_lon :: string
  display_name :: string

record search_closure =
  sq_query :: string
  sq_lang :: string

record search_state =
  so_now :: ms
  query :: string
  so_lang :: string
  results :: "search_result list"
  recents :: "search_result list"
  is_searching :: bool
  so_timer :: "(ms \<times> search_closure) option"
  so_tasks :: "search_closure list"
  picked :: "search_result list"

datatype search_event =
  Type_query string | Set_language string | So_elapse ms
  | Search_done nat "search_result list" | Pick search_result

definition search_delay :: ms where
  "search_delay = 500"

text \<open>\<open>String.prototype.trim\<close>: white space removed at both ends.\<close>

definition js_trim :: "string \<Rightarrow> string" where
  "js_trim q = rev (dropWhile is_js_space (rev (dropWhile is_js_space q)))"

text \<open>One run of the effect, after React's cleanup cleared the previous timer.\<close>

definition search_effect :: "search_state \<Rightarrow> search_state" where
  "search_effect s =
     (let s0 = s\<lparr>so_timer := None\<rparr> in
      if length (js_trim (query s)) < 2 then s0\<lparr>results := []\<rparr>
      else s0\<lparr>is_searching := True,
               so_timer := Some (so_now s + search_delay, \<lparr>sq_query = query s, sq_lang = so_lang s\<rparr>)\<rparr>)"

text \<open>The input's \<open>onChange\<close>; the effect re-runs when the value changed.\<close>

definition type_query :: "string \<Rightarrow> search_state \<Rightarrow> search_state" where
  "type_query q s = (if q = query s then s else search_effect (s\<lparr>query := q\<rparr>))"

definition set_language :: "string \<Rightarrow> search_state \<Rightarrow> search_state" where
  "set_language l s = (if l = so_lang s then s else search_effect (s\<lparr>so_lang := l\<rparr>))"

text \<open>Time passes; a due timer runs its callback up to the \<open>await\<close>.\<close>

definition so_elapse :: "ms \<Rightarrow> search_state \<Rightarrow> search_state" where
  "so_elapse g s =
     (let t = so_now s + g in
      case so_timer s of
        Some (due, c) \<Rightarrow>
          if due \<le> t then s\<lparr>so_now := t, so_timer := None, so_tasks := so_tasks s @ [c]\<rparr>
          else s\<lparr>so_now := t\<rparr>
      | None \<Rightarrow> s\<lparr>so_now := t\<rparr>)"

text \<open>The callback after its \<open>await\<close>: \<open>setResults\<close>, \<open>setIsSearching(false)\<close>.\<close>

definition search_done :: "nat \<Rightarrow> search_result list \<Rightarrow> search_state \<Rightarrow> search_state" where
  "search_done i rs s =
     (if i < length (so_tasks s)
      then s\<lparr>results := rs, is_searching := False, so_tasks := remove_nth i (so_tasks s)\<rparr>
      else s)"

text \<open>\<open>handleSelect\<close>: the result goes to the picker's \<open>onSelect\<close>.\<close>

definition pick_result :: "search_result \<Rightarrow> search_state \<Rightarrow> search_state" where
  "pick_result r s = s\<lparr>picked := picked s @ [r]\<rparr>"

fun search_step :: "search_state \<Rightarrow> search_event \<Rightarrow> search_state" where
  "search_step s (Type_query q) = type_query q s"
| "search_step s (Set_language l) = set_language l s"
| "search_step s (So_elapse g) = so_elapse g s"
| "search_step s (Search_done i rs) = search_done i rs s"
| "search_step s (Pick r) = pick_result r s"

fun search_run :: "search_state \<Rightarrow> search_event list \<Rightarrow> search_state" where
  "search_run s [] = s"
| "search_run s (e # es) = search_run (search_step s e) es"

text \<open>
  What the overlay lists: the recent searches while the untrimmed query is shorter
  than two characters, then the results. A row shows the display name's text
  before the first comma and, below it, the rest.
\<close>

definition shown_items :: "search_state \<Rightarrow> search_result list" where
  "shown_items s =
     (if length (query s) < 2 \<and> recents s \<noteq> [] then recents s else []) @ results s"

definition main_name :: "string \<Rightarrow> string" where
  "main_name d = takeWhile (\<lambda>c. c \<noteq> CHR '','') d"

definition address_part :: "string \<Rightarrow> string" where
  "address_part d = js_trim (drop 1 (dropWhile (\<lambda>c. c \<noteq> CHR '','') d))"

text \<open>
  \<open>SearchResultItem\<close>: the history icon for a recent search, the place name and
  the rest of the address; a click hands the result to \<open>handleSelect\<close>.
\<close>

datatype row_icon = History_icon | Place_icon

definition result_row :: "bool \<Rightarrow> search_result \<Rightarrow> row_icon \<times> string \<times> string" where
  "result_row is_recent r =
     (if is_recent then History_icon else Place_icon, main_name (display_name r),
      address_part (display_name r))"

text \<open>The overlay: the spinner while searching, the recent rows, then the result rows.\<close>

definition overlay_rows :: "search_state \<Rightarrow> bool \<times> (row_icon \<times> string \<times> string) list" where
  "overlay_rows s =
     (is_searching s,
      (if length (query s) < 2 \<and> recents s \<noteq> [] then map (result_row True) (recents s) else []) @
      map (result_row False) (results s))"

text \<open>Mount: the recent searches are loaded, nothing else happens.\<close>

definition search_init :: "string \<Rightarrow> search_result list \<Rightarrow> search_state" where
  "search_init l rec =
     \<lparr>so_now = 0, query = [], so_lang = l, results = [], recents = rec, is_searching = False,
      so_timer = None, so_tasks = [], picked = []\<rparr>"

subsection \<open>Abstract specification of the debounce\<close>

text \<open>
  The promise of the debounced search, stated over the timeline of the query's
  changes (absolute times, the query after each change): a query is searched when it
  is at least two characters long after trimming and stayed unchanged for the whole
  delay \<open>d\<close>, that is, the next change came at least \<open>d\<close> later, or none came before
  \<open>now\<close>.
\<close>

fun debounced :: "ms \<Rightarrow> (ms \<times> string) list \<Rightarrow> ms \<Rightarrow> string list" where
  "debounced d [] now = []"
| "debounced d [(t, q)] now = (if 2 \<le> length (js_trim q) \<and> t + d \<le> now then [q] else [])"
| "debounced d ((t, q) # (t', q') # xs) now =
     (if 2 \<le> length (js_trim q) \<and> t + d \<le> t' then [q] else []) @ debounced d ((t', q') # xs) now"

text \<open>The same timeline as events of the overlay: wait until the change, then type.\<close>

fun typing :: "ms \<Rightarrow> (ms \<times> string) list \<Rightarrow> ms \<Rightarrow> search_event list" where
  "typing t [] now = [So_elapse (now - t)]"
| "typing t ((t', q) # xs) now = So_elapse (t' - t) # Type_query q # typing t' xs now"

text \<open>A timeline the input can produce: times in order, up to \<open>now\<close>, each entry a change.\<close>

fun timeline_ok :: "ms \<Rightarrow> string \<Rightarrow> (ms \<times> string) list \<Rightarrow> ms \<Rightarrow> bool" where
  "timeline_ok t q [] now = (t \<le> now)"
| "timeline_ok t q ((t', q') # xs) now = (t \<le> t' \<and> q' \<noteq> q \<and> timeline_ok t' q' xs now)"

text \<open>Every search scheduled or in flight is for a query of at least two characters.\<close>

definition long_query :: "search_closure \<Rightarrow> bool" where
  "long_query c \<longleftrightarrow> 2 \<le> length (js_trim (sq_query c))"

definition search_inv :: "search_state \<Rightarrow> bool" where
  "search_inv s \<longleftrightarrow> list_all long_query (so_tasks s) \<and> pred_option (long_query \<circ> snd) (so_timer s)"

text \<open>The timer the effect leaves for the current query at time \<open>t\<close>.\<close>

definition pending_for :: "search_state \<Rightarrow> ms \<Rightarrow> (ms \<times> search_closure) option" where
  "pending_for s t =
     (if 2 \<le> length (js_trim (query s)) then Some (t + search_delay, \<lparr>sq_query = query s, sq_lang = so_lang s\<rparr>)
      else None)"

subsection \<open>Lemmas\<close>

lemma search_effect_inv: "search_inv s \<Longrightarrow> search_inv (search_effect s)"
  by (simp add: search_inv_def search_effect_def long_query_def Let_def)

lemma search_step_inv:
  assumes "search_inv s" shows "search_inv (search_step s e)"
proof (cases e)
  case (Type_query q)
  then show ?thesis using assms search_effect_inv [of "s\<lparr>query := q\<rparr>"]
    by (simp add: type_query_def search_inv_def)
next
  case (Set_language l)
  then show ?thesis using assms search_effect_inv [of "s\<lparr>so_lang := l\<rparr>"]
    by (simp add: set_language_def search_inv_def)
next
  case (So_elapse g)
  then show ?thesis using assms
    by (auto simp: so_elapse_def search_inv_def Let_def split: option.splits)
next
  case (Search_done i rs)
  then show ?thesis using assms
    by (auto simp: search_done_def search_inv_def list_all_iff dest: set_remove_nth_subset [THEN subsetD])
next
  case (Pick r)
  then show ?thesis using assms by (simp add: pick_result_def search_inv_def)
qed

lemma search_run_inv: "search_inv s \<Longrightarrow> search_inv (search_run s es)"
  by (induction es arbitrary: s) (simp_all add: search_step_inv)

lemma search_init_inv: "search_inv (search_init l rec)"
  by (simp add: search_inv_def search_init_def)

lemma typing_change:
  assumes "t0 \<le> t'" "q' \<noteq> query s" "so_now s = t0" "so_timer s = pending_for s t0"
  defines "s' \<equiv> search_step (search_step s (So_elapse (t' - t0))) (Type_query q')"
  shows "so_now s' = t'" "query s' = q'" "so_lang s' = so_lang s" "so_timer s' = pending_for s' t'"
    "so_tasks s' = so_tasks s @
       (if 2 \<le> length (js_trim (query s)) \<and> t0 + search_delay \<le> t'
        then [\<lparr>sq_query = query s, sq_lang = so_lang s\<rparr>] else [])"
  using assms
  by (auto simp: so_elapse_def type_query_def search_effect_def pending_for_def Let_def)

lemma typing_refines:
  assumes "timeline_ok t0 (query s) xs now" "so_now s = t0" "so_timer s = pending_for s t0"
  shows "so_tasks (search_run s (typing t0 xs now)) =
           so_tasks s @ map (\<lambda>q. \<lparr>sq_query = q, sq_lang = so_lang s\<rparr>) (debounced search_delay ((t0, query s) # xs) now)"
  using assms
proof (induction xs arbitrary: s t0)
  case Nil
  then show ?case by (auto simp: so_elapse_def pending_for_def Let_def)
next
  case (Cons x xs)
  obtain t' q' where x: "x = (t', q')" by (cases x)
  let ?s' = "search_step (search_step s (So_elapse (t' - t0))) (Type_query q')"
  have ok: "t0 \<le> t'" "q' \<noteq> query s" "timeline_ok t' q' xs now" using Cons.prems(1) x by simp_all
  note st = typing_change [OF ok(1,2) Cons.prems(2,3)]
  have "so_tasks (search_run ?s' (typing t' xs now)) =
          so_tasks ?s' @ map (\<lambda>q. \<lparr>sq_query = q, sq_lang = so_lang ?s'\<rparr>) (debounced search_delay ((t', query ?s') # xs) now)"
    using ok(3) st by (intro Cons.IH) simp_all
  then show ?case using x st by simp
qed

text \<open>
  C23. The place search is never asked for a query shorter than two characters
  after trimming: along every run from mount, every search scheduled or in flight
  carries a long query.
\<close>

theorem search_only_long_queries:
  "list_all long_query (so_tasks (search_run (search_init l rec) es)) \<and>
   pred_option (long_query \<circ> snd) (so_timer (search_run (search_init l rec) es))"
  using search_run_inv [OF search_init_inv, of l rec es] by (simp add: search_inv_def)

text \<open>
  Typing a query that is shorter than two characters after trimming empties the
  results and cancels the pending search, but leaves the spinner as it was.
\<close>

theorem short_query_clears_results:
  "length (js_trim q) < 2 \<Longrightarrow> q \<noteq> query s \<Longrightarrow>
     results (search_step s (Type_query q)) = [] \<and> so_timer (search_step s (Type_query q)) = None \<and>
     is_searching (search_step s (Type_query q)) = is_searching s \<and>
     so_tasks (search_step s (Type_query q)) = so_tasks s"
  by (simp add: type_query_def search_effect_def)

text \<open>
  C25. Shortening the query below two characters while a search is scheduled
  leaves the spinner on for good: no timer and no search remain to clear it, and
  no amount of waiting does.
\<close>

theorem spinner_stuck:
  "is_searching (search_run (search_init ''en'' []) [Type_query ''ab'', So_elapse 100, Type_query ''a'']) \<and>
   so_timer (search_run (search_init ''en'' []) [Type_query ''ab'', So_elapse 100, Type_query ''a'']) = None \<and>
   so_tasks (search_run (search_init ''en'' []) [Type_query ''ab'', So_elapse 100, Type_query ''a'']) = [] \<and>
   (\<forall>g. is_searching (search_run (search_init ''en'' [])
      [Type_query ''ab'', So_elapse 100, Type_query ''a'', So_elapse g]))"
  by (simp add: search_init_def type_query_def search_effect_def so_elapse_def js_trim_def is_js_space_def
      search_delay_def)

text \<open>
  Searches settle in any order and the last to settle wins: a search for an
  older query that answers after the newer one replaces the newer results.
\<close>

theorem stale_search_results:
  "query (search_run (search_init ''en'' [])
     [Type_query ''ab'', So_elapse 500, Type_query ''abc'', So_elapse 500,
      Search_done 1 [\<lparr>r_lat = ''15.3'', r_lon = ''44.2'', display_name = ''abc street''\<rparr>],
      Search_done 0 [\<lparr>r_lat = ''15.4'', r_lon = ''44.1'', display_name = ''ab square''\<rparr>]]) = ''abc'' \<and>
   results (search_run (search_init ''en'' [])
     [Type_query ''ab'', So_elapse 500, Type_query ''abc'', So_elapse 500,
      Search_done 1 [\<lparr>r_lat = ''15.3'', r_lon = ''44.2'', display_name = ''abc street''\<rparr>],
      Search_done 0 [\<lparr>r_lat = ''15.4'', r_lon = ''44.1'', display_name = ''ab square''\<rparr>]]) =
     [\<lparr>r_lat = ''15.4'', r_lon = ''44.1'', display_name = ''ab square''\<rparr>]"
  by (simp add: search_init_def type_query_def search_effect_def so_elapse_def search_done_def js_trim_def
      is_js_space_def search_delay_def remove_nth_def)

text \<open>
  C24. Refinement of the debounce: typing along any timeline the input can produce
  from mount, the searches the overlay issues are exactly those of the abstract
  specification \<open>debounced\<close> with the 500 ms delay, in order.
\<close>

theorem search_debounce_refines:
  "timeline_ok 0 [] xs now \<Longrightarrow>
     map sq_query (so_tasks (search_run (search_init l rec) (typing 0 xs now))) =
       debounced search_delay ((0, []) # xs) now"
proof -
  assume ok: "timeline_ok 0 [] xs now"
  have p: "so_timer (search_init l rec) = pending_for (search_init l rec) 0"
    by (simp add: search_init_def pending_for_def js_trim_def)
  show ?thesis
    using typing_refines [of 0 "search_init l rec" xs now] ok p
    by (simp add: search_init_def comp_def)
qed

theorem search_debounce_refines_witness:
  "timeline_ok 0 [] [(0, ''s''), (100, ''sa''), (300, ''san''), (1000, ''sana'')] 2000 \<and>
   map sq_query (so_tasks (search_run (search_init ''en'' [])
     (typing 0 [(0, ''s''), (100, ''sa''), (300, ''san''), (1000, ''sana'')] 2000))) = [''san'', ''sana'']"
proof -
  have ok: "timeline_ok 0 [] [(0, ''s''), (100, ''sa''), (300, ''san''), (1000, ''sana'')] 2000" by simp
  have "debounced search_delay ((0, []) # [(0, ''s''), (100, ''sa''), (300, ''san''), (1000, ''sana'')]) 2000 =
      [''san'', ''sana'']"
    by (simp add: search_delay_def js_trim_def is_js_space_def)
  with search_debounce_refines [OF ok, of "''en''" "[]"] ok show ?thesis by simp
qed

text \<open>
  The list hides the recent searches by the untrimmed length of the query, while
  the effect searches by the trimmed length: a query of blanks and one letter
  shows neither the recent searches nor any result, and no spinner, whereas the
  letter alone still shows the recent searches.
\<close>

theorem padded_query_blank_list:
  "shown_items (search_run (search_init l (r # rs)) [Type_query ''  a'']) = [] \<and>
   \<not> is_searching (search_run (search_init l (r # rs)) [Type_query ''  a'']) \<and>
   shown_items (search_run (search_init l (r # rs)) [Type_query ''a'']) = r # rs"
  by (simp add: search_init_def type_query_def search_effect_def shown_items_def js_trim_def
      is_js_space_def)

text \<open>The overlay lists, row for row, the items \<open>shown_items\<close> names.\<close>

lemma overlay_rows_shown:
  "map (\<lambda>(_, n, a). (n, a)) (snd (overlay_rows s)) =
     map (\<lambda>r. (main_name (display_name r), address_part (display_name r))) (shown_items s)"
  by (simp add: overlay_rows_def shown_items_def result_row_def comp_def)

text \<open>
  A result row's name and address are JavaScript's expressions: the name is
  \<open>display_name.split(',')[0]\<close> and the address is
  \<open>nameParts.slice(1).join(',').trim()\<close>.
\<close>

theorem result_row_split_join:
  "main_name d = hd (js_split (CHR '','') d) \<and>
   address_part d = js_trim (js_join (CHR '','') (drop 1 (js_split (CHR '','') d)))"
proof (cases "dropWhile (\<lambda>x. x \<noteq> CHR '','') d")
  case Nil
  show ?thesis by (simp add: main_name_def address_part_def Nil js_split_no_sep [OF Nil])
next
  case (Cons y r)
  then show ?thesis by (simp add: main_name_def address_part_def js_split_sep [OF Cons])
qed

end
