(* ===== verification/LocationPicker.thy ===== *)
theory LocationPicker
  imports SearchOverlay
begin

text \<open>
  The location picking of MapPicker (src/components/MapPicker.tsx, lines 118-336):
  the mount effect \<open>initializeMap\<close> awaits a first geolocation fix (default
  centre on failure) and creates the map with its click handler; the
  user-location and red-pin effects follow \<open>userPhysicalLocation\<close> and
  \<open>selectedLocation\<close>; the reverse-geocode effect on \<open>[selectedLocation,
  language, displayAddress]\<close> debounces a lookup by 500 ms; the handlers select a
  search result (\<open>handleSelectFromSearch\<close>) or the device position
  (\<open>handleMyLocationClick\<close>), whose failure shows a message that a 5000 ms timer
  clears. State updates of one synchronous block are batched, then the effects
  whose dependencies changed run in declaration order; \<open>selectedLocation\<close> and
  \<open>userPhysicalLocation\<close> are fresh arrays on every set, so every set counts as a
  change. A search result's coordinates go through \<open>parseFloat\<close>, so the selected
  location is a pair of JavaScript numbers. The ghost-car effect is GhostDrivers.
\<close>

datatype geo_error = Permission_denied | Position_timeout | Position_unavailable

datatype geo_result = Geo_fix coord | Geo_fail geo_error

datatype geo_request = Initial_fix | Button_fix

datatype loc_message = Could_not_get_location | Location_permission_denied

type_synonym jscoord = "jsnum \<times> jsnum"

record rg_closure =
  rg_loc :: jscoord
  rg_lang :: string
  rg_display :: string

text \<open>
  A Leaflet error thrown out of a handler or an effect. React has no error
  boundary above MapPicker, so an error in the commit phase unmounts the tree:
  the state records the abrupt completion and no later event reaches a handler.
\<close>

datatype picker_error = Invalid_latlng jscoord

record picker =
  pk_now :: ms
  pk_lang :: string
  pk_map_ready :: bool
  selected :: "jscoord option"
  display_address :: string
  search_open :: bool
  user_loc :: "coord option"
  getting_location :: bool
  message :: "loc_message option"
  msg_timers :: "ms list"
  current_address :: "string option"
  fetching_address :: bool
  manually_updated :: bool
  rg_timer :: "(ms \<times> rg_closure) option"
  rg_tasks :: "rg_closure list"
  geo_tasks :: "geo_request list"
  user_marker :: "coord option"
  pin_marker :: "jscoord option"
  saved_searches :: "search_result list"
  chosen :: "jscoord list"
  pk_error :: "picker_error option"

datatype picker_event =
  Geo_done nat geo_result | Map_click real real | My_location_click
  | Open_search | Close_search | Search_select search_result
  | Pk_elapse ms | Rg_done nat "string option" | Set_pk_language string | Confirm_location

definition default_centre :: coord where
  "default_centre = (15.3694, 44.1910)"

definition rg_delay :: ms where
  "rg_delay = 500"

definition message_delay :: ms where
  "message_delay = 5000"

definition fin_coord :: "coord \<Rightarrow> jscoord" where
  "fin_coord c = (Fin (fst c), Fin (snd c))"

subsection \<open>Effects\<close>

text \<open>The blue dot: created or moved once the map exists.\<close>

definition user_marker_effect :: "picker \<Rightarrow> picker" where
  "user_marker_effect s =
     (if pk_map_ready s \<and> user_loc s \<noteq> None then s\<lparr>user_marker := user_loc s\<rparr> else s)"

text \<open>The red pin follows the selected location.\<close>

definition pin_effect :: "picker \<Rightarrow> picker" where
  "pin_effect s = (if \<not> pk_map_ready s then s else s\<lparr>pin_marker := selected s\<rparr>)"

text \<open>The reverse-geocode effect, after its cleanup cleared the previous timer.\<close>

definition rg_effect :: "picker \<Rightarrow> picker" where
  "rg_effect s =
     (let s0 = s\<lparr>rg_timer := None\<rparr> in
      case selected s of
        None \<Rightarrow> s0
      | Some l \<Rightarrow>
          s0\<lparr>fetching_address := True,
             rg_timer := Some (pk_now s + rg_delay,
               \<lparr>rg_loc = l, rg_lang = pk_lang s, rg_display = display_address s\<rparr>)\<rparr>)"

text \<open>
  The effects after a synchronous block, given the state before it and whether the
  block set \<open>userPhysicalLocation\<close> and \<open>selectedLocation\<close>.
\<close>

definition run_effects :: "picker \<Rightarrow> bool \<Rightarrow> bool \<Rightarrow> picker \<Rightarrow> picker" where
  "run_effects old user_set sel_set s =
     (let s1 = (if user_set then user_marker_effect s else s);
          s2 = (if sel_set then pin_effect s1 else s1)
      in if sel_set \<or> pk_lang s2 \<noteq> pk_lang old \<or> display_address s2 \<noteq> display_address old
         then rg_effect s2 else s2)"

subsection \<open>Handlers\<close>

text \<open>
  \<open>initializeMap\<close> after its \<open>await\<close>: the fix (or the default centre and an error
  message), \<open>setIsGettingLocation(false)\<close>, the selection, and the map with its
  click handler if none exists yet.
\<close>

definition initial_fix_done :: "geo_result \<Rightarrow> picker \<Rightarrow> picker" where
  "initial_fix_done r s =
     (let (centre, s1) = (case r of
                            Geo_fix c \<Rightarrow> (c, s\<lparr>user_loc := Some c\<rparr>)
                          | Geo_fail e \<Rightarrow> (default_centre, s\<lparr>message := Some Could_not_get_location\<rparr>));
          s2 = s1\<lparr>getting_location := False, selected := Some (fin_coord centre)\<rparr>;
          s3 = (if pk_map_ready s2 then s2 else s2\<lparr>pk_map_ready := True\<rparr>)
      in run_effects s (case r of Geo_fix _ \<Rightarrow> True | Geo_fail _ \<Rightarrow> False) True s3)"

text \<open>\<open>handleMyLocationClick\<close> after its \<open>await\<close>.\<close>

definition button_fix_done :: "geo_result \<Rightarrow> picker \<Rightarrow> picker" where
  "button_fix_done r s =
     (case r of
        Geo_fix c \<Rightarrow>
          run_effects s True True
            (s\<lparr>user_loc := Some c, selected := Some (fin_coord c), display_address := [],
               manually_updated := True, getting_location := False\<rparr>)
      | Geo_fail e \<Rightarrow>
          s\<lparr>message := Some (if e = Permission_denied then Location_permission_denied else Could_not_get_location),
            msg_timers := msg_timers s @ [pk_now s + message_delay],
            getting_location := False\<rparr>)"

definition geo_done :: "nat \<Rightarrow> geo_result \<Rightarrow> picker \<Rightarrow> picker" where
  "geo_done i r s =
     (if i < length (geo_tasks s) then
        let s1 = s\<lparr>geo_tasks := remove_nth i (geo_tasks s)\<rparr> in
        (case geo_tasks s ! i of
           Initial_fix \<Rightarrow> initial_fix_done r s1
         | Button_fix \<Rightarrow> button_fix_done r s1)
      else s)"

text \<open>The map's click handler.\<close>

definition map_click :: "real \<Rightarrow> real \<Rightarrow> picker \<Rightarrow> picker" where
  "map_click lat lng s =
     run_effects s False True
       (s\<lparr>selected := Some (Fin lat, Fin lng), display_address := [], manually_updated := True\<rparr>)"

text \<open>\<open>handleMyLocationClick\<close> up to its \<open>await\<close>.\<close>

definition my_location_click :: "picker \<Rightarrow> picker" where
  "my_location_click s =
     s\<lparr>getting_location := True, message := None, geo_tasks := geo_tasks s @ [Button_fix]\<rparr>"

text \<open>
  Leaflet's \<open>L.latLng\<close>, behind \<open>setView\<close>, \<open>setLatLng\<close> and \<open>L.marker\<close>,
  throws \<open>Invalid LatLng object\<close> when \<open>isNaN\<close> holds of either coordinate
  (an infinity passes).
\<close>

definition leaflet_latlng_ok :: "jscoord \<Rightarrow> bool" where
  "leaflet_latlng_ok c \<longleftrightarrow> fst c \<noteq> NaN \<and> snd c \<noteq> NaN"

text \<open>
  \<open>handleSelectFromSearch\<close>. Once the map exists, \<open>mapRef.current.setView\<close> throws
  on a NaN coordinate and the rest of the handler is skipped; React still applies
  the queued \<open>setSelectedLocation\<close>, and the pin effect's marker call throws
  again during the commit, which unmounts the tree. Before the map exists the
  handler runs to its end and the pin effect returns early.
\<close>

definition select_from_search :: "search_result \<Rightarrow> picker \<Rightarrow> picker" where
  "select_from_search r s =
     (let l = (parse_float (r_lat r), parse_float (r_lon r)) in
      if pk_map_ready s \<and> \<not> leaflet_latlng_ok l
      then s\<lparr>selected := Some l, pk_error := Some (Invalid_latlng l)\<rparr>
      else run_effects s False True
        (s\<lparr>selected := Some l, saved_searches := saved_searches s @ [r], search_open := False,
           display_address := main_name (display_name r), manually_updated := True\<rparr>))"

text \<open>Time passes: a due reverse-geocode timer starts its lookup; due message timers clear the message.\<close>

definition pk_elapse :: "ms \<Rightarrow> picker \<Rightarrow> picker" where
  "pk_elapse g s =
     (let t = pk_now s + g;
          s1 = (if list_ex (\<lambda>d. d \<le> t) (msg_timers s)
                then s\<lparr>message := None, msg_timers := filter (\<lambda>d. t < d) (msg_timers s)\<rparr> else s)
      in case rg_timer s1 of
           Some (due, c) \<Rightarrow>
             if due \<le> t then s1\<lparr>pk_now := t, rg_timer := None, rg_tasks := rg_tasks s1 @ [c]\<rparr>
             else s1\<lparr>pk_now := t\<rparr>
         | None \<Rightarrow> s1\<lparr>pk_now := t\<rparr>)"

text \<open>The reverse-geocode callback after its \<open>await\<close>.\<close>

definition rg_done :: "nat \<Rightarrow> string option \<Rightarrow> picker \<Rightarrow> picker" where
  "rg_done i addr s =
     (if i < length (rg_tasks s) then
        let c = rg_tasks s ! i;
            s1 = s\<lparr>rg_tasks := remove_nth i (rg_tasks s), current_address := addr\<rparr>;
            s2 = (if rg_display c = []
                  then s1\<lparr>display_address := (case addr of None \<Rightarrow> [] | Some a \<Rightarrow> main_name a)\<rparr>
                  else s1)
        in run_effects s False False (s2\<lparr>fetching_address := False\<rparr>)
      else s)"

definition set_pk_language :: "string \<Rightarrow> picker \<Rightarrow> picker" where
  "set_pk_language l s = run_effects s False False (s\<lparr>pk_lang := l\<rparr>)"

text \<open>The confirm button: \<open>selectedLocation && onSelect(selectedLocation)\<close>.\<close>

definition confirm_location :: "picker \<Rightarrow> picker" where
  "confirm_location s = (case selected s of None \<Rightarrow> s | Some l \<Rightarrow> s\<lparr>chosen := chosen s @ [l]\<rparr>)"

fun picker_step :: "picker \<Rightarrow> picker_event \<Rightarrow> picker" where
  "picker_step s (Geo_done i r) = geo_done i r s"
| "picker_step s (Map_click lat lng) = map_click lat lng s"
| "picker_step s My_location_click = my_location_click s"
| "picker_step s Open_search = s\<lparr>search_open := True\<rparr>"
| "picker_step s Close_search = s\<lparr>search_open := False\<rparr>"
| "picker_step s (Search_select r) = select_from_search r s"
| "picker_step s (Pk_elapse g) = pk_elapse g s"
| "picker_step s (Rg_done i a) = rg_done i a s"
| "picker_step s (Set_pk_language l) = set_pk_language l s"
| "picker_step s Confirm_location = confirm_location s"

text \<open>
  What the rendered picker offers: map clicks once the map exists, the
  my-location button while no fix is pending (\<open>disabled={isGettingLocation}\<close>),
  a search result while the overlay is open, confirm when a location is selected
  and no address is being fetched. The environment settles awaits and lets time pass.
  Once the tree has crashed (\<open>pk_error\<close>), no event reaches a handler.
\<close>

fun picker_enabled :: "picker \<Rightarrow> picker_event \<Rightarrow> bool" where
  "picker_enabled s (Map_click lat lng) = pk_map_ready s"
| "picker_enabled s My_location_click = (\<not> getting_location s)"
| "picker_enabled s (Search_select r) = search_open s"
| "picker_enabled s Confirm_location = (selected s \<noteq> None \<and> \<not> fetching_address s)"
| "picker_enabled s (Geo_done i r) = (i < length (geo_tasks s))"
| "picker_enabled s (Rg_done i a) = (i < length (rg_tasks s))"
| "picker_enabled s _ = True"

fun picker_run :: "picker \<Rightarrow> picker_event list \<Rightarrow> picker" where
  "picker_run s [] = s"
| "picker_run s (e # es) = (if pk_error s = None then picker_run (picker_step s e) es else s)"

fun picker_valid :: "picker \<Rightarrow> picker_event list \<Rightarrow> bool" where
  "picker_valid s [] = True"
| "picker_valid s (e # es) = (pk_error s = None \<and> picker_enabled s e \<and> picker_valid (picker_step s e) es)"

text \<open>Mount: \<open>initializeMap\<close> has set the spinner and awaits the first fix.\<close>

definition picker_init :: "string \<Rightarrow> picker" where
  "picker_init l =
     \<lparr>pk_now = 0, pk_lang = l, pk_map_ready = False, selected = None, display_address = [],
      search_open = False, user_loc = None, getting_location = True, message = None, msg_timers = [],
      current_address = None, fetching_address = False, manually_updated = False, rg_timer = None,
      rg_tasks = [], geo_tasks = [Initial_fix], user_marker = None, pin_marker = None,
      saved_searches = [], chosen = [], pk_error = None\<rparr>"

text \<open>\<open>areLocationsEqual\<close>: both present and within \<open>0.00001\<close> on each axis.\<close>

definition location_tolerance :: real where
  "location_tolerance = 0.00001"

fun js_close :: "real \<Rightarrow> jsnum \<Rightarrow> bool" where
  "js_close x (Fin y) = (\<bar>x - y\<bar> < location_tolerance)"
| "js_close x _ = False"

definition are_locations_equal :: "coord option \<Rightarrow> jscoord option \<Rightarrow> bool" where
  "are_locations_equal u l =
     (case (u, l) of
        (Some p, Some (a, b)) \<Rightarrow> js_close (fst p) a \<and> js_close (snd p) b
      | _ \<Rightarrow> False)"

definition is_my_location_active :: "picker \<Rightarrow> bool" where
  "is_my_location_active s = are_locations_equal (user_loc s) (selected s)"

text \<open>A reverse-geocode lookup is scheduled or in flight.\<close>

definition lookup_pending :: "picker \<Rightarrow> bool" where
  "lookup_pending s \<longleftrightarrow> rg_timer s \<noteq> None \<or> rg_tasks s \<noteq> []"

text \<open>Every address fetch in progress has a lookup scheduled or in flight.\<close>

definition picker_inv :: "picker \<Rightarrow> bool" where
  "picker_inv s \<longleftrightarrow>
     (fetching_address s \<longrightarrow> rg_timer s \<noteq> None \<or> rg_tasks s \<noteq> []) \<and>
     (selected s = None \<longrightarrow> \<not> fetching_address s \<and> rg_timer s = None)"

text \<open>The device position of the scenarios below.\<close>

definition home_fix :: coord where
  "home_fix = (15.36, 44.19)"

text \<open>A search result whose latitude \<open>parseFloat\<close> cannot read.\<close>

definition nan_search_result :: search_result where
  "nan_search_result = \<lparr>r_lat = ''unknown'', r_lon = ''44.2'', display_name = ''Old Sanaa''\<rparr>"

subsection \<open>Lemmas\<close>

lemma rg_effect_inv: "picker_inv s \<Longrightarrow> picker_inv (rg_effect s)"
  by (auto simp: picker_inv_def rg_effect_def Let_def split: option.split)

lemma marker_effects_inv:
  "picker_inv s \<Longrightarrow> picker_inv (user_marker_effect s)"
  "picker_inv s \<Longrightarrow> picker_inv (pin_effect s)"
  by (simp_all add: picker_inv_def user_marker_effect_def pin_effect_def)

lemma run_effects_inv: "picker_inv s \<Longrightarrow> picker_inv (run_effects old u b s)"
  by (simp add: run_effects_def Let_def rg_effect_inv marker_effects_inv)

text \<open>The effects keep the invariant of a state that has it, stated for rewriting.\<close>

lemma run_effects_inv':
  "(fetching_address t \<longrightarrow> rg_timer t \<noteq> None \<or> rg_tasks t \<noteq> []) \<Longrightarrow>
   (selected t = None \<longrightarrow> \<not> fetching_address t \<and> rg_timer t = None) \<Longrightarrow>
   picker_inv (run_effects old u b t)"
  by (rule run_effects_inv) (simp add: picker_inv_def)

lemma initial_fix_done_inv: "picker_inv s \<Longrightarrow> picker_inv (initial_fix_done r s)"
  unfolding initial_fix_done_def
  by (cases r) (simp_all add: picker_inv_def [of s] Let_def run_effects_inv')

lemma button_fix_done_inv:
  assumes "picker_inv s" shows "picker_inv (button_fix_done r s)"
proof (cases r)
  case (Geo_fix c)
  have "picker_inv (s\<lparr>user_loc := Some c, selected := Some (fin_coord c), display_address := [],
               manually_updated := True, getting_location := False\<rparr>)"
    using assms by (simp add: picker_inv_def)
  with Geo_fix show ?thesis by (simp add: button_fix_done_def run_effects_inv)
next
  case (Geo_fail e)
  with assms show ?thesis by (simp add: button_fix_done_def picker_inv_def)
qed

lemma geo_done_inv: "picker_inv s \<Longrightarrow> picker_inv (geo_done i r s)"
proof -
  assume inv: "picker_inv s"
  then have "picker_inv (s\<lparr>geo_tasks := remove_nth i (geo_tasks s)\<rparr>)" by (simp add: picker_inv_def)
  then show ?thesis using inv
    by (auto simp: geo_done_def Let_def initial_fix_done_inv button_fix_done_inv split: geo_request.split)
qed

lemma pk_elapse_inv: "picker_inv s \<Longrightarrow> picker_inv (pk_elapse g s)"
  by (auto simp: pk_elapse_def picker_inv_def Let_def split: option.split prod.split)

lemma rg_done_inv:
  assumes "picker_inv s" shows "picker_inv (rg_done i a s)"
proof -
  have "picker_inv (t\<lparr>fetching_address := False\<rparr>)"
    if "selected t = selected s" "rg_timer t = rg_timer s" for t
    using assms that by (simp add: picker_inv_def)
  then show ?thesis using assms by (simp add: rg_done_def Let_def run_effects_inv)
qed

lemma select_from_search_inv:
  assumes "picker_inv s" shows "picker_inv (select_from_search r s)"
proof -
  let ?l = "(parse_float (r_lat r), parse_float (r_lon r))"
  have "picker_inv (s\<lparr>selected := Some ?l, pk_error := Some (Invalid_latlng ?l)\<rparr>)"
    using assms by (simp add: picker_inv_def)
  moreover have "picker_inv (run_effects s False True
        (s\<lparr>selected := Some ?l, saved_searches := saved_searches s @ [r], search_open := False,
           display_address := main_name (display_name r), manually_updated := True\<rparr>))"
    using assms by (simp add: picker_inv_def [of s] run_effects_inv')
  ultimately show ?thesis by (simp add: select_from_search_def Let_def)
qed

lemma picker_step_inv:
  assumes "picker_inv s" shows "picker_inv (picker_step s e)"
proof (cases e)
  case (Geo_done i r)
  with assms show ?thesis by (simp add: geo_done_inv)
next
  case (Pk_elapse g)
  with assms show ?thesis by (simp add: pk_elapse_inv)
next
  case (Rg_done i a)
  with assms show ?thesis by (simp add: rg_done_inv)
next
  case (Map_click lat lng)
  with assms show ?thesis
    by (simp add: map_click_def picker_inv_def [of s] run_effects_inv')
next
  case (Search_select r)
  with assms show ?thesis by (simp add: select_from_search_inv)
next
  case (Set_pk_language l)
  with assms show ?thesis
    by (simp add: set_pk_language_def picker_inv_def [of s] run_effects_inv')
next
  case Confirm_location
  with assms show ?thesis
    by (auto simp: confirm_location_def picker_inv_def split: option.split)
next
  case My_location_click
  with assms show ?thesis by (simp add: my_location_click_def picker_inv_def)
next
  case Open_search
  with assms show ?thesis by (simp add: picker_inv_def)
next
  case Close_search
  with assms show ?thesis by (simp add: picker_inv_def)
qed

lemma picker_run_inv: "picker_inv s \<Longrightarrow> picker_inv (picker_run s es)"
  by (induction es arbitrary: s) (simp_all add: picker_step_inv)

lemma picker_init_inv: "picker_inv (picker_init l)"
  by (simp add: picker_inv_def picker_init_def)

lemma geo_done_single:
  "geo_tasks s = [q] \<Longrightarrow>
   geo_done 0 r s = (case q of Initial_fix \<Rightarrow> initial_fix_done r (s\<lparr>geo_tasks := []\<rparr>)
                             | Button_fix \<Rightarrow> button_fix_done r (s\<lparr>geo_tasks := []\<rparr>))"
  by (simp add: geo_done_def remove_nth_def Let_def)

text \<open>The equations that evaluate the picker on a concrete run.\<close>

lemmas picker_eval = picker_init_def geo_done_single initial_fix_done_def button_fix_done_def
  run_effects_def rg_effect_def user_marker_effect_def pin_effect_def my_location_click_def
  pk_elapse_def rg_done_def map_click_def select_from_search_def confirm_location_def
  rg_delay_def message_delay_def remove_nth_def main_name_def Let_def

lemma run_effects_keeps_selection [simp]:
  "selected (run_effects old u b s) = selected s" "chosen (run_effects old u b s) = chosen s"
  by (simp_all add: run_effects_def Let_def rg_effect_def user_marker_effect_def pin_effect_def
      split: option.split)

text \<open>
  C26. While the picker shows that it is fetching the address (and keeps the
  confirm button disabled), a reverse-geocode lookup is scheduled or in flight:
  along every run from mount the flag is backed by pending work.
\<close>

theorem fetching_has_pending_lookup:
  "fetching_address (picker_run (picker_init l) es) \<Longrightarrow> lookup_pending (picker_run (picker_init l) es)"
  using picker_run_inv [OF picker_init_inv, of l es] by (simp add: picker_inv_def lookup_pending_def)

theorem fetching_has_pending_lookup_witness:
  "fetching_address (picker_run (picker_init ''en'') [Geo_done 0 (Geo_fix home_fix)]) \<and>
   lookup_pending (picker_run (picker_init ''en'') [Geo_done 0 (Geo_fix home_fix)])"
proof -
  have f: "fetching_address (picker_run (picker_init ''en'') [Geo_done 0 (Geo_fix home_fix)])"
    by (simp add: picker_eval)
  from fetching_has_pending_lookup [OF f] f show ?thesis by blast
qed

text \<open>
  C27. The first address lookup for a newly selected point stores the address's
  first part as the display name; that change re-runs the lookup effect, so the
  same point is looked up a second time 500 ms later.
\<close>

theorem double_reverse_geocode:
  "rg_tasks (picker_run (picker_init ''en'') [Geo_done 0 (Geo_fix home_fix), Pk_elapse 500]) =
     [\<lparr>rg_loc = fin_coord home_fix, rg_lang = ''en'', rg_display = []\<rparr>] \<and>
   rg_tasks (picker_run (picker_init ''en'') [Geo_done 0 (Geo_fix home_fix), Pk_elapse 500,
       Rg_done 0 (Some ''Tahrir Street, Sanaa''), Pk_elapse 500]) =
     [\<lparr>rg_loc = fin_coord home_fix, rg_lang = ''en'', rg_display = ''Tahrir Street''\<rparr>]"
  by (simp add: picker_eval)

text \<open>
  The timer that clears a failure message is never cancelled: a second failure
  shown 4000 ms after the first is cleared by the first failure's timer 1000 ms
  later, not 5000 ms after it appeared.
\<close>

theorem stale_message_timer:
  "message (picker_run (picker_init ''en'') [Geo_done 0 (Geo_fix home_fix), My_location_click,
      Geo_done 0 (Geo_fail Position_timeout), Pk_elapse 4000, My_location_click,
      Geo_done 0 (Geo_fail Permission_denied)]) = Some Location_permission_denied \<and>
   message (picker_run (picker_init ''en'') [Geo_done 0 (Geo_fix home_fix), My_location_click,
      Geo_done 0 (Geo_fail Position_timeout), Pk_elapse 4000, My_location_click,
      Geo_done 0 (Geo_fail Permission_denied), Pk_elapse 1000]) = None"
  by (simp add: picker_eval)

text \<open>
  C28. When the first fix fails, the picker falls back to the default centre and
  shows the failure message, but starts no timer for it: the message stays however
  long the driver waits, against the spec's transient advisory.
\<close>

theorem initial_failure_message_persists:
  "selected (picker_run (picker_init ''en'') [Geo_done 0 (Geo_fail Position_timeout)]) =
     Some (fin_coord default_centre) \<and>
   (\<forall>g. message (picker_run (picker_init ''en'') [Geo_done 0 (Geo_fail Position_timeout), Pk_elapse g]) =
     Some Could_not_get_location)"
  by (simp add: picker_eval)

text \<open>
  C29. A search result whose latitude \<open>parseFloat\<close> cannot read is selected as
  \<open>[NaN, lon]\<close>. While the map does not exist yet (the first fix is still pending,
  as while the browser's permission prompt is open) the handler runs to its end,
  and once the address lookup settles the confirm button hands \<open>[NaN, lon]\<close> to
  \<open>onSelect\<close>. Once the map exists, the same selection makes Leaflet throw and the
  picker's tree is unmounted: nothing is confirmed and no later event is handled.
  The spec says no error of the subsystem is fatal.
\<close>

theorem nan_location_confirmed:
  "picker_valid (picker_init ''en'')
     [Open_search, Search_select nan_search_result, Pk_elapse 500, Rg_done 0 None, Confirm_location] \<and>
   chosen (picker_run (picker_init ''en'')
     [Open_search, Search_select nan_search_result, Pk_elapse 500, Rg_done 0 None, Confirm_location]) =
     [(NaN, Fin 44.2)] \<and>
   pk_error (picker_run (picker_init ''en'')
     [Geo_done 0 (Geo_fix home_fix), Open_search, Search_select nan_search_result]) =
     Some (Invalid_latlng (NaN, Fin 44.2)) \<and>
   chosen (picker_run (picker_init ''en'')
     [Geo_done 0 (Geo_fix home_fix), Open_search, Search_select nan_search_result, Pk_elapse 500,
      Rg_done 0 None, Confirm_location]) = []"
  by (simp add: picker_eval nan_search_result_def leaflet_latlng_ok_def parse_simps)

text \<open>
  A successful my-location fix selects the device position: the my-location
  button shows as active, the name shown is cleared and an address lookup starts.
\<close>

theorem my_location_selects:
  "i < length (geo_tasks s) \<Longrightarrow> geo_tasks s ! i = Button_fix \<Longrightarrow>
     is_my_location_active (geo_done i (Geo_fix c) s) \<and> display_address (geo_done i (Geo_fix c) s) = [] \<and>
     manually_updated (geo_done i (Geo_fix c) s) \<and> fetching_address (geo_done i (Geo_fix c) s)"
  by (simp add: geo_done_def button_fix_done_def run_effects_def rg_effect_def user_marker_effect_def
      pin_effect_def is_my_location_active_def are_locations_equal_def fin_coord_def location_tolerance_def
      Let_def)

end
