(* ===== verification/RequestCard.thy ===== *)
theory RequestCard
  imports Fare
begin

text \<open>
  The address lines of a request card (src/components/RequestCard.tsx, lines
  27-103). The effect waits \<open>index * 300\<close> ms, so that the cards of the list do not
  query the geocoder at once, then runs \<open>fetchAddresses\<close>: it shows the loading
  state, reverse-geocodes the pickup and, after that, the drop, one \<open>await\<close> each,
  showing each address as soon as it is known; an address is the first two
  comma-separated parts of the geocoder's answer, or \<open>Lat: <latitude>\<close> when the
  answer is empty, or \<open>notSpecified\<close> when the booking has no such point. A
  rejected lookup lands in the \<open>catch\<close>, which shows the error text on both lines;
  the \<open>finally\<close> ends the loading state. The texts are kept symbolic
  (\<open>addr_line\<close>): localisation and \<open>toFixed(3)\<close> are not modelled.

  The effect depends on \<open>[booking.pickup, booking.drop, language, t, index]\<close>. A
  render that changes one of them (\<open>Rc_rerun\<close>) runs the cleanup, which clears the
  stagger timer, and schedules a new one with the new closure; a
  \<open>fetchAddresses\<close> already running is not cancelled. Every fetch started so far is
  kept in \<open>rc_fetches\<close>, in start order, with the booking of its closure and the
  \<open>await\<close> it is suspended at; \<open>Lookup_done k r\<close> settles the pending lookup of the
  \<open>k\<close>-th fetch. While \<open>isLoadingAddresses\<close> holds, the card shows placeholders.
\<close>

datatype addr_line = Address string | Lat_fallback real | Not_specified | Fetch_error

datatype lookup = Answer "string option" | Rejected

text \<open>Where a run of \<open>fetchAddresses\<close> is suspended, with the local \<open>pAddress\<close> it carries.\<close>

datatype fetch_phase = Await_pickup | Await_drop addr_line | Finished

record card =
  rc_now :: ms
  rc_timer :: "(ms \<times> booking) option"
  rc_fetches :: "(booking \<times> fetch_phase) list"
  pickup_address :: "addr_line option"
  drop_address :: "addr_line option"
  loading :: bool

datatype card_event = Rc_elapse ms | Lookup_done nat lookup | Rc_rerun booking nat

definition stagger_delay :: "nat \<Rightarrow> ms" where
  "stagger_delay index = index * 300"

text \<open>\<open>fetched?.split(',').slice(0, 2).join(',')\<close>.\<close>

definition first_two_parts :: "string \<Rightarrow> string" where
  "first_two_parts a =
     (let p1 = takeWhile (\<lambda>c. c \<noteq> CHR '','') a;
          rest = dropWhile (\<lambda>c. c \<noteq> CHR '','') a
      in if rest = [] then p1 else p1 @ CHR '','' # takeWhile (\<lambda>c. c \<noteq> CHR '','') (tl rest))"

text \<open>\<open>fetched?.split(',').slice(0, 2).join(',') || `Lat: ${point[0].toFixed(3)}`\<close>.\<close>

definition address_line :: "coord \<Rightarrow> string option \<Rightarrow> addr_line" where
  "address_line p a =
     (case a of
        Some x \<Rightarrow> if first_two_parts x = [] then Lat_fallback (fst p) else Address (first_two_parts x)
      | None \<Rightarrow> Lat_fallback (fst p))"

text \<open>
  The \<open>k\<close>-th run of \<open>fetchAddresses\<close> from its start, or from a settled lookup, to
  its next \<open>await\<close> or its end.
\<close>

definition set_phase :: "nat \<Rightarrow> fetch_phase \<Rightarrow> card \<Rightarrow> card" where
  "set_phase k ph s = s\<lparr>rc_fetches := (rc_fetches s)[k := (fst (rc_fetches s ! k), ph)]\<rparr>"

definition after_drop :: "nat \<Rightarrow> addr_line \<Rightarrow> card \<Rightarrow> card" where
  "after_drop k d s = set_phase k Finished (s\<lparr>drop_address := Some d, loading := False\<rparr>)"

definition to_drop :: "nat \<Rightarrow> booking \<Rightarrow> addr_line \<Rightarrow> card \<Rightarrow> card" where
  "to_drop k b p s =
     (let s1 = s\<lparr>pickup_address := Some p\<rparr> in
      case drop_loc b of
        Some _ \<Rightarrow> set_phase k (Await_drop p) s1
      | None \<Rightarrow> after_drop k Not_specified s1)"

definition start_fetch :: "booking \<Rightarrow> card \<Rightarrow> card" where
  "start_fetch b s =
     (let k = length (rc_fetches s);
          s1 = s\<lparr>loading := True, rc_fetches := rc_fetches s @ [(b, Await_pickup)]\<rparr> in
      case pickup b of
        Some _ \<Rightarrow> s1
      | None \<Rightarrow> to_drop k b Not_specified s1)"

text \<open>The \<open>catch\<close> and \<open>finally\<close> of a rejected lookup.\<close>

definition fetch_failed :: "nat \<Rightarrow> card \<Rightarrow> card" where
  "fetch_failed k s =
     set_phase k Finished
       (s\<lparr>pickup_address := Some Fetch_error, drop_address := Some Fetch_error, loading := False\<rparr>)"

definition lookup_done :: "nat \<Rightarrow> lookup \<Rightarrow> card \<Rightarrow> card" where
  "lookup_done k r s =
     (if k < length (rc_fetches s) then
        (let (b, ph) = rc_fetches s ! k in
         case (ph, r) of
           (Await_pickup, Answer a) \<Rightarrow> to_drop k b (address_line (the (pickup b)) a) s
         | (Await_drop p, Answer a) \<Rightarrow> after_drop k (address_line (the (drop_loc b)) a) s
         | (Await_pickup, Rejected) \<Rightarrow> fetch_failed k s
         | (Await_drop p, Rejected) \<Rightarrow> fetch_failed k s
         | (Finished, _) \<Rightarrow> s)
      else s)"

text \<open>Time passes; the stagger timer starts a fetch with its closure's booking when due.\<close>

definition rc_elapse :: "ms \<Rightarrow> card \<Rightarrow> card" where
  "rc_elapse g s =
     (let t = rc_now s + g in
      case rc_timer s of
        Some (due, b) \<Rightarrow>
          if due \<le> t then start_fetch b (s\<lparr>rc_now := t, rc_timer := None\<rparr>) else s\<lparr>rc_now := t\<rparr>
      | None \<Rightarrow> s\<lparr>rc_now := t\<rparr>)"

text \<open>
  A render with changed dependencies: \<open>clearTimeout(timer)\<close> in the cleanup, then a
  new \<open>setTimeout\<close> over the new booking and index. Fetches in flight go on.
\<close>

definition rc_rerun :: "booking \<Rightarrow> nat \<Rightarrow> card \<Rightarrow> card" where
  "rc_rerun b index s = s\<lparr>rc_timer := Some (rc_now s + stagger_delay index, b)\<rparr>"

fun card_step :: "card \<Rightarrow> card_event \<Rightarrow> card" where
  "card_step s (Rc_elapse g) = rc_elapse g s"
| "card_step s (Lookup_done k r) = lookup_done k r s"
| "card_step s (Rc_rerun b index) = rc_rerun b index s"

fun card_run :: "card \<Rightarrow> card_event list \<Rightarrow> card" where
  "card_run s [] = s"
| "card_run s (e # es) = card_run (card_step s e) es"

text \<open>Mount of the \<open>index\<close>-th card: \<open>isLoadingAddresses\<close> starts true, the timer is set.\<close>

definition card_init :: "booking \<Rightarrow> nat \<Rightarrow> card" where
  "card_init b index =
     \<lparr>rc_now = 0, rc_timer = Some (stagger_delay index, b), rc_fetches = [],
      pickup_address = None, drop_address = None, loading = True\<rparr>"

text \<open>
  The two address lines: placeholders (\<open>None\<close>) while loading, otherwise the
  addresses (\<open>null\<close> until set).
\<close>

definition card_lines :: "card \<Rightarrow> (addr_line option \<times> addr_line option) option" where
  "card_lines s = (if loading s then None else Some (pickup_address s, drop_address s))"

text \<open>
  The card's header: the service, \<open>{booking.distance} km \<bullet> {booking.duration}
  minutes\<close>, and the price \<open>((parseFloat(booking.distance || '0') * 0.5) + 2)\<close>.
\<close>

definition card_header :: "booking \<Rightarrow> string \<times> string option \<times> string option \<times> jsnum" where
  "card_header b = (service b, distance b, duration b, fare (distance b))"

text \<open>When the card's next fetch is due.\<close>

definition card_due :: "card \<Rightarrow> ms option" where
  "card_due s = map_option fst (rc_timer s)"

text \<open>Every fetch has ended.\<close>

definition fetches_done :: "card \<Rightarrow> bool" where
  "fetches_done s \<longleftrightarrow> list_all (\<lambda>f. snd f = Finished) (rc_fetches s)"

subsection \<open>Lemmas\<close>

lemma set_phase_frame [simp]:
  "length (rc_fetches (set_phase k ph s)) = length (rc_fetches s)"
  "loading (set_phase k ph s) = loading s"
  "pickup_address (set_phase k ph s) = pickup_address s"
  "drop_address (set_phase k ph s) = drop_address s"
  "rc_timer (set_phase k ph s) = rc_timer s"
  by (simp_all add: set_phase_def)

lemma set_phase_nth:
  "k < length (rc_fetches s) \<Longrightarrow> rc_fetches (set_phase k ph s) ! k = (fst (rc_fetches s ! k), ph)"
  by (simp add: set_phase_def)

lemma start_fetch_due:
  "rc_timer s = Some (due, b) \<Longrightarrow> due \<le> rc_now s + g \<Longrightarrow>
   rc_elapse g s = start_fetch b (s\<lparr>rc_now := rc_now s + g, rc_timer := None\<rparr>)"
  by (simp add: rc_elapse_def)

lemma card_init_due [simp]:
  "rc_timer (card_init b i) = Some (stagger_delay i, b)" "rc_now (card_init b i) = 0"
  "card_due (card_init b i) = Some (stagger_delay i)"
  by (simp_all add: card_init_def card_due_def)

lemmas card_defs = lookup_done_def start_fetch_def to_drop_def after_drop_def fetch_failed_def
  set_phase_def Let_def

text \<open>A fresh fetch ends after two settled lookups, whatever they answer.\<close>

lemma fetch_finishes:
  assumes "rc_fetches s = []"
  shows "rc_fetches (lookup_done 0 r2 (lookup_done 0 r1 (start_fetch b s))) = [(b, Finished)] \<and>
    \<not> loading (lookup_done 0 r2 (lookup_done 0 r1 (start_fetch b s))) \<and>
    pickup_address (lookup_done 0 r2 (lookup_done 0 r1 (start_fetch b s))) \<noteq> None \<and>
    drop_address (lookup_done 0 r2 (lookup_done 0 r1 (start_fetch b s))) \<noteq> None"
  using assms
  by (cases r1; cases r2) (simp_all add: card_defs split: option.split)

text \<open>
  C32. Termination of \<open>fetchAddresses\<close>: once the card's stagger delay has passed,
  at most two settled lookups, whatever they answer, end the fetch; the card
  leaves its loading state and shows both address lines.
\<close>

theorem card_fetch_terminates:
  "stagger_delay i \<le> g \<Longrightarrow>
     fetches_done (card_run (card_init b i) [Rc_elapse g, Lookup_done 0 r1, Lookup_done 0 r2]) \<and>
     card_lines (card_run (card_init b i) [Rc_elapse g, Lookup_done 0 r1, Lookup_done 0 r2]) =
       Some (pickup_address (card_run (card_init b i) [Rc_elapse g, Lookup_done 0 r1, Lookup_done 0 r2]),
             drop_address (card_run (card_init b i) [Rc_elapse g, Lookup_done 0 r1, Lookup_done 0 r2])) \<and>
     pickup_address (card_run (card_init b i) [Rc_elapse g, Lookup_done 0 r1, Lookup_done 0 r2]) \<noteq> None \<and>
     drop_address (card_run (card_init b i) [Rc_elapse g, Lookup_done 0 r1, Lookup_done 0 r2]) \<noteq> None"
proof -
  assume g: "stagger_delay i \<le> g"
  have "rc_fetches (card_init b i\<lparr>rc_now := g, rc_timer := None\<rparr>) = []" by (simp add: card_init_def)
  from fetch_finishes [OF this, of r2 r1 b] g show ?thesis
    by (simp add: start_fetch_due fetches_done_def card_lines_def)
qed

theorem card_fetch_terminates_witness:
  "stagger_delay 2 \<le> 600 \<and>
   fetches_done (card_run (card_init scenario_b1 2) [Rc_elapse 600,
     Lookup_done 0 (Answer (Some ''Tahrir, Sanaa, Yemen'')), Lookup_done 0 Rejected])"
proof -
  have a: "stagger_delay 2 \<le> 600" by (simp add: stagger_delay_def)
  from card_fetch_terminates [OF a, of scenario_b1 "Answer (Some ''Tahrir, Sanaa, Yemen'')" Rejected] a
  show ?thesis by blast
qed

text \<open>
  C33. A rejected drop lookup replaces the pickup address already on the card by
  the error text: the \<open>catch\<close> sets both lines, against the spec's rule that a
  failed lookup keeps the previous label.
\<close>

theorem drop_failure_erases_pickup:
  "pickup_address (card_run (card_init scenario_b1 0)
     [Rc_elapse 0, Lookup_done 0 (Answer (Some ''Tahrir Street, Old City, Sanaa''))]) =
     Some (Address ''Tahrir Street, Old City'') \<and>
   pickup_address (card_run (card_init scenario_b1 0)
     [Rc_elapse 0, Lookup_done 0 (Answer (Some ''Tahrir Street, Old City, Sanaa'')), Lookup_done 0 Rejected]) =
     Some Fetch_error"
  by (simp add: card_init_def rc_elapse_def stagger_delay_def card_defs
      address_line_def first_two_parts_def scenario_b1_def)

text \<open>No lookup starts before the card's stagger delay.\<close>

theorem no_lookup_before_stagger:
  "g < stagger_delay i \<Longrightarrow> rc_fetches (card_run (card_init b i) [Rc_elapse g]) = []"
  by (simp add: rc_elapse_def card_init_def)

text \<open>
  C34. A fetch is not cancelled when the effect re-runs: after a re-render that
  changes the card's dependencies (a new language, a redelivered booking), the
  superseded fetch's late answers replace the current fetch's addresses, and the
  card shows them as final.
\<close>

theorem superseded_fetch_overwrites:
  "card_lines (card_run (card_init scenario_b1 0)
     [Rc_elapse 0, Rc_rerun scenario_b1 0, Rc_elapse 0,
      Lookup_done 1 (Answer (Some ''Shari Tahrir, Al Qadima, Sanaa'')),
      Lookup_done 1 (Answer (Some ''Bab al-Yaman, Old City, Sanaa'')),
      Lookup_done 0 (Answer (Some ''Tahrir Street, Old City, Sanaa'')),
      Lookup_done 0 (Answer (Some ''Yemen Gate, Old City, Sanaa''))]) =
   Some (Some (Address ''Tahrir Street, Old City''), Some (Address ''Yemen Gate, Old City''))"
  by (simp add: card_init_def rc_elapse_def rc_rerun_def stagger_delay_def card_defs card_lines_def
      address_line_def first_two_parts_def scenario_b1_def)

text \<open>
  The card's address shortcut is JavaScript's expression: for every answer
  \<open>a\<close> of the geocoder, \<open>first_two_parts a\<close> is \<open>a.split(',').slice(0, 2).join(',')\<close>.
\<close>

theorem first_two_parts_split_slice_join:
  "first_two_parts a = js_join (CHR '','') (take 2 (js_split (CHR '','') a))"
proof (cases "dropWhile (\<lambda>x. x \<noteq> CHR '','') a")
  case Nil
  show ?thesis by (simp add: first_two_parts_def Nil js_split_no_sep [OF Nil])
next
  case (Cons y r)
  have r: "js_split (CHR '','') r = takeWhile (\<lambda>x. x \<noteq> CHR '','') r # drop 1 (js_split (CHR '','') r)"
    by (rule js_split_first)
  show ?thesis
    by (subst js_split_sep [OF Cons], subst r) (simp add: first_two_parts_def Cons)
qed

end
