(* ===== verification/Dashboard.thy ===== *)
theory Dashboard
  imports TripLifecycle Fare RequestCard
begin

text \<open>
  The driver dashboard of DriverApp (src/components/DriverApp.tsx): the component
  \<open>DriverDashboard\<close> (lines 94-216) with its tab state, its map, the map's
  driver marker and the grey filter of the offline map; the panel it renders
  below the map; the history row \<open>TripHistoryItem\<close> (lines 74-92); and DriverApp's
  render (lines 300-323), which mounts the dashboard while there is no active
  trip and \<open>ActiveTripView\<close> otherwise, with \<open>handleToggleOnline\<close> (lines 259-265).

  The two effects of the dashboard are written as functions of the props they
  read: the map effect (deps \<open>[driverPosition]\<close>) creates the map once, centred on
  the driver or on the default centre; the marker effect (deps \<open>[driverPosition,
  driverIcon, isOnline]\<close>) creates or moves the marker, pans the view to the driver
  and sets the filter. \<open>driverIcon\<close> is memoised with no dependencies, so it never
  changes. \<open>driverPosition\<close> is a fresh array \<open>[lat, lng]\<close> on every set, so every
  location-feed message with a truthy latitude counts as a change.

  \<open>driver_ui\<close> composes the app of TripLifecycle with the dashboard: every app
  event is handled by \<open>app_handle\<close>, then the rendered tree is reconciled. A
  dashboard that unmounts is dropped with its map, which no cleanup removes
  (\<open>detached_maps\<close> counts those maps); a dashboard that mounts starts on the
  requests tab with a new map. The background service's \<open>goOnline\<close> and
  \<open>goOffline\<close> are outside src/: the calls are recorded, and their effect on
  \<open>isOnline\<close> comes back through the location feed.
\<close>

datatype tab = Requests_tab | Earnings_tab

record dashboard =
  active_tab :: tab
  dash_map :: "coord option"
  dash_marker :: "coord option"
  map_grayscale :: "bool option"

text \<open>\<open>driverPosition || [15.3694, 44.1910]\<close>: the dashboard's default centre.\<close>

definition dashboard_centre :: coord where
  "dashboard_centre = (15.3694, 44.1910)"

subsection \<open>The dashboard's effects\<close>

text \<open>
  \<open>if (mapContainerRef.current && !mapRef.current)\<close>: the map is created once,
  with the view at the driver, or at the default centre when there is no position
  yet. The container \<open>div\<close> is always rendered, so its ref is set when effects run.
\<close>

definition map_effect :: "coord option \<Rightarrow> dashboard \<Rightarrow> dashboard" where
  "map_effect pos d =
     (if dash_map d = None
      then d\<lparr>dash_map := Some (case pos of Some p \<Rightarrow> p | None \<Rightarrow> dashboard_centre)\<rparr>
      else d)"

text \<open>
  The marker effect: nothing without a map; with a position, the marker is
  created or moved there and the view pans to it; the filter is grey while
  offline.
\<close>

definition marker_effect :: "coord option \<Rightarrow> bool \<Rightarrow> dashboard \<Rightarrow> dashboard" where
  "marker_effect pos online d =
     (case dash_map d of
        None \<Rightarrow> d
      | Some _ \<Rightarrow>
          (let d1 = (case pos of
                       None \<Rightarrow> d
                     | Some p \<Rightarrow> d\<lparr>dash_marker := Some p, dash_map := Some p\<rparr>)
           in d1\<lparr>map_grayscale := Some (\<not> online)\<rparr>))"

text \<open>Mount: \<open>activeTab\<close> starts at \<open>'requests'\<close>, the refs are empty, both effects run.\<close>

definition dash_mount :: "coord option \<Rightarrow> bool \<Rightarrow> dashboard" where
  "dash_mount pos online =
     marker_effect pos online
       (map_effect pos \<lparr>active_tab = Requests_tab, dash_map = None, dash_marker = None,
                        map_grayscale = None\<rparr>)"

text \<open>
  A re-render with new props: the effects whose dependencies changed run, in
  declaration order.
\<close>

definition dash_update :: "bool \<Rightarrow> bool \<Rightarrow> coord option \<Rightarrow> bool \<Rightarrow> dashboard \<Rightarrow> dashboard" where
  "dash_update pos_changed online_changed pos online d =
     (let d1 = (if pos_changed then map_effect pos d else d)
      in if pos_changed \<or> online_changed then marker_effect pos online d1 else d1)"

text \<open>The tab buttons: \<open>setActiveTab('requests')\<close>, \<open>setActiveTab('earnings')\<close>.\<close>

definition set_active_tab :: "tab \<Rightarrow> dashboard \<Rightarrow> dashboard" where
  "set_active_tab t d = d\<lparr>active_tab := t\<rparr>"

subsection \<open>What the dashboard renders\<close>

text \<open>
  The panel under the map: the offline notice; or, on the requests tab, one
  \<open>RequestCard\<close> per pending request with its position as \<open>index\<close> (the stagger of
  its address lookup), or the searching indicator when there is none; or, on the
  earnings tab, the number of trips, the total revenue and the five most recent
  trips (\<open>tripHistory.slice(0, 5)\<close>).
\<close>

datatype panel =
    Offline_panel
  | Request_cards "(booking \<times> nat) list"
  | Searching_indicator
  | Earnings_panel nat jsnum "booking list"

definition dashboard_panel :: "bool \<Rightarrow> tab \<Rightarrow> booking list \<Rightarrow> booking list \<Rightarrow> panel" where
  "dashboard_panel online t pending history =
     (if \<not> online then Offline_panel
      else case t of
        Requests_tab \<Rightarrow>
          if pending \<noteq> [] then Request_cards (zip pending [0..<length pending]) else Searching_indicator
      | Earnings_tab \<Rightarrow> Earnings_panel (length history) (earnings history) (take 5 history))"

text \<open>The badge on the requests tab: \<open>pendingRequests.length > 0 && ...\<close>.\<close>

definition request_badge :: "booking list \<Rightarrow> nat option" where
  "request_badge pending = (if 0 < length pending then Some (length pending) else None)"

text \<open>
  \<open>getMinutes().toString().padStart(2, '0')\<close> in a history row: the minutes as
  decimal digits, left-padded with zeros to two characters.
\<close>

definition pad_start :: "nat \<Rightarrow> char \<Rightarrow> string \<Rightarrow> string" where
  "pad_start n c s = replicate (n - length s) c @ s"

definition clock_label :: "nat \<Rightarrow> nat \<Rightarrow> string" where
  "clock_label h m = show_nat h @ '':'' @ pad_start 2 (CHR ''0'') (show_nat m)"

subsection \<open>DriverApp with its dashboard\<close>

datatype bg_call = Go_online | Go_offline

record driver_ui =
  ui_app :: app_state
  ui_dash :: "dashboard option"
  detached_maps :: nat
  bg_calls :: "bg_call list"

datatype ui_event = App app_event | Tab_click tab | Toggle_online

datatype screen = Trip_screen booking | Dashboard_screen panel "nat option"

text \<open>Whether an app event sets \<open>driverPosition\<close> (a fresh array).\<close>

fun sets_position :: "app_event \<Rightarrow> bool" where
  "sets_position (LocationFeed online lat lng) = js_truthy_num lat"
| "sets_position _ = False"

text \<open>
  DriverApp's render after an app event: \<open>activeTrip ? <ActiveTripView/> :
  <DriverDashboard/>\<close>. The dashboard unmounts (its map is left behind), mounts
  fresh, or re-renders with the new \<open>driverPosition\<close> and \<open>isOnline\<close>.
\<close>

definition reconcile :: "app_state \<Rightarrow> bool \<Rightarrow> driver_ui \<Rightarrow> driver_ui" where
  "reconcile old pos_set u =
     (let a = ui_app u in
      case active_trip (all_bookings a) of
        Some _ \<Rightarrow>
          (case ui_dash u of
             None \<Rightarrow> u
           | Some d \<Rightarrow> u\<lparr>ui_dash := None,
                         detached_maps := detached_maps u + (if dash_map d = None then 0 else 1)\<rparr>)
      | None \<Rightarrow>
          (case ui_dash u of
             None \<Rightarrow> u\<lparr>ui_dash := Some (dash_mount (dash_position a) (is_online a))\<rparr>
           | Some d \<Rightarrow>
               u\<lparr>ui_dash := Some (dash_update pos_set (is_online a \<noteq> is_online old)
                                    (dash_position a) (is_online a) d)\<rparr>))"

text \<open>\<open>handleToggleOnline\<close>: the call depends on the \<open>isOnline\<close> of the render.\<close>

definition handle_toggle_online :: "driver_ui \<Rightarrow> driver_ui" where
  "handle_toggle_online u =
     u\<lparr>bg_calls := bg_calls u @ [if \<not> is_online (ui_app u) then Go_online else Go_offline]\<rparr>"

fun ui_step :: "driver_ui \<Rightarrow> ui_event \<Rightarrow> driver_ui" where
  "ui_step u (App e) = reconcile (ui_app u) (sets_position e) (u\<lparr>ui_app := app_handle (ui_app u) e\<rparr>)"
| "ui_step u (Tab_click t) = u\<lparr>ui_dash := map_option (set_active_tab t) (ui_dash u)\<rparr>"
| "ui_step u Toggle_online = handle_toggle_online u"

fun ui_run :: "driver_ui \<Rightarrow> ui_event list \<Rightarrow> driver_ui" where
  "ui_run u [] = u"
| "ui_run u (e # es) = ui_run (ui_step u e) es"

text \<open>What DriverApp shows.\<close>

definition ui_screen :: "driver_ui \<Rightarrow> screen" where
  "ui_screen u =
     (let a = ui_app u in
      case active_trip (all_bookings a) of
        Some t \<Rightarrow> Trip_screen t
      | None \<Rightarrow>
          Dashboard_screen
            (dashboard_panel (is_online a)
               (case ui_dash u of Some d \<Rightarrow> active_tab d | None \<Rightarrow> Requests_tab)
               (pending_requests (all_bookings a)) (trip_history a))
            (if is_online a then request_badge (pending_requests (all_bookings a)) else None))"

text \<open>The ids of the request cards on the screen.\<close>

definition shown_cards :: "driver_ui \<Rightarrow> string list" where
  "shown_cards u =
     (case ui_screen u of
        Dashboard_screen (Request_cards cs) _ \<Rightarrow> map (bid \<circ> fst) cs
      | _ \<Rightarrow> [])"

text \<open>
  What the rendered tree offers: a card's accept and decline buttons only while
  the card is on the screen; the tabs only on the online dashboard; the go button
  on the dashboard; the trip controls and the environment's events as in
  \<open>app_enabled\<close>.
\<close>

fun ui_enabled :: "driver_ui \<Rightarrow> ui_event \<Rightarrow> bool" where
  "ui_enabled u (App (Accept i)) = (i \<in> set (shown_cards u))"
| "ui_enabled u (App (Decline i)) = (i \<in> set (shown_cards u))"
| "ui_enabled u (App e) = app_enabled (ui_app u) e"
| "ui_enabled u (Tab_click t) = (ui_dash u \<noteq> None \<and> is_online (ui_app u))"
| "ui_enabled u Toggle_online = (ui_dash u \<noteq> None)"

fun ui_valid :: "driver_ui \<Rightarrow> ui_event list \<Rightarrow> bool" where
  "ui_valid u [] = True"
| "ui_valid u (e # es) = (ui_enabled u e \<and> ui_valid (ui_step u e) es)"

definition ui_init :: "booking list \<Rightarrow> booking list option \<Rightarrow> bool \<Rightarrow> driver_ui" where
  "ui_init bs h online =
     \<lparr>ui_app = app_init bs h online, ui_dash = Some (dash_mount None online), detached_maps = 0,
      bg_calls = []\<rparr>"

text \<open>The app events of a run of the UI.\<close>

fun app_events :: "ui_event list \<Rightarrow> app_event list" where
  "app_events [] = []"
| "app_events (App e # es) = e # app_events es"
| "app_events (_ # es) = app_events es"

text \<open>
  The map reflects the feed: the view is on the driver (or the default centre
  before any position), the marker is at the driver, the filter is grey exactly
  while offline. The dashboard is mounted exactly when there is no active trip.
\<close>

definition dash_reflects :: "app_state \<Rightarrow> dashboard \<Rightarrow> bool" where
  "dash_reflects a d \<longleftrightarrow>
     dash_map d = Some (case dash_position a of Some p \<Rightarrow> p | None \<Rightarrow> dashboard_centre) \<and>
     dash_marker d = dash_position a \<and> map_grayscale d = Some (\<not> is_online a)"

definition ui_consistent :: "driver_ui \<Rightarrow> bool" where
  "ui_consistent u \<longleftrightarrow>
     (case ui_dash u of
        None \<Rightarrow> active_trip (all_bookings (ui_app u)) \<noteq> None
      | Some d \<Rightarrow> active_trip (all_bookings (ui_app u)) = None \<and> dash_reflects (ui_app u) d)"

text \<open>Reading a history row's time back: the digits before and after the colon.\<close>

definition read_clock :: "string \<Rightarrow> nat \<times> nat" where
  "read_clock l =
     (digits_value (takeWhile (\<lambda>c. c \<noteq> CHR '':'') l),
      digits_value (tl (dropWhile (\<lambda>c. c \<noteq> CHR '':'') l)))"

subsection \<open>Lemmas\<close>

lemma reconcile_app [simp]: "ui_app (reconcile old p u) = ui_app u"
  by (simp add: reconcile_def Let_def split: option.split)

lemma ui_app_step:
  "ui_app (ui_step u e) = (case e of App a \<Rightarrow> app_handle (ui_app u) a | _ \<Rightarrow> ui_app u)"
  by (cases e) (simp_all add: handle_toggle_online_def)

lemma ui_toggle_frame [simp]:
  "ui_app (handle_toggle_online u) = ui_app u" "ui_dash (handle_toggle_online u) = ui_dash u"
  by (simp_all add: handle_toggle_online_def)

lemma ui_app_run: "ui_app (ui_run u es) = app_run (ui_app u) (app_events es)"
  by (induction u es rule: ui_run.induct) (auto simp: ui_app_step split: ui_event.split)

lemma map_fst_zip_upt [simp]: "map (\<lambda>x. f (fst x)) (zip xs [0..<length xs]) = map f xs"
proof -
  have "map fst (zip xs [0..<length xs]) = xs" by (simp add: map_fst_zip)
  then have "map f (map fst (zip xs [0..<length xs])) = map f xs" by simp
  then show ?thesis by (simp only: map_map comp_def)
qed

lemma map_snd_zip_upt [simp]: "map (\<lambda>x. g (snd x)) (zip xs [0..<length xs]) = map g [0..<length xs]"
proof -
  have "map snd (zip xs [0..<length xs]) = [0..<length xs]" by (simp add: map_snd_zip)
  then have "map g (map snd (zip xs [0..<length xs])) = map g [0..<length xs]" by simp
  then show ?thesis by (simp only: map_map comp_def)
qed

lemma shown_cards_cases:
  "shown_cards u =
     (if is_online (ui_app u) \<and> active_trip (all_bookings (ui_app u)) = None \<and>
         (case ui_dash u of Some d \<Rightarrow> active_tab d | None \<Rightarrow> Requests_tab) = Requests_tab
      then map bid (pending_requests (all_bookings (ui_app u))) else [])"
  by (simp add: shown_cards_def ui_screen_def dashboard_panel_def Let_def comp_def
      split: option.split tab.split)

lemma shown_card_enabled:
  "i \<in> set (shown_cards u) \<Longrightarrow>
     is_online (ui_app u) \<and> active_trip (all_bookings (ui_app u)) = None \<and>
     i \<in> set (map bid (pending_requests (all_bookings (ui_app u))))"
  by (simp add: shown_cards_cases split: if_splits)

lemma ui_enabled_app: "ui_enabled u (App e) \<Longrightarrow> app_enabled (ui_app u) e"
  by (cases e) (auto dest: shown_card_enabled)

lemma ui_valid_app: "ui_valid u es \<Longrightarrow> app_valid (ui_app u) (app_events es)"
proof (induction es arbitrary: u)
  case (Cons e es)
  then have "app_valid (ui_app (ui_step u e)) (app_events es)" by simp
  with Cons.prems show ?case by (cases e) (auto simp: ui_app_step ui_enabled_app)
qed simp

text \<open>Only the location feed moves the dashboard's position or online flag.\<close>

lemma pos_online_frame [simp]:
  "dash_position (update_booking_status i st s) = dash_position s"
  "is_online (update_booking_status i st s) = is_online s"
  "dash_position (resume_update p s) = dash_position s"
  "is_online (resume_update p s) = is_online s"
  "dash_position (trip_view_effect t s) = dash_position s"
  "is_online (trip_view_effect t s) = is_online s"
  by (simp_all add: update_booking_status_def resume_update_def trip_view_effect_def Let_def
      split: option.split)

lemma sync_view_pos_online [simp]:
  "dash_position (sync_view s) = dash_position s" "is_online (sync_view s) = is_online s"
  by (simp_all add: sync_view_def Let_def split: option.split)

lemmas handler_defs = on_bookings_def on_location_feed_def handle_accept_def handle_decline_def
  confirm_def handle_trip_update_def resolve_def new_request_def slide_def handle_swipe_complete_def

text \<open>Only the location feed sets the dashboard's position and online flag.\<close>

lemma app_handle_position:
  "dash_position (app_handle a e) =
     (case e of LocationFeed on lat lng \<Rightarrow> if js_truthy_num lat then Some (the lat, lng) else dash_position a
      | _ \<Rightarrow> dash_position a)"
  by (cases e) (simp_all add: handler_defs Let_def split: option.split status.split)

lemma app_handle_online:
  "is_online (app_handle a e) = (case e of LocationFeed on lat lng \<Rightarrow> on | _ \<Rightarrow> is_online a)"
  by (cases e) (simp_all add: handler_defs Let_def split: option.split status.split)

lemma app_handle_feed_frame:
  "\<not> sets_position e \<Longrightarrow> dash_position (app_handle a e) = dash_position a"
  using app_handle_position [of a e] by (cases e) simp_all

lemma dash_mount_reflects: "dash_reflects a (dash_mount (dash_position a) (is_online a))"
  by (simp add: dash_reflects_def dash_mount_def map_effect_def marker_effect_def
      split: option.split)

lemma dash_update_reflects:
  assumes "dash_reflects a d" "\<not> pos_set \<Longrightarrow> dash_position a' = dash_position a"
    "pos_set \<Longrightarrow> dash_position a' \<noteq> None"
  shows "dash_reflects a' (dash_update pos_set (is_online a' \<noteq> is_online a)
                            (dash_position a') (is_online a') d)"
  using assms
  by (cases "dash_position a'"; cases "dash_position a")
     (auto simp: dash_reflects_def dash_update_def map_effect_def marker_effect_def)

lemma sets_position_Some: "sets_position e \<Longrightarrow> dash_position (app_handle a e) \<noteq> None"
  by (cases e) (simp_all add: on_location_feed_def Let_def)

lemma dash_reflects_tab [simp]: "dash_reflects a (set_active_tab t d) = dash_reflects a d"
  by (simp add: dash_reflects_def set_active_tab_def)

lemma ui_step_consistent:
  assumes c: "ui_consistent u"
  shows "ui_consistent (ui_step u e)"
proof (cases e)
  case (App x)
  let ?a = "app_handle (ui_app u) x"
  have pos: "\<not> sets_position x \<Longrightarrow> dash_position ?a = dash_position (ui_app u)"
    by (rule app_handle_feed_frame(1))
  show ?thesis
  proof (cases "ui_dash u")
    case None
    with c App show ?thesis
      by (simp add: ui_consistent_def reconcile_def Let_def dash_mount_reflects split: option.split)
  next
    case (Some d)
    with c have "dash_reflects (ui_app u) d" by (simp add: ui_consistent_def)
    from dash_update_reflects [OF this pos sets_position_Some]
    show ?thesis using Some App by (simp add: ui_consistent_def reconcile_def Let_def split: option.split)
  qed
next
  case (Tab_click t)
  with c show ?thesis by (cases "ui_dash u") (simp_all add: ui_consistent_def)
next
  case Toggle_online
  with c show ?thesis by (cases "ui_dash u") (simp_all add: ui_consistent_def)
qed

lemma ui_init_consistent: "ui_consistent (ui_init bs h online)"
  using dash_mount_reflects [of "app_init bs h online"]
  by (simp add: ui_consistent_def ui_init_def app_init_def active_trip_def)

lemma ui_run_consistent: "ui_consistent u \<Longrightarrow> ui_consistent (ui_run u es)"
  by (induction u es rule: ui_run.induct) (simp_all add: ui_step_consistent)

lemma dash_unmount_detaches:
  assumes "ui_consistent u" "ui_dash u \<noteq> None" "ui_dash (ui_step u e) = None"
  shows "detached_maps (ui_step u e) = Suc (detached_maps u)"
proof -
  obtain d where d: "ui_dash u = Some d" using assms(2) by blast
  with assms(1) have "dash_map d \<noteq> None" by (simp add: ui_consistent_def dash_reflects_def)
  with d assms(3) show ?thesis
    by (cases e) (simp_all add: reconcile_def Let_def split: option.split_asm)
qed

lemma digits_value_zeros: "digits_value (replicate k (CHR ''0'') @ s) = digits_value s"
proof -
  have "foldl (\<lambda>n c. 10 * n + digit_value c) 0 (replicate k (CHR ''0'')) = 0"
    by (induction k) (simp_all add: digit_value_def)
  then show ?thesis by (simp add: digits_value_def)
qed

lemma show_nat_two_digits:
  assumes "m < 100"
  shows "length (show_nat m) \<le> 2"
proof (cases "m < 10")
  case True
  then show ?thesis by (subst show_nat.simps) simp
next
  case False
  from assms have "m div 10 < 10" by simp
  then have "show_nat (m div 10) = [digit_char (m div 10)]" by (subst show_nat.simps) simp
  with False show ?thesis by (subst show_nat.simps) simp
qed

lemma no_colon_show_nat: "CHR '':'' \<notin> set (show_nat h)"
  using show_nat_digits [of h] by (auto simp: is_digit_def)

subsection \<open>Properties\<close>

text \<open>
  C35. In every run of DriverApp, whatever the events, the dashboard is mounted
  exactly while there is no active trip, and its map reflects the location feed:
  the marker is at the published driver position, the view is centred on it (on
  the default centre before any position) and the map is grey exactly while the
  driver is offline.
\<close>

theorem dashboard_reflects_feed: "ui_consistent (ui_run (ui_init bs h online) es)"
  by (rule ui_run_consistent [OF ui_init_consistent])

text \<open>
  C36. The rendered dashboard refines the app model: every run of the UI whose
  events the rendered tree offers (accept and decline only on a card on the
  screen) projects to a valid run of the app, ending in the same app state.
\<close>

theorem ui_refines_app:
  "ui_valid (ui_init bs h online) es \<Longrightarrow>
     app_valid (app_init bs h online) (app_events es) \<and>
     ui_app (ui_run (ui_init bs h online) es) = app_run (app_init bs h online) (app_events es)"
  using ui_valid_app [of "ui_init bs h online" es] ui_app_run [of "ui_init bs h online" es]
  by (simp add: ui_init_def)

theorem ui_refines_app_witness:
  "ui_valid (ui_init [scenario_b1] None True) [App Deliver, App (Accept ''b1'')] \<and>
   app_valid (app_init [scenario_b1] None True) [Deliver, Accept ''b1'']"
proof -
  have v: "ui_valid (ui_init [scenario_b1] None True) [App Deliver, App (Accept ''b1'')]"
    by (simp add: ui_init_def app_init_def dash_mount_def map_effect_def marker_effect_def
        reconcile_def dash_update_def shown_cards_cases on_bookings_def sync_view_def
        active_trip_def pending_requests_def scenario_b1_def Let_def)
  from ui_refines_app [OF v] v show ?thesis by simp
qed

text \<open>
  C37. The dashboard never removes its map: whenever DriverApp replaces the
  dashboard by the trip view, the dashboard's Leaflet map is left behind, one more
  on every trip.
\<close>

theorem dashboard_map_leaks:
  "ui_dash (ui_run (ui_init bs h online) es) \<noteq> None \<Longrightarrow>
   ui_dash (ui_step (ui_run (ui_init bs h online) es) e) = None \<Longrightarrow>
   detached_maps (ui_step (ui_run (ui_init bs h online) es) e) =
     Suc (detached_maps (ui_run (ui_init bs h online) es))"
  using dash_unmount_detaches [OF ui_run_consistent [OF ui_init_consistent]] by blast

theorem dashboard_map_leaks_witness:
  "detached_maps (ui_step (ui_run (ui_init [scenario_b1\<lparr>status := Accepted\<rparr>] None True) []) (App Deliver)) = 1"
proof -
  let ?u = "ui_run (ui_init [scenario_b1\<lparr>status := Accepted\<rparr>] None True) []"
  have u: "?u = ui_init [scenario_b1\<lparr>status := Accepted\<rparr>] None True" by simp
  have a: "ui_dash ?u \<noteq> None" by (simp add: ui_init_def)
  have b: "ui_dash (ui_step ?u (App Deliver)) = None"
    by (simp add: ui_init_def app_init_def reconcile_def on_bookings_def sync_view_def
        trip_view_effect_def active_trip_def Let_def)
  have c: "detached_maps ?u = 0" by (simp add: ui_init_def)
  from dashboard_map_leaks [OF a b] c show ?thesis by simp
qed

text \<open>
  C38. The request list composes DriverApp with RequestCard: the cards are the
  pending requests in directory order, the badge counts them, and the \<open>k\<close>-th card
  schedules its address lookup \<open>300 * k\<close> ms after mounting, so no two cards of the
  list query the geocoder at the same moment.
\<close>

theorem request_cards_staggered:
  assumes "ui_screen u = Dashboard_screen (Request_cards cs) badge"
  shows "map fst cs = pending_requests (all_bookings (ui_app u)) \<and>
     map (\<lambda>c. card_due (card_init (fst c) (snd c))) cs = map (\<lambda>k. Some (300 * k)) [0..<length cs] \<and>
     badge = Some (length cs)"
proof -
  let ?p = "pending_requests (all_bookings (ui_app u))"
  from assms have cs: "cs = zip ?p [0..<length ?p]" and b: "badge = Some (length ?p)"
    by (auto simp: ui_screen_def dashboard_panel_def request_badge_def Let_def
        split: option.splits if_splits tab.splits)
  have "map (\<lambda>c. card_due (card_init (fst c) (snd c))) cs = map (\<lambda>k. Some (stagger_delay k)) [0..<length ?p]"
    unfolding cs using map_snd_zip_upt [of "\<lambda>k. Some (stagger_delay k)" ?p] by simp
  then show ?thesis using cs b by (simp add: stagger_delay_def mult.commute)
qed

theorem request_cards_staggered_witness:
  "ui_screen (ui_run (ui_init [scenario_b1] None True) [App Deliver]) =
     Dashboard_screen (Request_cards [(scenario_b1, 0)]) (Some 1) \<and>
   map (\<lambda>c. card_due (card_init (fst c) (snd c))) [(scenario_b1, 0::nat)] = [Some 0]"
proof -
  have s: "ui_screen (ui_run (ui_init [scenario_b1] None True) [App Deliver]) =
     Dashboard_screen (Request_cards [(scenario_b1, 0)]) (Some 1)"
    by (simp add: ui_init_def app_init_def dash_mount_def map_effect_def marker_effect_def
        reconcile_def dash_update_def ui_screen_def dashboard_panel_def request_badge_def
        on_bookings_def sync_view_def active_trip_def pending_requests_def scenario_b1_def Let_def)
  from request_cards_staggered [OF s] s show ?thesis by simp
qed

text \<open>
  C39. The time of a history row reads back as the trip's hour and minute, and
  \<open>padStart(2, '0')\<close> gives the minutes exactly two digits.
\<close>

theorem clock_label_roundtrip:
  "m < 60 \<Longrightarrow> read_clock (clock_label h m) = (h, m) \<and>
     length (clock_label h m) = length (show_nat h) + 3"
proof -
  assume m: "m < 60"
  then have l: "length (show_nat m) \<le> 2" by (intro show_nat_two_digits) simp
  have tw: "takeWhile (\<lambda>c. c \<noteq> CHR '':'') (show_nat h @ rest) = show_nat h @
      takeWhile (\<lambda>c. c \<noteq> CHR '':'') rest" for rest
    by (rule takeWhile_append2) (metis no_colon_show_nat)
  have dw: "dropWhile (\<lambda>c. c \<noteq> CHR '':'') (show_nat h @ rest) =
      dropWhile (\<lambda>c. c \<noteq> CHR '':'') rest" for rest
    by (rule dropWhile_append2) (metis no_colon_show_nat)
  show ?thesis
    using l by (simp add: read_clock_def clock_label_def pad_start_def tw dw digits_value_zeros)
qed

theorem clock_label_roundtrip_witness:
  "clock_label 9 5 = ''9:05'' \<and> read_clock (clock_label 9 5) = (9, 5)"
proof -
  have "clock_label 9 5 = ''9:05''"
    by (simp add: clock_label_def pad_start_def show_nat.simps digit_char_def)
  with clock_label_roundtrip [of 5 9] show ?thesis by simp
qed

end
