(* ===== verification/DriverWidgets.thy ===== *)
theory DriverWidgets
  imports Dashboard RouteEngine
begin

text \<open>
  The small presentation components around the driver's screens, each a
  function of its props: DriverApp's \<open>DriverTopBar\<close> (src/components/DriverApp.tsx,
  lines 17-34, rendered with the literal rating 4.8 at line 149), \<open>GoButton\<close>
  (lines 36-55), \<open>StatusIndicator\<close> (lines 57-71) and \<open>TripHistoryItem\<close> (lines
  74-92), and ActiveTripView's statistics row (src/components/ActiveTripView.tsx,
  lines 249-257) and zoom buttons (lines 175-181). Texts stay symbolic; the
  rounding of \<open>toFixed\<close> and the local time of \<open>new Date(booking.time)\<close> are not
  modelled (the row takes the hours and minutes \<open>Date\<close> reads). The lemmas relate
  the widgets to the state they are rendered from.
\<close>

text \<open>\<open>DriverTopBar\<close>: the rating and the day's earnings; its \<open>isOnline\<close> prop is unused.\<close>

record top_bar =
  bar_rating :: real
  bar_earnings :: jsnum

definition driver_top_bar :: "jsnum \<Rightarrow> top_bar" where
  "driver_top_bar e = \<lparr>bar_rating = 4.8, bar_earnings = e\<rparr>"

text \<open>\<open>GoButton\<close>: \<open>{isOnline ? t('offline') : t('online')}\<close>.\<close>

datatype go_label = Label_go_offline | Label_go_online

definition go_button_label :: "bool \<Rightarrow> go_label" where
  "go_button_label online = (if online then Label_go_offline else Label_go_online)"

text \<open>\<open>StatusIndicator\<close>: the offline text, or the pulsing searching animation.\<close>

datatype indicator = Offline_notice | Searching_pulse

definition status_indicator :: "bool \<Rightarrow> indicator" where
  "status_indicator online = (if \<not> online then Offline_notice else Searching_pulse)"

text \<open>\<open>TripHistoryItem\<close>: time, service, distance and price of a completed trip.\<close>

record history_row =
  row_time :: string
  row_service :: string
  row_distance :: "string option"
  row_price :: jsnum

definition trip_history_item :: "booking \<Rightarrow> nat \<Rightarrow> nat \<Rightarrow> history_row" where
  "trip_history_item b hours minutes =
     \<lparr>row_time = clock_label hours minutes, row_service = service b, row_distance = distance b,
      row_price = fare (distance b)\<rparr>"

text \<open>
  What the dashboard shows around its panel: the top bar with the earnings of the
  history, the go button, the panel and the badge; nothing while the trip view is
  rendered.
\<close>

definition dashboard_chrome :: "driver_ui \<Rightarrow> (top_bar \<times> go_label) option" where
  "dashboard_chrome u =
     (case ui_dash u of
        None \<Rightarrow> None
      | Some _ \<Rightarrow> Some (driver_top_bar (earnings (trip_history (ui_app u))),
                       go_button_label (is_online (ui_app u))))"

text \<open>ActiveTripView's statistics row: the ETA (\<open>'--'\<close> without a route) and \<open>trip.distance || '--'\<close>.\<close>

definition distance_cell :: "booking \<Rightarrow> string" where
  "distance_cell t = (case distance t of Some d \<Rightarrow> if d = [] then ''--'' else d | None \<Rightarrow> ''--'')"

definition trip_stats :: "coord list option \<Rightarrow> booking \<Rightarrow> nat option \<times> string" where
  "trip_stats route t = (eta_minutes route, distance_cell t)"

text \<open>\<open>handleZoomIn\<close> and \<open>handleZoomOut\<close>: a zoom command to the map, if it exists.\<close>

datatype zoom_cmd = Zoom_in | Zoom_out

definition zoom_button :: "zoom_cmd \<Rightarrow> bool \<Rightarrow> zoom_cmd option" where
  "zoom_button z map_exists = (if map_exists then Some z else None)"

subsection \<open>Lemmas\<close>

text \<open>The go button's label names the call its click makes.\<close>

lemma go_button_names_call:
  "bg_calls (handle_toggle_online u) =
     bg_calls u @ [if go_button_label (is_online (ui_app u)) = Label_go_offline then Go_offline else Go_online]"
  by (simp add: handle_toggle_online_def go_button_label_def)

text \<open>
  \<open>StatusIndicator\<close> is rendered only on the online dashboard, so its offline
  branch is never shown.
\<close>

lemma status_indicator_online:
  "ui_screen u = Dashboard_screen Searching_indicator b \<Longrightarrow>
     status_indicator (is_online (ui_app u)) = Searching_pulse"
  by (auto simp: ui_screen_def dashboard_panel_def status_indicator_def Let_def
      split: option.splits if_splits tab.splits)

text \<open>The top bar and the earnings tab show the same total.\<close>

lemma top_bar_matches_earnings_tab:
  "ui_screen u = Dashboard_screen (Earnings_panel n tot recent) b \<Longrightarrow>
     dashboard_chrome u = Some (driver_top_bar tot, Label_go_offline)"
  by (auto simp: ui_screen_def dashboard_panel_def dashboard_chrome_def go_button_label_def Let_def
      split: option.splits if_splits tab.splits)

text \<open>The ETA of a non-empty route is between one minute and the number of points.\<close>

lemma eta_minutes_bounds:
  assumes "r \<noteq> []"
  shows "\<exists>m. eta_minutes (Some r) = Some m \<and> 1 \<le> m \<and> m \<le> length r"
proof -
  have "(length r + 9) div 10 \<ge> 1" using assms by (cases r) auto
  moreover have "(length r + 9) div 10 \<le> length r" using assms by (cases r) auto
  ultimately show ?thesis by (simp add: eta_minutes_def ceil_div_10)
qed

end
