(* ===== verification/PickerView.thy ===== *)
theory PickerView
  imports LocationPicker
begin

text \<open>
  What MapPicker renders from its state (src/components/MapPicker.tsx, lines
  338-405): the search bar's text (the display address or the placeholder), the
  location message, the my-location button (disabled with a spinner while a fix
  is awaited, highlighted while the selection is the device position), the
  footer's caption (current or updated pickup or drop location) and its address
  line (the searching notice, the address, the coordinates, or \<open>'...'\<close>), and
  whether the search overlay is open. Texts stay symbolic.
\<close>

datatype bar_text = Bar_address string | Bar_placeholder bool

datatype button_icon = Spinner_icon | Active_icon | Inactive_icon

datatype caption = Current_location bool | Updated_location bool

datatype address_text = Searching_text | Address_text string | Coords_text jscoord | Dots_text

record picker_screen =
  ps_bar :: bar_text
  ps_message :: "loc_message option"
  ps_button_disabled :: bool
  ps_button_icon :: button_icon
  ps_caption :: caption
  ps_address :: address_text
  ps_search_open :: bool

text \<open>\<open>{displayAddress || t(isPickup ? 'searchPickupPlaceholder' : 'searchDropPlaceholder')}\<close>\<close>

definition search_bar_text :: "bool \<Rightarrow> picker \<Rightarrow> bar_text" where
  "search_bar_text is_pickup s =
     (if display_address s = [] then Bar_placeholder is_pickup else Bar_address (display_address s))"

text \<open>The my-location button's icon.\<close>

definition location_button_icon :: "picker \<Rightarrow> button_icon" where
  "location_button_icon s =
     (if getting_location s then Spinner_icon
      else if is_my_location_active s then Active_icon else Inactive_icon)"

text \<open>\<open>(!hasLocationBeenManuallyUpdated || isMyLocationActive) ? current : updated\<close>\<close>

definition footer_caption :: "bool \<Rightarrow> picker \<Rightarrow> caption" where
  "footer_caption is_pickup s =
     (if \<not> manually_updated s \<or> is_my_location_active s then Current_location is_pickup
      else Updated_location is_pickup)"

text \<open>\<open>isFetchingAddress ? searching : currentAddress || (selectedLocation ? Lat/Lng : '...')\<close>\<close>

definition footer_address :: "picker \<Rightarrow> address_text" where
  "footer_address s =
     (if fetching_address s then Searching_text
      else case current_address s of
        Some a \<Rightarrow> if a \<noteq> [] then Address_text a
                  else (case selected s of Some l \<Rightarrow> Coords_text l | None \<Rightarrow> Dots_text)
      | None \<Rightarrow> (case selected s of Some l \<Rightarrow> Coords_text l | None \<Rightarrow> Dots_text))"

definition picker_screen :: "bool \<Rightarrow> picker \<Rightarrow> picker_screen" where
  "picker_screen is_pickup s =
     \<lparr>ps_bar = search_bar_text is_pickup s, ps_message = message s,
      ps_button_disabled = getting_location s, ps_button_icon = location_button_icon s,
      ps_caption = footer_caption is_pickup s, ps_address = footer_address s,
      ps_search_open = search_open s\<rparr>"

text \<open>
  Before the first fix is handled a selection may be missing; once it is handled,
  a location is always selected.
\<close>

definition selection_made :: "picker \<Rightarrow> bool" where
  "selection_made s \<longleftrightarrow> selected s \<noteq> None \<or> Initial_fix \<in> set (geo_tasks s)"

subsection \<open>Lemmas\<close>

lemma remove_nth_keeps_other:
  "x \<in> set xs \<Longrightarrow> i < length xs \<Longrightarrow> xs ! i \<noteq> x \<Longrightarrow> x \<in> set (remove_nth i xs)"
proof (induction xs arbitrary: i)
  case (Cons y ys)
  then show ?case by (cases i) auto
qed simp

lemma run_effects_geo_tasks [simp]: "geo_tasks (run_effects old u b s) = geo_tasks s"
  by (simp add: run_effects_def Let_def rg_effect_def user_marker_effect_def pin_effect_def
      split: option.split)

lemma selection_made_geo_done:
  assumes "selection_made s"
  shows "selection_made (geo_done i r s)"
proof (cases "i < length (geo_tasks s)")
  case True
  show ?thesis
  proof (cases "geo_tasks s ! i")
    case Initial_fix
    with True show ?thesis
      by (simp add: geo_done_def selection_made_def initial_fix_done_def Let_def split: geo_result.split)
  next
    case Button_fix
    have "selected s \<noteq> None \<or> Initial_fix \<in> set (remove_nth i (geo_tasks s))"
      using assms True Button_fix remove_nth_keeps_other [of Initial_fix "geo_tasks s" i]
      by (auto simp: selection_made_def)
    with True Button_fix show ?thesis
      by (auto simp: geo_done_def selection_made_def button_fix_done_def Let_def split: geo_result.split)
  qed
next
  case False
  with assms show ?thesis by (simp add: geo_done_def)
qed

lemma selection_made_step:
  assumes "selection_made s"
  shows "selection_made (picker_step s e)"
proof (cases e)
  case (Geo_done i r)
  with assms show ?thesis by (simp add: selection_made_geo_done)
next
  case (Pk_elapse g)
  with assms show ?thesis by (simp add: selection_made_def pk_elapse_def Let_def split: option.split)
next
  case (Rg_done i a)
  with assms show ?thesis by (simp add: selection_made_def rg_done_def Let_def)
next
  case Confirm_location
  with assms show ?thesis by (cases "selected s") (simp_all add: selection_made_def confirm_location_def)
qed (use assms in \<open>simp_all add: selection_made_def map_click_def my_location_click_def
       select_from_search_def set_pk_language_def confirm_location_def Let_def split: option.split\<close>)

lemma selection_made_run: "selection_made s \<Longrightarrow> selection_made (picker_run s es)"
  by (induction es arbitrary: s) (simp_all add: selection_made_step)

text \<open>
  Once the first fix is handled the footer never falls back to \<open>'...'\<close>: it shows
  the searching notice, an address or the coordinates of the selection.
\<close>

lemma footer_never_dots:
  assumes "Initial_fix \<notin> set (geo_tasks (picker_run (picker_init l) es))"
  shows "footer_address (picker_run (picker_init l) es) \<noteq> Dots_text"
proof -
  have "selection_made (picker_init l)" by (simp add: selection_made_def picker_init_def)
  then have "selection_made (picker_run (picker_init l) es)" by (rule selection_made_run)
  with assms show ?thesis
    by (auto simp: selection_made_def footer_address_def split: option.splits if_splits)
qed

text \<open>While the first fix is awaited, the button shows the spinner and is disabled.\<close>

lemma mount_screen:
  "picker_screen p (picker_init l) =
     \<lparr>ps_bar = Bar_placeholder p, ps_message = None, ps_button_disabled = True,
      ps_button_icon = Spinner_icon, ps_caption = Current_location p, ps_address = Dots_text,
      ps_search_open = False\<rparr>"
  by (simp add: picker_screen_def picker_init_def search_bar_text_def location_button_icon_def
      footer_caption_def footer_address_def)

end
