(* ===== verification/PickerHost.thy ===== *)
theory PickerHost
  imports LocationPicker
begin

text \<open>
  MapPicker's life on the page (src/components/MapPicker.tsx, lines 144-186):
  the mount effect creates the Leaflet map once the first fix is handled, if
  \<open>mapContainerRef.current && !mapRef.current\<close>, and its cleanup removes the map
  and clears the ref. After unmount React ignores the state setters of awaits
  still in flight, and the container ref is null, so a first fix that settles
  late creates no map. The host counts the maps created and removed; the
  lemmas show that the picker never leaves a map behind.
\<close>

record picker_host =
  ph_picker :: "picker option"
  ph_maps_created :: nat
  ph_maps_removed :: nat

datatype host_event = Picker_ev picker_event | Unmount_picker

text \<open>
  A picker event while mounted; a map is created by the step that makes
  \<open>mapRef.current\<close> non-null (\<open>initializeMap\<close> after its \<open>await\<close>). A Leaflet
  error thrown during the commit (\<open>pk_error\<close>) unmounts the tree, which runs the
  cleanup.
\<close>

definition host_picker_event :: "picker_event \<Rightarrow> picker_host \<Rightarrow> picker_host" where
  "host_picker_event e h =
     (case ph_picker h of
        None \<Rightarrow> h
      | Some p \<Rightarrow>
          let p' = picker_step p e;
              h' = h\<lparr>ph_maps_created :=
                      ph_maps_created h + (if \<not> pk_map_ready p \<and> pk_map_ready p' then 1 else 0)\<rparr>
          in if pk_error p' = None then h'\<lparr>ph_picker := Some p'\<rparr>
             else h'\<lparr>ph_picker := None,
                      ph_maps_removed := ph_maps_removed h + (if pk_map_ready p' then 1 else 0)\<rparr>)"

text \<open>The cleanup: \<open>if (mapRef.current) { mapRef.current.remove(); mapRef.current = null; }\<close>.\<close>

definition unmount_picker :: "picker_host \<Rightarrow> picker_host" where
  "unmount_picker h =
     (case ph_picker h of
        None \<Rightarrow> h
      | Some p \<Rightarrow> h\<lparr>ph_picker := None,
                   ph_maps_removed := ph_maps_removed h + (if pk_map_ready p then 1 else 0)\<rparr>)"

fun host_step :: "picker_host \<Rightarrow> host_event \<Rightarrow> picker_host" where
  "host_step h (Picker_ev e) = host_picker_event e h"
| "host_step h Unmount_picker = unmount_picker h"

fun host_run :: "picker_host \<Rightarrow> host_event list \<Rightarrow> picker_host" where
  "host_run h [] = h"
| "host_run h (e # es) = host_run (host_step h e) es"

definition host_init :: "string \<Rightarrow> picker_host" where
  "host_init l = \<lparr>ph_picker = Some (picker_init l), ph_maps_created = 0, ph_maps_removed = 0\<rparr>"

text \<open>The maps of the picker on the page: the one \<open>mapRef\<close> holds, if any.\<close>

definition live_maps :: "picker_host \<Rightarrow> nat" where
  "live_maps h = (case ph_picker h of Some p \<Rightarrow> if pk_map_ready p then 1 else 0 | None \<Rightarrow> 0)"

text \<open>
  While mounted nothing was removed and the map created is the one held; after
  unmount every map created was removed, and there was at most one.
\<close>

definition host_ok :: "picker_host \<Rightarrow> bool" where
  "host_ok h \<longleftrightarrow>
     (case ph_picker h of
        Some p \<Rightarrow> ph_maps_removed h = 0 \<and> ph_maps_created h = (if pk_map_ready p then 1 else 0)
      | None \<Rightarrow> ph_maps_removed h = ph_maps_created h \<and> ph_maps_created h \<le> 1)"

subsection \<open>Lemmas\<close>

lemma run_effects_map_ready [simp]: "pk_map_ready (run_effects old u b s) = pk_map_ready s"
  by (simp add: run_effects_def Let_def rg_effect_def user_marker_effect_def pin_effect_def
      split: option.split)

lemma geo_done_map_ready: "pk_map_ready s \<Longrightarrow> pk_map_ready (geo_done i r s)"
  by (auto simp: geo_done_def Let_def initial_fix_done_def button_fix_done_def
      split: geo_request.split geo_result.split)

text \<open>Once created, the map stays while the picker is mounted.\<close>

lemma picker_step_map_ready: "pk_map_ready s \<Longrightarrow> pk_map_ready (picker_step s e)"
  by (cases e) (auto simp: geo_done_map_ready map_click_def my_location_click_def
      select_from_search_def pk_elapse_def rg_done_def set_pk_language_def confirm_location_def
      Let_def split: option.split prod.split)

lemma host_step_ok: "host_ok h \<Longrightarrow> host_ok (host_step h e)"
proof (cases e)
  case (Picker_ev pe)
  assume ok: "host_ok h"
  show ?thesis
  proof (cases "ph_picker h")
    case (Some p)
    have "pk_map_ready p \<Longrightarrow> pk_map_ready (picker_step p pe)" by (rule picker_step_map_ready)
    with ok Some Picker_ev show ?thesis
      by (cases "pk_error (picker_step p pe)") (auto simp: host_ok_def host_picker_event_def Let_def)
  qed (use ok Picker_ev in \<open>simp add: host_picker_event_def\<close>)
next
  case Unmount_picker
  assume "host_ok h"
  with Unmount_picker show ?thesis
    by (auto simp: host_ok_def unmount_picker_def split: option.splits)
qed

lemma host_run_ok: "host_ok h \<Longrightarrow> host_ok (host_run h es)"
  by (induction es arbitrary: h) (simp_all add: host_step_ok)

lemma host_init_ok: "host_ok (host_init l)"
  by (simp add: host_ok_def host_init_def picker_init_def)

lemma host_ok_counts:
  "host_ok h \<Longrightarrow> ph_maps_created h = ph_maps_removed h + live_maps h \<and> ph_maps_created h \<le> 1"
  by (auto simp: host_ok_def live_maps_def split: option.splits)

text \<open>C30. MapPicker never leaks its map: at every point of any run the maps created
  are the maps its cleanup removed plus the one it holds, and there is at most one;
  an unmount before the first fix settles, or a crash, leaves none behind.\<close>

theorem picker_map_no_leak:
  "ph_maps_created (host_run (host_init l) es) =
     ph_maps_removed (host_run (host_init l) es) + live_maps (host_run (host_init l) es) \<and>
   ph_maps_created (host_run (host_init l) es) \<le> 1"
  by (rule host_ok_counts [OF host_run_ok [OF host_init_ok]])

end
