(* ===== verification/TripRender.thy ===== *)
theory TripRender
  imports MapView Fare
begin

text \<open>
  ActiveTripView's renders as they drive its map (src/components/ActiveTripView.tsx):
  the map created by the first run of the initialisation effect (lines 45-62,
  centred on \<open>[15.3694, 44.1910]\<close>), and the drawing effect (lines 126-167), which
  React re-runs after a render whose dependency list
  \<open>[driverPosition, currentRoute, trip.status, driverIcon]\<close> differs from the last
  run's. \<open>driverIcon\<close> is built by \<open>L.divIcon\<close> in the body of the component
  (lines 31-41), a new object on every render, so its identity is the render's
  number. A pan by the driver is Leaflet's own behaviour, the one input of the
  map from outside the component. The initialisation effect has no cleanup: an
  unmounted view's map stays.
\<close>

text \<open>The identity of the icon object built by the \<open>r\<close>-th render.\<close>

definition driver_icon :: "nat \<Rightarrow> nat" where
  "driver_icon r = r"

type_synonym draw_deps = "coord option \<times> coord list option \<times> status \<times> nat"

record trip_view_host =
  tv_canvas :: map_canvas
  tv_last_deps :: "draw_deps option"
  tv_renders :: nat
  tv_mounted :: bool

datatype tv_event = Tv_render draw_input | User_pan coord | Tv_unmount

definition init_view :: coord where
  "init_view = (15.3694, 44.1910)"

text \<open>
  One render with the drawing effect's inputs (status, pickup, drop, position,
  route): on the first, \<open>L.map(...).setView([15.3694, 44.1910], 16)\<close>; then the
  drawing effect if its dependencies changed.
\<close>

definition tv_render :: "draw_input \<Rightarrow> trip_view_host \<Rightarrow> trip_view_host" where
  "tv_render i v =
     (case i of (st, pk, dr, pos, route) \<Rightarrow>
        let r = Suc (tv_renders v);
            c0 = (if map_ready (tv_canvas v) then tv_canvas v
                  else (tv_canvas v)\<lparr>map_ready := True, view_centre := Some init_view\<rparr>);
            deps = (pos, route, st, driver_icon r)
        in if tv_last_deps v = Some deps then v\<lparr>tv_renders := r, tv_canvas := c0\<rparr>
           else v\<lparr>tv_renders := r, tv_last_deps := Some deps, tv_canvas := draw_map st pk dr pos route c0\<rparr>)"

fun tv_step :: "trip_view_host \<Rightarrow> tv_event \<Rightarrow> trip_view_host" where
  "tv_step v (Tv_render i) = (if tv_mounted v then tv_render i v else v)"
| "tv_step v (User_pan q) =
     (if tv_mounted v \<and> map_ready (tv_canvas v) then v\<lparr>tv_canvas := (tv_canvas v)\<lparr>view_centre := Some q\<rparr>\<rparr> else v)"
| "tv_step v Tv_unmount = v\<lparr>tv_mounted := False\<rparr>"

fun tv_run :: "trip_view_host \<Rightarrow> tv_event list \<Rightarrow> trip_view_host" where
  "tv_run v [] = v"
| "tv_run v (e # es) = tv_run (tv_step v e) es"

definition tv_init :: trip_view_host where
  "tv_init =
     \<lparr>tv_canvas = \<lparr>map_ready = False, canvas = [], layers_ref = [], next_layer = 0,
                   driver_marker = None, view_centre = None\<rparr>,
      tv_last_deps = None, tv_renders = 0, tv_mounted = True\<rparr>"

text \<open>
  The JavaScript values a booking's point may hold, \<open>typeof\<close>, and the guard
  \<open>isValidLatLngTuple\<close> (lines 9-11) the drawing and route effects put before
  using a target.
\<close>

datatype jsval = JNum jsnum | JStr string | JBool bool | JArr "jsval list" | JNull | JUndefined

fun js_typeof :: "jsval \<Rightarrow> string" where
  "js_typeof (JNum _) = ''number''"
| "js_typeof (JStr _) = ''string''"
| "js_typeof (JBool _) = ''boolean''"
| "js_typeof (JArr _) = ''object''"
| "js_typeof JNull = ''object''"
| "js_typeof JUndefined = ''undefined''"

definition is_valid_latlng :: "jsval \<Rightarrow> bool" where
  "is_valid_latlng v =
     (case v of
        JArr xs \<Rightarrow> length xs = 2 \<and> js_typeof (xs ! 0) = ''number'' \<and> js_typeof (xs ! 1) = ''number''
      | _ \<Rightarrow> False)"

text \<open>A location as MapPicker hands it on: the array of its two numbers.\<close>

definition jscoord_val :: "jsnum \<times> jsnum \<Rightarrow> jsval" where
  "jscoord_val c = JArr [JNum (fst c), JNum (snd c)]"

text \<open>The last run's icon is from a render already done.\<close>

definition tv_ok :: "trip_view_host \<Rightarrow> bool" where
  "tv_ok v \<longleftrightarrow> (case tv_last_deps v of None \<Rightarrow> True | Some (_, _, _, k) \<Rightarrow> k \<le> tv_renders v)"

subsection \<open>Lemmas\<close>

lemma tv_step_ok: "tv_ok v \<Longrightarrow> tv_ok (tv_step v e)"
  by (cases e) (auto simp: tv_ok_def tv_render_def driver_icon_def Let_def split: option.splits prod.splits)

lemma tv_run_ok: "tv_ok v \<Longrightarrow> tv_ok (tv_run v es)"
  by (induction es arbitrary: v) (simp_all add: tv_step_ok)

lemma tv_init_ok: "tv_ok tv_init"
  by (simp add: tv_ok_def tv_init_def)

text \<open>The icon of a new render is never the last run's, so the drawing effect always runs.\<close>

lemma tv_render_draws:
  assumes "tv_ok v"
  shows "tv_canvas (tv_render (st, pk, dr, pos, route) v) =
           draw_map st pk dr pos route
             (if map_ready (tv_canvas v) then tv_canvas v
              else (tv_canvas v)\<lparr>map_ready := True, view_centre := Some init_view\<rparr>)"
  using assms by (auto simp: tv_ok_def tv_render_def driver_icon_def Let_def split: option.splits)

lemma draw_map_centre:
  "map_ready c \<Longrightarrow> view_centre (draw_map st pk dr (Some p) route c) = Some p"
  by (simp add: draw_map_def draw_pin_def draw_route_def clear_layers_def draw_driver_def Let_def
      split: option.split)

lemma tv_run_append: "tv_run v (es @ [e]) = tv_step (tv_run v es) e"
  by (induction es arbitrary: v) simp_all

text \<open>Once created, the view's map is never removed, unmount included.\<close>

lemma tv_step_map_ready: "map_ready (tv_canvas v) \<Longrightarrow> map_ready (tv_canvas (tv_step v e))"
  by (cases e) (auto simp: tv_render_def Let_def split: prod.splits)

lemma trip_view_map_never_removed:
  "map_ready (tv_canvas (tv_run (tv_step tv_init (Tv_render i)) es))"
proof -
  have "map_ready (tv_canvas (tv_run v es))" if "map_ready (tv_canvas v)" for v
    using that by (induction es arbitrary: v) (simp_all add: tv_step_map_ready)
  then show ?thesis by (simp add: tv_init_def tv_render_def Let_def split: prod.split)
qed

lemma js_typeof_number: "js_typeof v = ''number'' \<longleftrightarrow> (\<exists>n. v = JNum n)"
  by (cases v) simp_all

text \<open>The guard holds exactly of two-element arrays of numbers.\<close>

lemma is_valid_latlng_iff: "is_valid_latlng v \<longleftrightarrow> (\<exists>a b. v = JArr [JNum a, JNum b])"
proof
  assume "is_valid_latlng v"
  then obtain xs where v: "v = JArr xs" and l: "length xs = 2"
    and n: "js_typeof (xs ! 0) = ''number''" "js_typeof (xs ! 1) = ''number''"
    by (auto simp: is_valid_latlng_def split: jsval.splits)
  from l obtain x y where "xs = [x, y]" by (auto simp: numeral_2_eq_2 length_Suc_conv)
  with v n show "\<exists>a b. v = JArr [JNum a, JNum b]" by (auto simp: js_typeof_number)
qed (auto simp: is_valid_latlng_def)

text \<open>
  \<open>typeof NaN === 'number'\<close>: every location MapPicker hands on passes the guard,
  an unreadable coordinate parsed to NaN included.
\<close>

lemma picker_location_passes_guard: "is_valid_latlng (jscoord_val c)"
  by (simp add: is_valid_latlng_iff jscoord_val_def)

text \<open>C21. Every render of the mounted trip view re-runs the drawing effect, since
  its dependency driverIcon is a new object each time, so the map is re-centred on
  the driver whatever happened before: a pan by the driver is undone by the next
  render, even one that changes none of the drawing's inputs.\<close>

theorem render_recentres_view:
  assumes "tv_mounted (tv_run tv_init es)"
  shows "view_centre (tv_canvas (tv_run tv_init (es @ [Tv_render (st, pk, dr, Some p, route)]))) = Some p"
proof -
  let ?v = "tv_run tv_init es"
  have "tv_ok ?v" by (rule tv_run_ok [OF tv_init_ok])
  then show ?thesis
    using assms by (simp add: tv_run_append tv_render_draws draw_map_centre)
qed

theorem render_recentres_view_witness:
  "tv_mounted (tv_run tv_init [Tv_render (Accepted, Some (15.30, 44.20), Some (15.35, 44.25), Some (15.31, 44.21), None),
                              User_pan (15.0, 44.0)]) \<and>
   view_centre (tv_canvas (tv_run tv_init
     ([Tv_render (Accepted, Some (15.30, 44.20), Some (15.35, 44.25), Some (15.31, 44.21), None),
       User_pan (15.0, 44.0)] @
      [Tv_render (Accepted, Some (15.30, 44.20), Some (15.35, 44.25), Some (15.31, 44.21), None)]))) =
     Some (15.31, 44.21)"
proof
  show "tv_mounted (tv_run tv_init [Tv_render (Accepted, Some (15.30, 44.20), Some (15.35, 44.25), Some (15.31, 44.21), None),
                              User_pan (15.0, 44.0)])"
    by (simp add: tv_init_def tv_render_def Let_def)
  then show "view_centre (tv_canvas (tv_run tv_init
     ([Tv_render (Accepted, Some (15.30, 44.20), Some (15.35, 44.25), Some (15.31, 44.21), None),
       User_pan (15.0, 44.0)] @
      [Tv_render (Accepted, Some (15.30, 44.20), Some (15.35, 44.25), Some (15.31, 44.21), None)]))) =
     Some (15.31, 44.21)"
    by (rule render_recentres_view)
qed

end
