(* ===== verification/Spec2Isabelle.thy ===== *)
theory Spec2Isabelle
  imports TripLifecycle LocationTracker RouteEngine GhostDrivers MapView LocationPicker RequestCard Dashboard DriverWidgets PickerView PickerHost TripRender
begin

text \<open>
  Verification development of the driver-side runtime of the ride-hailing
  application under src/components: the trip lifecycle, the live driver location,
  the route and ETA estimate kept in step with the driver, the driver's dashboard
  with its request cards, the nearby-driver simulation, place search and location
  picking of the map picker, the map drawing of the trip view, and the fare and
  earnings arithmetic.

  \<^bold>\<open>The program and how its parts interact.\<close>
  DriverApp (DriverApp.tsx) subscribes to the booking directory and keeps the
  delivered set as its local view; it derives the active trip (the first booking in
  accepted, arrived or in progress) and the pending requests, and owns the handlers
  \<open>handleAccept\<close>, \<open>handleTripUpdate\<close>, \<open>handleToggleOnline\<close> and
  \<open>updateBookingStatus\<close>, which writes the directory, awaits the write, then
  updates the trip history (kept in local storage) and the background service's
  trip status. While no trip is active it renders DriverDashboard: a map with the
  driver's marker (grey while offline), the go button, and under it the offline
  notice, or the tabs with the request cards or the earnings and recent trips.
  Each RequestCard (RequestCard.tsx) shows one pending request with its fare and,
  after a delay staggered by its position, its reverse-geocoded addresses, and
  offers accept and decline. While a trip is active DriverApp renders
  ActiveTripView (ActiveTripView.tsx) keyed by the trip's id; the view offers the
  slider for the displayed status and the summary's confirm button, polls the
  stored driver location every second through a jitter filter, lets a click on the
  map set the position, and debounces the route and label fetches to the current
  target. MapPicker (MapPicker.tsx) lets the rider pick a location (device
  position, map click or place search, each reverse-geocoded to an address) and
  animates simulated nearby drivers while a pickup location is selected.

  \<^bold>\<open>Theories.\<close>
  \<^item> \<open>Prelude\<close>: coordinates as pairs of exact reals, time in milliseconds,
    JavaScript's truthiness of an optional number, list helpers, the collections
    \<open>step_simps\<close> (equations that evaluate the handlers) and \<open>inv_facts\<close>.
  \<^item> \<open>JsString\<close>: JavaScript's \<open>split\<close> with a one-character separator
    (\<open>js_split\<close>, empty pieces kept) and \<open>join\<close> (\<open>js_join\<close>), the reference
    semantics of the address expressions \<open>addr.split(',')[0]\<close>,
    \<open>split(',').slice(0, 2).join(',')\<close> and \<open>nameParts.slice(1).join(',')\<close>.
  \<^item> \<open>Booking\<close>: the \<open>Booking\<close> record and its status (from \<open>types.ts\<close>, not under
    src/, modelled from the spec), the directory's write \<open>db_update_status\<close> (from
    \<open>services/index\<close>, modelled from the spec), DriverApp's \<open>active_trip\<close> and
    \<open>pending_requests\<close>, and the spec's contract \<open>lifecycle_edge\<close>.
  \<^item> \<open>TripLifecycle\<close>: one record \<open>app_state\<close> holds the directory's set, local
    storage, DriverApp's state, the awaited writes (each with the values its
    closure captured) and the mounted view's state. \<open>app_handle\<close> is one handler
    per event (\<open>Deliver\<close>: the subscription callback and the view's remount and
    status effect; \<open>Accept\<close>, \<open>Decline\<close>, \<open>Slide\<close>, \<open>Confirm\<close>: the UI;
    \<open>Resolve i\<close>: the \<open>i\<close>-th awaited write settles; \<open>NewRequest\<close>: a rider
    books; \<open>LocationFeed\<close>: the location subscription). \<open>app_enabled\<close> says what
    the UI offers; \<open>app_reach\<close> is the set of reachable states.
  \<^item> \<open>LocationTracker\<close>: \<open>update_position\<close> is one poll of the storage slot
    (\<open>updatePosition\<close>), \<open>click_to_drive\<close> the map's click handler.
  \<^item> \<open>RouteEngine\<close>: \<open>nav_state\<close> with an explicit clock; \<open>schedule_navigation\<close>
    is the effect re-run (clear the timer, set a new one), \<open>elapse\<close> lets time
    pass and fires the timer, \<open>start_navigation\<close>, \<open>geocode_done\<close> and
    \<open>route_done\<close> are \<open>updateNavigation\<close> split at its two \<open>await\<close>s;
    \<open>eta_minutes\<close> and \<open>header_info\<close> are the ETA cell and the header.
  \<^item> \<open>GhostDrivers\<close>: the ghost-car effect as numbered runs sharing one marker
    list; \<open>sim_run\<close>, \<open>sim_fetched\<close>, \<open>sim_tick\<close> and \<open>cleanup_current\<close> are the
    effect's body, its continuation, the interval callback and the cleanup.
  \<^item> \<open>MapView\<close>: ActiveTripView's drawing effect against the rendering
    interface: layers with identity on a \<open>map_canvas\<close>; \<open>draw_map\<close> is one run
    (\<open>clear_layers\<close>, \<open>draw_route\<close>, \<open>draw_driver\<close>, \<open>draw_pin\<close>).
  \<^item> \<open>Fare\<close>: JavaScript numbers (exact reals, NaN, infinities), \<open>parseFloat\<close>
    from the ECMAScript grammar, the price \<open>fare\<close> of RequestCard and
    TripHistoryItem, the dashboard's \<open>earnings\<close>, the summary's literal amount and
    the decimal rendering \<open>show_nat\<close> of a natural number.
  \<^item> \<open>SearchOverlay\<close>: MapPicker's place search: \<open>search_effect\<close> is the
    effect on \<open>[query, language]\<close>, \<open>so_elapse\<close> fires its 500 ms timer,
    \<open>search_done\<close> is the callback after its \<open>await\<close>, \<open>overlay_rows\<close> the
    rendered list; \<open>debounced\<close> is the abstract timeline specification of the
    debounce.
  \<^item> \<open>LocationPicker\<close>: the rest of MapPicker: \<open>picker\<close> holds its refs and
    state; the handlers (\<open>initial_fix_done\<close>, \<open>map_click\<close>,
    \<open>my_location_click\<close>, \<open>button_fix_done\<close>, \<open>select_from_search\<close>,
    \<open>confirm_location\<close>) update the state as one batch, then \<open>run_effects\<close>
    runs the marker, pin and reverse-geocode effects whose dependencies changed.
    Leaflet's throw on a NaN coordinate (\<open>leaflet_latlng_ok\<close>) is recorded in
    \<open>pk_error\<close>, and \<open>picker_run\<close> stops there.
  \<^item> \<open>RequestCard\<close>: a card's staggered timer (\<open>stagger_delay\<close>), the effect's
    re-run on changed dependencies (\<open>rc_rerun\<close>), and every run of
    \<open>fetchAddresses\<close> split at its two \<open>await\<close>s (\<open>start_fetch\<close>,
    \<open>lookup_done\<close>) with the \<open>catch\<close> (\<open>fetch_failed\<close>); \<open>card_header\<close> and
    \<open>card_lines\<close> are what the card shows. Texts are symbolic.
  \<^item> \<open>Dashboard\<close>: DriverDashboard's state (\<open>dashboard\<close>), its map and marker
    effects (\<open>map_effect\<close>, \<open>marker_effect\<close>), the panel it renders
    (\<open>dashboard_panel\<close>), the history row's time (\<open>clock_label\<close>), and
    \<open>driver_ui\<close>, which composes the app of TripLifecycle with the dashboard
    through DriverApp's conditional render (\<open>reconcile\<close>: unmount, mount or
    re-render) and records \<open>handleToggleOnline\<close>'s calls. \<open>ui_enabled\<close> offers a
    card's buttons only while the card is on the screen.
  \<^item> \<open>PickerView\<close>: MapPicker's render (\<open>picker_screen\<close>: search bar, message,
    my-location button, footer caption and address line); once the first fix is
    handled a location is always selected, so the footer never shows \<open>'...'\<close>.
  \<^item> \<open>PickerHost\<close>: MapPicker inside its host (\<open>picker_host\<close>): the map created
    by \<open>initializeMap\<close> once the first fix is handled, the cleanup
    \<open>unmount_picker\<close> that removes it, and awaits settling after unmount, which
    React ignores, and the crash of the tree after a Leaflet error, which runs the
    cleanup; the host counts the maps created and removed.
  \<^item> \<open>DriverWidgets\<close>: the presentation components as functions of their props
    (\<open>driver_top_bar\<close>, \<open>go_button_label\<close>, \<open>status_indicator\<close>,
    \<open>trip_history_item\<close>, ActiveTripView's \<open>trip_stats\<close> and \<open>zoom_button\<close>), related
    to the state they show.
  \<^item> \<open>TripRender\<close>: ActiveTripView's renders (\<open>tv_render\<close>): the map created on
    the first, then the drawing effect of MapView whenever its dependency list
    changed, which it always does since \<open>driver_icon\<close>, a new object per render,
    is in it; the driver's pan (\<open>User_pan\<close>) and an unmount without cleanup;
    \<open>is_valid_latlng\<close>, the guard \<open>isValidLatLngTuple\<close> over JavaScript values.
  \<^item> This theory: the spec's scenario and the properties that span components.

  \<^bold>\<open>What is proved.\<close>
  Trip lifecycle: an invariant of the reachable states (the local view is a
  snapshot of a prefix of the directory's set, each status at most one step behind),
  from which no server-side status ever moves backwards (C1), every UI write
  follows one lifecycle edge (C2), and the summary shows only over an in-progress
  trip (C8); the accept guard (C3, C4), completion (C6) and the round trip of the
  stored history (C31). Route: the debounce starts exactly one navigation per burst
  (C9), an unmounted view applies no in-flight result (C11), and a settled label is
  never fetched again (C13). Simulator: the random-walk bound (C16), no leaked
  interval when fetches settle in order (C17). The scenario of the spec (C19). Map:
  a redraw replaces exactly its own layers (C20), and every render of the trip view
  re-runs the drawing effect and re-centres the map on the driver (C21). Search:
  only long queries are searched (C23), and the timer-driven effect refines the
  abstract debounce specification \<open>debounced\<close> (C24). Picker: the fetching flag
  is always backed by a pending lookup (C26), and the picker never leaves its map
  behind, whenever it is unmounted, a crash included (C30). Request card: a fetch
  ends after at most two lookups whatever they answer, showing both lines (C32).
  Dashboard: in every run the dashboard is mounted exactly while no trip is active
  and its map follows the location feed (C35); the rendered UI refines the app
  model, so the lifecycle properties hold of the UI's runs (C36); the request cards
  are the pending requests with staggered lookups (C38); the time label of a
  history row reads back (C39).
  The concrete runs and safety statements C5, C7, C10, C12, C14, C15, C18, C21,
  C22, C25, C27, C28, C29, C33, C34 and C37 exhibit behaviours of the code that the
  spec rules out or leaves open (see the findings of the manifest). Further lemmas
  of the component theories (the ETA formula as integer division, the jitter filter
  on both sides of the threshold, the threshold's strict comparison, the route kept
  on a failed lookup, the click override, the restart of the simulation, the
  earnings as the sum of finite fares and their lower bound, the stale search
  results and message timer, the pin without a route while arrived, the summary's
  literal amount, the stale background status, the trip view's map never removed,
  \<open>isValidLatLngTuple\<close> accepting NaN) back the remaining findings; the
  components' address shortcuts are shown equal to JavaScript's \<open>split\<close>,
  \<open>slice\<close> and \<open>join\<close> (\<open>result_row_split_join\<close>,
  \<open>first_two_parts_split_slice_join\<close>, \<open>geocode_label_split\<close>).

  \<^bold>\<open>Bounds and modelling choices.\<close>
  No fuel is needed: every handler is a terminating function and runs are finite
  event lists. Coordinates are exact reals, so the rounding of doubles is not
  modelled (the code compares distances far above double precision). Timers are
  deadlines on an explicit millisecond clock; the order in which awaited results
  settle is chosen by the environment (\<open>Resolve i\<close>, \<open>GeocodeDone i\<close>,
  \<open>RouteDone i\<close>, \<open>Fetched k\<close>, \<open>Lookup_done k\<close>), which covers every
  interleaving of the single-threaded event loop. The directory's write takes
  effect when issued. React batches the state updates of one synchronous block and
  then runs the effects whose dependencies changed (arrays compare by identity, so
  every \<open>setSelectedLocation\<close> and \<open>setDriverPosition\<close> is a change); the models
  follow that order. A request card's effect re-run is an event of its own
  (\<open>Rc_rerun\<close>); when the directory redelivers the set, whether its \<open>pickup\<close>
  arrays are new objects depends on the transport outside src/, so the card model
  leaves that choice to the environment.
  An exception is modelled where the code does not catch it and it changes what
  happens: Leaflet's throw on a NaN coordinate in MapPicker is the abrupt
  completion \<open>pk_error\<close>, after which the unmounted tree handles no event. The
  directory's write, the geocoder and the router follow the spec's interfaces,
  which answer or return nothing and never reject; a rejected write, which would
  skip \<open>updateBookingStatus\<close>'s continuation, is not modelled. Strings are byte
  strings: \<open>trim\<close> and \<open>parseFloat\<close> recognise ASCII whitespace only, not the
  other Unicode spaces JavaScript strips.

  \<^bold>\<open>Not modelled.\<close>
  Map tiles, icons, class names, animations and styling and the localised texts
  (pure rendering; the spec treats rendering and localisation as external
  collaborators); Leaflet's own behaviour behind a zoom or pan command; the rounding of
  \<open>toFixed(1)\<close>, \<open>toFixed(2)\<close> and \<open>toFixed(3)\<close> (texts are kept symbolic); the
  background service's \<open>goOnline\<close>/\<open>goOffline\<close> and \<open>setActiveTripStatus\<close>
  beyond recording the calls (outside src/);
  the conversion of a booking's \<open>time\<close> to local hours and minutes (\<open>Date\<close>), of
  which only the label's formatting is modelled; the use of
  \<open>isValidLatLngTuple\<close> inside the route and drawing effects, whose targets in the
  model are pairs of exact reals as the spec's data model requires (the guard
  itself is \<open>TripRender.is_valid_latlng\<close>, shown to accept NaN).
\<close>

subsection \<open>Scenario data\<close>

text \<open>
  The route engine's events over the scenario: the trip accepted (pickup), the
  label and route settling, the driver arriving, the trip starting (drop).
\<close>

definition scenario_nav_events :: "nav_event list" where
  "scenario_nav_events =
     [Deps scenario_deps, Elapse 1000, GeocodeDone 0 (Some ''Pickup Street, Sanaa''),
      RouteDone 0 (Some [(15.0, 44.0), (15.30, 44.20)]),
      Deps (scenario_deps\<lparr>nd_status := Arrived\<rparr>), Elapse 1000,
      Deps (scenario_deps\<lparr>nd_status := In_progress\<rparr>), Elapse 1000]"

text \<open>
  The same scenario through DriverApp's rendered tree: the accept is a tap on
  the request card, and once the trip is completed the driver opens the earnings
  tab of the dashboard.
\<close>

definition ui_scenario :: "ui_event list" where
  "ui_scenario =
     map App trip_to_summary @ [App Confirm, App (Resolve 0), App Deliver, Tab_click Earnings_tab]"

subsection \<open>The spec's scenario\<close>

text \<open>
  C19. The scenario of the spec (section 8) through the UI: booking b1 is
  delivered, accepted from its request card, arrives, starts and is completed,
  each write settling and the set being redelivered. The route target is the
  pickup while accepted and the drop while in progress; at the end the trip is the
  only entry of the stored history, there is no active trip, the background trip
  status is cleared, and the dashboard, mounted again, shows on its earnings tab
  one trip, the revenue 4.5 (the fare of 5 km) and the trip as the recent one,
  while the dashboard's first map was left behind.
\<close>

theorem scenario_lifecycle:
  "ui_valid (ui_init [scenario_b1] None True) ui_scenario \<and>
   map_option (\<lambda>t. nav_target (status t) (pickup t) (drop_loc t))
     (active_trip (all_bookings (app_run (app_init [scenario_b1] None True)
        [Deliver, Accept ''b1'', Resolve 0, Deliver]))) = Some (Some (15.30, 44.20)) \<and>
   map_option (\<lambda>t. nav_target (status t) (pickup t) (drop_loc t))
     (active_trip (all_bookings (app_run (app_init [scenario_b1] None True) trip_to_summary))) =
     Some (Some (15.35, 44.25)) \<and>
   active_trip (all_bookings (ui_app (ui_run (ui_init [scenario_b1] None True) ui_scenario))) = None \<and>
   trip_history (ui_app (ui_run (ui_init [scenario_b1] None True) ui_scenario)) =
     [scenario_b1\<lparr>status := Completed\<rparr>] \<and>
   stored_history (ui_app (ui_run (ui_init [scenario_b1] None True) ui_scenario)) =
     Some [scenario_b1\<lparr>status := Completed\<rparr>] \<and>
   bg_trip_status (ui_app (ui_run (ui_init [scenario_b1] None True) ui_scenario)) = None \<and>
   ui_screen (ui_run (ui_init [scenario_b1] None True) ui_scenario) =
     Dashboard_screen (Earnings_panel 1 (Fin 4.5) [scenario_b1\<lparr>status := Completed\<rparr>]) None \<and>
   detached_maps (ui_run (ui_init [scenario_b1] None True) ui_scenario) = 1"
  by (simp add: ui_scenario_def trip_to_summary_def step_simps nav_target_def ui_init_def
      dash_mount_def map_effect_def marker_effect_def reconcile_def dash_update_def shown_cards_cases
      ui_screen_def dashboard_panel_def request_badge_def set_active_tab_def earnings_def parse_simps)

subsection \<open>Behaviours across the handlers\<close>

text \<open>
  C5. Two accepts issued from the same local view, before the directory's set is
  redelivered, both pass \<open>handleAccept\<close>'s guard: the directory then holds two
  active trips, against the spec's invariant of at most one.
\<close>

theorem accept_race_two_active:
  "app_reach (app_init [scenario_b1, scenario_b1\<lparr>bid := ''b2''\<rparr>] None True) \<and>
   app_valid (app_init [scenario_b1, scenario_b1\<lparr>bid := ''b2''\<rparr>] None True)
     [Deliver, Accept ''b1'', Accept ''b2''] \<and>
   \<not> one_active (db (app_run (app_init [scenario_b1, scenario_b1\<lparr>bid := ''b2''\<rparr>] None True)
     [Deliver, Accept ''b1'', Accept ''b2'']))"
proof -
  have "app_reach (app_init [scenario_b1, scenario_b1\<lparr>bid := ''b2''\<rparr>] None True)"
    by (rule app_reach.init) (simp add: scenario_b1_def)
  then show ?thesis by (simp add: step_simps one_active_def)
qed

text \<open>
  C7. Confirming the summary again after the first completion write settled but
  before the directory redelivers the set completes the trip a second time: the
  second closure captures the history that already holds the trip, so the history
  then holds it twice. Two taps before the first write settles capture the same
  history and record the trip once.
\<close>

theorem double_completion_counted_twice:
  "app_reach (app_init [scenario_b1] None True) \<and>
   app_valid (app_init [scenario_b1] None True) (trip_to_summary @ [Confirm, Resolve 0, Confirm, Resolve 0]) \<and>
   trip_history (app_run (app_init [scenario_b1] None True)
     (trip_to_summary @ [Confirm, Resolve 0, Confirm, Resolve 0])) =
     [scenario_b1\<lparr>status := Completed\<rparr>, scenario_b1\<lparr>status := Completed\<rparr>] \<and>
   app_valid (app_init [scenario_b1] None True) (trip_to_summary @ [Confirm, Confirm, Resolve 0, Resolve 0]) \<and>
   trip_history (app_run (app_init [scenario_b1] None True)
     (trip_to_summary @ [Confirm, Confirm, Resolve 0, Resolve 0])) =
     [scenario_b1\<lparr>status := Completed\<rparr>]"
proof -
  have "app_reach (app_init [scenario_b1] None True)"
    by (rule app_reach.init) (simp add: scenario_b1_def)
  then show ?thesis by (simp add: step_simps trip_to_summary_def)
qed

text \<open>
  Writes settling out of order move the background trip status backwards: the
  arrived write settling after the in-progress one leaves the background service
  at arrived while the directory holds the trip in progress.
\<close>

theorem stale_bg_status:
  "app_valid (app_init [scenario_b1] None True)
     [Deliver, Accept ''b1'', Resolve 0, Deliver, Slide, Deliver, Slide, Resolve 1, Resolve 0] \<and>
   bg_trip_status (app_run (app_init [scenario_b1] None True)
     [Deliver, Accept ''b1'', Resolve 0, Deliver, Slide, Deliver, Slide, Resolve 1, Resolve 0]) =
     Some Arrived \<and>
   map status (db (app_run (app_init [scenario_b1] None True)
     [Deliver, Accept ''b1'', Resolve 0, Deliver, Slide, Deliver, Slide, Resolve 1, Resolve 0])) =
     [In_progress]"
  by (simp add: step_simps)

text \<open>
  C15. The map's click handler is registered once, when the view mounts, and keeps
  the status of that render: after the trip has moved on to arrived, a click still
  broadcasts the driver's location with the status accepted.
\<close>

theorem stale_click_status:
  "app_valid (app_init [scenario_b1] None True)
     [Deliver, Accept ''b1'', Resolve 0, Deliver, Slide, Resolve 0, Deliver] \<and>
   map_option status (active_trip (all_bookings (app_run (app_init [scenario_b1] None True)
     [Deliver, Accept ''b1'', Resolve 0, Deliver, Slide, Resolve 0, Deliver]))) = Some Arrived \<and>
   click_status (app_run (app_init [scenario_b1] None True)
     [Deliver, Accept ''b1'', Resolve 0, Deliver, Slide, Resolve 0, Deliver]) = Some Accepted \<and>
   sink (click_to_drive 15.4 44.3
     (the (click_status (app_run (app_init [scenario_b1] None True)
        [Deliver, Accept ''b1'', Resolve 0, Deliver, Slide, Resolve 0, Deliver])))
     \<lparr>driver_pos = None, slot = NoData, sink = []\<rparr>) =
     [\<lparr>lb_pos = (15.4, 44.3), lb_online = True, lb_status = Accepted\<rparr>]"
  by (simp add: step_simps click_to_drive_def)

text \<open>
  C12. Across the trip: the label fetched for the pickup while accepted is never
  refetched when the target switches to the drop, so while in progress the header
  reads "Dropping off at" followed by the pickup's label, although the route is
  fetched to the drop.
\<close>

theorem drop_label_never_fetched:
  "geocode_log (nav_run nav_init scenario_nav_events) = [((15.30, 44.20), ''en'')] \<and>
   last (route_log (nav_run nav_init scenario_nav_events)) = ((15.0, 44.0), (15.35, 44.25)) \<and>
   header_info In_progress (destination_address (nav_run nav_init scenario_nav_events)) =
     Header_dropoff ''Pickup Street''"
  by (simp add: scenario_nav_events_def nav_init_def scenario_deps_def scenario_b1_def
      schedule_navigation_def elapse_def start_navigation_def nav_target_def route_phase_def
      geocode_done_def route_done_def geocode_label_def header_info_def debounce_delay_def
      remove_nth_def)

text \<open>
  While the trip is arrived the route engine has no target, yet the map
  still draws a pin, red, at the drop location: the drawing effect selects
  \<open>trip.status === 'accepted' ? trip.pickup : trip.drop\<close>, the route engine
  \<open>accepted \<mapsto> pickup, in_progress \<mapsto> drop, otherwise none\<close>.
\<close>

theorem arrived_pin_without_route:
  "nav_target Arrived (pickup scenario_b1) (drop_loc scenario_b1) = None \<and>
   map snd (owned (draw_map Arrived (pickup scenario_b1) (drop_loc scenario_b1) (Some (15.30, 44.20)) None
     prior_canvas)) = [Target_pin (15.35, 44.25) Red_pin]"
  by (simp add: nav_target_def draw_map_def draw_pin_def pin_target_def draw_driver_def draw_route_def
      clear_layers_def owned_def prior_canvas_def scenario_b1_def)

text \<open>
  After the spec's scenario the dashboard's earnings are the scenario's fare,
  \<open>5 * 0.5 + 2 = 4.5\<close>, while the trip summary the driver confirmed showed the
  literal amount 8.50 whatever the distance.
\<close>

theorem summary_amount_ignores_fare:
  "earnings (trip_history (app_run (app_init [scenario_b1] None True)
     (trip_to_summary @ [Confirm, Resolve 0, Deliver]))) = Fin 4.5 \<and>
   summary_amount = 8.5"
  by (simp add: step_simps trip_to_summary_def earnings_def summary_amount_def parse_simps)

end
